theory Spec2Isabelle
  imports Main "HOL-Library.Word" "HOL-Library.Sublist" "HOL-Library.AList"
begin

unbundle bit_operations_syntax

section \<open>Errors\<close>

text \<open>
  Go error values. \<open>Errorf\<close> keeps the format string of the \<^verbatim>\<open>fmt.Errorf\<close> call and its
  arguments (\<open>S\<close> for \<^verbatim>\<open>%s\<close>, \<open>D\<close> for \<^verbatim>\<open>%d\<close>, \<open>W\<close> for a wrapped error \<^verbatim>\<open>%w\<close>);
  \<open>Transport\<close> is an error value handed back by the remote client itself.
\<close>

datatype error = Transport string | Errorf string "arg list"
and arg = S string | D int | W error

section \<open>Strings\<close>

definition isDigit :: "char \<Rightarrow> bool" where
  "isDigit c = (48 \<le> (of_char c :: nat) \<and> (of_char c :: nat) \<le> 57)"

definition digitVal :: "char \<Rightarrow> nat" where
  "digitVal c = (of_char c :: nat) - 48"

text \<open>ASCII lower-casing of one byte, as \<^verbatim>\<open>strings.ToLower\<close> and \<^verbatim>\<open>strings.EqualFold\<close>
  act on the ASCII letters.\<close>

definition toLowerASCII :: "char \<Rightarrow> char" where
  "toLowerASCII c =
     (if 65 \<le> (of_char c :: nat) \<and> (of_char c :: nat) \<le> 90
      then char_of ((of_char c :: nat) + 32) else c)"

definition ToLower :: "string \<Rightarrow> string" where
  "ToLower s = map toLowerASCII s"

text \<open>\<^verbatim>\<open>strings.Split(s, sep)\<close> for a separator of one byte: never returns the empty list.\<close>

fun Split :: "char \<Rightarrow> string \<Rightarrow> string list" where
  "Split c [] = [[]]"
| "Split c (x # xs) =
     (if x = c then [] # Split c xs
      else (case Split c xs of [] \<Rightarrow> [[x]] | y # ys \<Rightarrow> (x # y) # ys))"

section \<open>UUIDs (github.com/google/uuid)\<close>

type_synonym byte = "8 word"

text \<open>\<^verbatim>\<open>type UUID [16]byte\<close>; every value the program builds has sixteen bytes.\<close>

datatype UUID = UUID (bytes: "byte list")

definition hexdigit :: "nat \<Rightarrow> char" where
  "hexdigit n = ''0123456789abcdef'' ! n"

definition hexByte :: "byte \<Rightarrow> string" where
  "hexByte b = [hexdigit (unat b div 16), hexdigit (unat b mod 16)]"

definition encodeHex :: "byte list \<Rightarrow> string" where
  "encodeHex bs = concat (map hexByte bs)"

text \<open>\<^verbatim>\<open>func (uuid UUID) String() string\<close>: the form
  \<^verbatim>\<open>xxxxxxxx-xxxx-xxxx-xxxx-xxxxxxxxxxxx\<close> in lower-case hexadecimal.\<close>

definition uuid_String :: "UUID \<Rightarrow> string" where
  "uuid_String u =
     encodeHex (take 4 (bytes u)) @ ''-'' @
     encodeHex (take 2 (drop 4 (bytes u))) @ ''-'' @
     encodeHex (take 2 (drop 6 (bytes u))) @ ''-'' @
     encodeHex (take 2 (drop 8 (bytes u))) @ ''-'' @
     encodeHex (drop 10 (bytes u))"

text \<open>The table \<^verbatim>\<open>xvalues\<close>: the value of a hexadecimal digit of either case.\<close>

definition xvalue :: "char \<Rightarrow> nat option" where
  "xvalue c =
     (let n = (of_char c :: nat) in
      if 48 \<le> n \<and> n \<le> 57 then Some (n - 48)
      else if 97 \<le> n \<and> n \<le> 102 then Some (n - 87)
      else if 65 \<le> n \<and> n \<le> 70 then Some (n - 55)
      else None)"

text \<open>\<^verbatim>\<open>xtob(x1, x2)\<close>: the byte \<^verbatim>\<open>xvalues[x1]<<4 | xvalues[x2]\<close>, which is
  \<open>16 * h + l\<close> for two digit values below sixteen.\<close>

definition xtob :: "char \<Rightarrow> char \<Rightarrow> byte option" where
  "xtob x1 x2 =
     (case (xvalue x1, xvalue x2) of
        (Some h, Some l) \<Rightarrow> Some (of_nat (16 * h + l))
      | _ \<Rightarrow> None)"

fun decodePairs :: "string \<Rightarrow> byte list option" where
  "decodePairs (x1 # x2 # rest) =
     (case xtob x1 x2 of
        None \<Rightarrow> None
      | Some b \<Rightarrow> (case decodePairs rest of None \<Rightarrow> None | Some bs \<Rightarrow> Some (b # bs)))"
| "decodePairs _ = Some []"

definition invalidFormat :: error where
  "invalidFormat = Errorf ''invalid UUID format'' []"

text \<open>The common tail of \<^verbatim>\<open>uuid.Parse\<close>: \<open>s\<close> has at least 36 bytes, the hyphens are at
  8, 13, 18 and 23 and the sixteen digit pairs at the fixed offsets; bytes from offset 36
  on are not looked at.\<close>

definition parseCanonical :: "string \<Rightarrow> error + UUID" where
  "parseCanonical s =
     (if s ! 8 \<noteq> CHR ''-'' \<or> s ! 13 \<noteq> CHR ''-'' \<or> s ! 18 \<noteq> CHR ''-'' \<or> s ! 23 \<noteq> CHR ''-''
      then Inl invalidFormat
      else (case decodePairs (take 8 s @ take 4 (drop 9 s) @ take 4 (drop 14 s) @
                              take 4 (drop 19 s) @ take 12 (drop 24 s)) of
              None \<Rightarrow> Inl invalidFormat
            | Some bs \<Rightarrow> Inr (UUID bs)))"

text \<open>\<^verbatim>\<open>func Parse(s string) (UUID, error)\<close>: the lengths 36, 36+9 (\<^verbatim>\<open>urn:uuid:\<close> prefix,
  any case), 36+2 (first byte dropped) and 32 (no hyphens) are accepted.\<close>

definition uuid_Parse :: "string \<Rightarrow> error + UUID" where
  "uuid_Parse s =
     (if length s = 36 then parseCanonical s
      else if length s = 36 + 9 then
        (if ToLower (take 9 s) \<noteq> ''urn:uuid:''
         then Inl (Errorf ''invalid urn prefix: %q'' [S (take 9 s)])
         else parseCanonical (drop 9 s))
      else if length s = 36 + 2 then parseCanonical (drop 1 s)
      else if length s = 32 then
        (case decodePairs s of None \<Rightarrow> Inl invalidFormat | Some bs \<Rightarrow> Inr (UUID bs))
      else Inl (Errorf ''invalid UUID length: %d'' [D (int (length s))]))"

section \<open>CIDR parsing (package net)\<close>

text \<open>
  \<^verbatim>\<open>net.ParseCIDR\<close> belongs to the Go standard library. The IPv4 side is modelled in
  full. The IPv6 side (\<^verbatim>\<open>netip.parseIPv6\<close>, and the text form of a sixteen-byte address)
  is a parameter of the model: \<open>parseIPv6\<close> returns the sixteen bytes and the zone.
\<close>

record ipv6lib =
  parseIPv6 :: "string \<Rightarrow> (byte list \<times> string) option"
  string16 :: "byte list \<Rightarrow> string"

definition decimal :: "string \<Rightarrow> nat" where
  "decimal s = foldl (\<lambda>n c. n * 10 + digitVal c) 0 s"

text \<open>One field of \<^verbatim>\<open>netip.parseIPv4Fields\<close>: at least one digit, digits only, no leading
  zero before another digit, value at most 255.\<close>

definition parseOctet :: "string \<Rightarrow> byte option" where
  "parseOctet f =
     (if f = [] \<or> \<not> list_all isDigit f \<or> (1 < length f \<and> hd f = CHR ''0'') \<or> 255 < decimal f
      then None else Some (of_nat (decimal f)))"

text \<open>\<^verbatim>\<open>netip.parseIPv4\<close>: exactly four fields separated by dots.\<close>

definition parseIPv4 :: "string \<Rightarrow> byte list option" where
  "parseIPv4 s =
     (let fs = Split (CHR ''.'') s in
      if length fs \<noteq> 4 then None else those (map parseOctet fs))"

datatype Addr = Addr4 "byte list" | Addr6 "byte list" string

text \<open>\<^verbatim>\<open>netip.ParseAddr\<close>: the first of \<^verbatim>\<open>. : %\<close> in the text chooses the parser.\<close>

fun ParseAddr_scan :: "ipv6lib \<Rightarrow> string \<Rightarrow> string \<Rightarrow> Addr option" where
  "ParseAddr_scan lib s [] = None"
| "ParseAddr_scan lib s (c # cs) =
     (if c = CHR ''.'' then map_option Addr4 (parseIPv4 s)
      else if c = CHR '':'' then map_option (\<lambda>(bs, z). Addr6 bs z) (parseIPv6 lib s)
      else if c = CHR ''%'' then None
      else ParseAddr_scan lib s cs)"

definition ParseAddr :: "ipv6lib \<Rightarrow> string \<Rightarrow> Addr option" where
  "ParseAddr lib s = ParseAddr_scan lib s s"

definition big :: int where
  "big = 0xFFFFFF"

text \<open>\<^verbatim>\<open>net.dtoi\<close>: the leading decimal digits of \<open>s\<close> as a Go \<^verbatim>\<open>int\<close>, their count, and
  whether a number below \<open>big\<close> was read.\<close>

fun dtoi_loop :: "int \<Rightarrow> nat \<Rightarrow> string \<Rightarrow> int \<times> nat \<times> bool" where
  "dtoi_loop n i [] = (n, i, True)"
| "dtoi_loop n i (c # cs) =
     (if isDigit c
      then (if big \<le> n * 10 + int (digitVal c) then (big, i, False)
            else dtoi_loop (n * 10 + int (digitVal c)) (Suc i) cs)
      else (n, i, True))"

definition dtoi :: "string \<Rightarrow> int \<times> nat \<times> bool" where
  "dtoi s =
     (case dtoi_loop 0 0 s of
        (n, i, ok) \<Rightarrow> if \<not> ok then (n, i, False) else if i = 0 then (0, 0, False) else (n, i, True))"

text \<open>\<^verbatim>\<open>net.CIDRMask(ones, bits)\<close> for \<open>ones \<le> bits\<close>, byte by byte.\<close>

fun maskBytes :: "nat \<Rightarrow> nat \<Rightarrow> byte list" where
  "maskBytes 0 n = []"
| "maskBytes (Suc l) n =
     (if 8 \<le> n then 0xff # maskBytes l (n - 8)
      else (NOT (drop_bit n (0xff :: byte))) # maskBytes l 0)"

definition CIDRMask :: "nat \<Rightarrow> nat \<Rightarrow> byte list" where
  "CIDRMask ones bits = maskBytes (bits div 8) ones"

record IPNet =
  IP :: "byte list"
  Mask :: "byte list"

definition BitLen :: "Addr \<Rightarrow> nat" where
  "BitLen a = (case a of Addr4 _ \<Rightarrow> 32 | Addr6 _ _ \<Rightarrow> 128)"

definition Zone :: "Addr \<Rightarrow> string" where
  "Zone a = (case a of Addr4 _ \<Rightarrow> [] | Addr6 _ z \<Rightarrow> z)"

definition addrBytes :: "Addr \<Rightarrow> byte list" where
  "addrBytes a = (case a of Addr4 bs \<Rightarrow> bs | Addr6 bs _ \<Rightarrow> bs)"

definition cidrError :: "string \<Rightarrow> error" where
  "cidrError s = Errorf ''invalid CIDR address: %s'' [S s]"

text \<open>\<^verbatim>\<open>net.ParseCIDR\<close>, returning the \<^verbatim>\<open>*IPNet\<close>: the address is cut at the first slash,
  the prefix length is a decimal number that fills the rest and does not exceed the bit
  length, and the network address is the address under the mask (four bytes for IPv4).\<close>

definition ParseCIDR :: "ipv6lib \<Rightarrow> string \<Rightarrow> error + IPNet" where
  "ParseCIDR lib s =
     (if CHR ''/'' \<notin> set s then Inl (cidrError s)
      else
        (let addr = takeWhile (\<lambda>c. c \<noteq> CHR ''/'') s;
             mask = drop (Suc (length addr)) s
         in case ParseAddr lib addr of
              None \<Rightarrow> Inl (cidrError s)
            | Some ipAddr \<Rightarrow>
                if Zone ipAddr \<noteq> [] then Inl (cidrError s)
                else (case dtoi mask of
                        (n, i, ok) \<Rightarrow>
                          if \<not> ok \<or> i \<noteq> length mask \<or> n < 0 \<or> int (BitLen ipAddr) < n
                          then Inl (cidrError s)
                          else (let m = CIDRMask (nat n) (BitLen ipAddr)
                                in Inr \<lparr>IP = map2 (AND) (addrBytes ipAddr) m, Mask = m\<rparr>))))"

text \<open>\<^verbatim>\<open>IPMask.Size\<close> through \<^verbatim>\<open>simpleMaskLength\<close>: the number of leading one bits of
  a canonical mask; the inner loop shifts a byte at most eight times.\<close>

fun countOnes :: "nat \<Rightarrow> byte \<Rightarrow> nat \<times> byte" where
  "countOnes 0 v = (0, v)"
| "countOnes (Suc k) v =
     (if v AND 0x80 \<noteq> 0
      then (case countOnes k (push_bit 1 v) of (n, v') \<Rightarrow> (Suc n, v'))
      else (0, v))"

fun simpleMaskLength :: "byte list \<Rightarrow> nat option" where
  "simpleMaskLength [] = Some 0"
| "simpleMaskLength (v # rest) =
     (if v = 0xff then map_option (\<lambda>n. n + 8) (simpleMaskLength rest)
      else (case countOnes 8 v of
              (n, v') \<Rightarrow>
                if v' \<noteq> 0 then None
                else if list_all (\<lambda>b. b = 0) rest then Some n else None))"

definition Size :: "byte list \<Rightarrow> nat \<times> nat" where
  "Size m = (case simpleMaskLength m of None \<Rightarrow> (0, 0) | Some n \<Rightarrow> (n, length m * 8))"

text \<open>The decimal text of one byte, and \<^verbatim>\<open>IP.String\<close>: dotted decimal for four bytes.\<close>

definition digitChar :: "nat \<Rightarrow> char" where
  "digitChar n = char_of (48 + n)"

definition byteDecimal :: "byte \<Rightarrow> string" where
  "byteDecimal b =
     (let x = unat b in
      if 100 \<le> x then [digitChar (x div 100), digitChar (x div 10 mod 10), digitChar (x mod 10)]
      else if 10 \<le> x then [digitChar (x div 10), digitChar (x mod 10)]
      else [digitChar x])"

definition IP_String :: "ipv6lib \<Rightarrow> byte list \<Rightarrow> string" where
  "IP_String lib ip =
     (case ip of
        [a, b, c, d] \<Rightarrow>
          byteDecimal a @ ''.'' @ byteDecimal b @ ''.'' @ byteDecimal c @ ''.'' @ byteDecimal d
      | _ \<Rightarrow> string16 lib ip)"

text \<open>\<^verbatim>\<open>parseCIDR\<close> of the cluster controller: the network address (not the host part)
  and the prefix length.\<close>

definition parseCIDR :: "ipv6lib \<Rightarrow> string \<Rightarrow> error + (string \<times> int)" where
  "parseCIDR lib cidr =
     (case ParseCIDR lib cidr of
        Inl err \<Rightarrow> Inl (Errorf ''invalid CIDR %s: %w'' [S cidr, W err])
      | Inr ipNet \<Rightarrow> Inr (IP_String lib (IP ipNet), int (fst (Size (Mask ipNet)))))"

section \<open>Provider identifiers\<close>

text \<open>
  Modelled from the spec: the package \<^verbatim>\<open>pkg/providerid\<close> (\<^verbatim>\<open>NewProviderID\<close>, \<^verbatim>\<open>String\<close>,
  \<^verbatim>\<open>ParseProviderID\<close>) that \<^verbatim>\<open>pkg/scope/machine.go\<close> imports is not among the sources.
  The spec gives the grammar \<^verbatim>\<open><scheme>://<org>/<tenant>/<site>/<uuid>\<close>; decoding fails
  with a structural error if the scheme or the segment count does not match and with a
  value error if the last segment is not a valid UUID. The scheme is the one the
  comments of the machine types and of \<^verbatim>\<open>SetProviderID\<close> give.
\<close>

record ProviderID =
  pid_Org :: string
  pid_Tenant :: string
  pid_Site :: string
  pid_InstanceID :: UUID

datatype decode_error = StructuralError | ValueError error

definition scheme :: string where
  "scheme = ''nvidia-bmm''"

definition NewProviderID :: "string \<Rightarrow> string \<Rightarrow> string \<Rightarrow> UUID \<Rightarrow> ProviderID" where
  "NewProviderID org tenant site u =
     \<lparr>pid_Org = org, pid_Tenant = tenant, pid_Site = site, pid_InstanceID = u\<rparr>"

definition pid_String :: "ProviderID \<Rightarrow> string" where
  "pid_String p =
     scheme @ ''://'' @ pid_Org p @ ''/'' @ pid_Tenant p @ ''/'' @ pid_Site p @ ''/'' @
     uuid_String (pid_InstanceID p)"

definition ParseProviderID :: "string \<Rightarrow> decode_error + ProviderID" where
  "ParseProviderID s =
     (if \<not> prefix (scheme @ ''://'') s then Inl StructuralError
      else (case Split (CHR ''/'') (drop (length (scheme @ ''://'')) s) of
              [org, tenant, site, u] \<Rightarrow>
                (case uuid_Parse u of
                   Inl e \<Rightarrow> Inl (ValueError e)
                 | Inr i \<Rightarrow> Inr (NewProviderID org tenant site i))
            | _ \<Rightarrow> Inl StructuralError))"

section \<open>API types (api/v1beta1)\<close>

text \<open>
  The structs of the API package, field by field. A Go map is an association list (looked
  up with \<open>map_of\<close>, written with \<open>AList.update\<close> and \<open>AList.delete\<close>); its order stands for
  the iteration order, which Go leaves open. A condition's message is the error value
  whose text the controller stores.
\<close>

record APIEndpoint =
  Host :: string
  Port :: int

record SiteReference =
  site_Name :: string
  site_ID :: string

record NSGRule =
  rule_Name :: string
  rule_Direction :: string
  rule_Protocol :: string
  rule_PortRange :: string
  rule_SourceCIDR :: string
  rule_Action :: string

record NSGSpec =
  nsg_Name :: string
  nsg_Rules :: "NSGRule list"

record VPCSpec =
  vpc_Name :: string
  vpc_NetworkVirtualizationType :: string
  vpc_Labels :: "(string \<times> string) list"
  vpc_NetworkSecurityGroup :: "NSGSpec option"

record SubnetSpec =
  subnet_Name :: string
  subnet_CIDR :: string
  subnet_Role :: string
  subnet_Labels :: "(string \<times> string) list"

record SecretReference =
  secret_Name :: string
  secret_Namespace :: string

record NvidiaBMMClusterSpec =
  SiteRef :: SiteReference
  TenantID :: string
  VPC :: VPCSpec
  Subnets :: "SubnetSpec list"
  ControlPlaneEndpoint :: "APIEndpoint option"
  Authentication_SecretRef :: SecretReference

datatype ConditionStatus = ConditionTrue | ConditionFalse | ConditionUnknown

record Condition =
  cond_Type :: string
  cond_Status :: ConditionStatus
  cond_Reason :: string
  cond_Message :: "error option"

record NetworkStatus =
  SubnetIDs :: "(string \<times> string) list"
  NSGID :: string
  IPBlockID :: string

record NvidiaBMMClusterStatus =
  cluster_Ready :: bool
  VPCID :: string
  NetworkStatus :: NetworkStatus
  cluster_Conditions :: "Condition list"

record NvidiaBMMCluster =
  cluster_Name :: string
  cluster_Namespace :: string
  cluster_Annotations :: "(string \<times> string) list"
  cluster_Finalizers :: "string list"
  cluster_DeletionTimestamp :: "nat option"
  cluster_Spec :: NvidiaBMMClusterSpec
  cluster_Status :: NvidiaBMMClusterStatus

text \<open>\<^verbatim>\<open>conditions.Set\<close>: the condition of the same type is replaced, a new type is appended.\<close>

fun conditions_Set :: "Condition \<Rightarrow> Condition list \<Rightarrow> Condition list" where
  "conditions_Set c [] = [c]"
| "conditions_Set c (x # xs) =
     (if cond_Type x = cond_Type c then c # xs else x # conditions_Set c xs)"

definition conditions_Get :: "string \<Rightarrow> Condition list \<Rightarrow> Condition option" where
  "conditions_Get t cs = find (\<lambda>c. cond_Type c = t) cs"

text \<open>\<^verbatim>\<open>controllerutil\<close>: finalizers of an object.\<close>

definition ContainsFinalizer :: "string list \<Rightarrow> string \<Rightarrow> bool" where
  "ContainsFinalizer fs f = (f \<in> set fs)"

definition AddFinalizer :: "string list \<Rightarrow> string \<Rightarrow> string list" where
  "AddFinalizer fs f = (if f \<in> set fs then fs else fs @ [f])"

definition RemoveFinalizer :: "string list \<Rightarrow> string \<Rightarrow> string list" where
  "RemoveFinalizer fs f = filter (\<lambda>x. x \<noteq> f) fs"

text \<open>\<^verbatim>\<open>ctrl.Result\<close>; durations are in nanoseconds, as \<^verbatim>\<open>time.Duration\<close>.\<close>

record Result =
  Requeue :: bool
  RequeueAfter :: int

definition Second :: int where
  "Second = 1000000000"

definition Result0 :: Result where
  "Result0 = \<lparr>Requeue = False, RequeueAfter = 0\<rparr>"

section \<open>The remote client (github.com/NVIDIA/carbide-rest/client)\<close>

text \<open>
  Request bodies carry the fields the controllers fill in. A response body carries the
  fields the controllers read: \<open>Id\<close> (\<^verbatim>\<open>*uuid.UUID\<close>) of a VPC, IP block, subnet or
  instance, \<open>NsgId\<close> (\<^verbatim>\<open>*string\<close>) of a security group, and the instance fields.
\<close>

record CreateVpcRequest =
  vpcReq_Name :: string
  vpcReq_SiteId :: UUID
  vpcReq_NetworkVirtualizationType :: "string option"
  vpcReq_Labels :: "(string \<times> string) list option"

datatype IpBlockProtocolVersion = Ipv4 | Ipv6

datatype IpBlockCreateRequestRoutingType =
    IpBlockCreateRequestRoutingTypeDatacenterOnly
  | IpBlockCreateRequestRoutingTypePublic

record CreateIpblockRequest =
  ipbReq_Name :: string
  ipbReq_Prefix :: string
  ipbReq_PrefixLength :: int
  ipbReq_ProtocolVersion :: IpBlockProtocolVersion
  ipbReq_RoutingType :: IpBlockCreateRequestRoutingType
  ipbReq_SiteId :: UUID

record CreateSubnetRequest =
  subReq_Name :: string
  subReq_VpcId :: UUID
  subReq_Ipv4BlockId :: "UUID option"
  subReq_PrefixLength :: int

record NetworkSecurityGroupRule =
  nsgRule_Name :: "string option"
  nsgRule_Direction :: string
  nsgRule_Protocol :: string
  nsgRule_Action :: string
  nsgRule_SourcePrefix :: string
  nsgRule_DestinationPrefix :: string
  nsgRule_DestinationPortRange :: "string option"

record CreateNetworkSecurityGroupRequest =
  nsgReq_Name :: string
  nsgReq_SiteId :: UUID
  nsgReq_Rules :: "NetworkSecurityGroupRule list option"

record InterfaceCreateRequest =
  ifReq_SubnetId :: "UUID option"
  ifReq_IsPhysical :: "bool option"

record CreateInstanceRequest =
  instReq_Name :: string
  instReq_TenantId :: UUID
  instReq_VpcId :: UUID
  instReq_UserData :: "string option"
  instReq_Interfaces :: "InterfaceCreateRequest list option"
  instReq_SshKeyGroupIds :: "UUID list option"
  instReq_Labels :: "(string \<times> string) list option"
  instReq_InstanceTypeId :: "UUID option"
  instReq_MachineId :: "string option"
  instReq_PhoneHomeEnabled :: "bool option"

datatype call =
    GetVpc UUID
  | CreateVpc CreateVpcRequest
  | DeleteVpc UUID
  | GetIpblock string
  | CreateIpblock CreateIpblockRequest
  | GetSubnet UUID
  | CreateSubnet CreateSubnetRequest
  | DeleteSubnet UUID
  | GetNetworkSecurityGroup string
  | CreateNetworkSecurityGroup CreateNetworkSecurityGroupRequest
  | DeleteNetworkSecurityGroup string
  | CreateInstance CreateInstanceRequest
  | GetInstance UUID
  | DeleteInstance UUID

record Interface =
  IpAddresses :: "string list option"

record Resource =
  Id :: "UUID option"
  NsgId :: "string option"
  inst_MachineId :: "string option"
  inst_Status :: "string option"
  inst_Interfaces :: "Interface list option"

record HTTPResponse =
  StatusCode :: int
  JSON200 :: "Resource option"
  JSON201 :: "Resource option"

text \<open>
  The remote platform: the answer to a call may depend on every call issued before it in
  the pass. \<open>Inl\<close> is the Go error result (no response), \<open>Inr\<close> a response.
\<close>

type_synonym client = "call list \<Rightarrow> call \<Rightarrow> error + HTTPResponse"

section \<open>ClusterScope (pkg/scope)\<close>

text \<open>The scope holds the cluster object and the organization name; \<open>Trace\<close> records the
  calls issued through \<^verbatim>\<open>NvidiaBMMClient\<close> so far, oldest first.\<close>

record ClusterScope =
  NvidiaBMMCluster :: NvidiaBMMCluster
  OrgName :: string
  Trace :: "call list"

definition invoke :: "client \<Rightarrow> call \<Rightarrow> ClusterScope \<Rightarrow> (error + HTTPResponse) \<times> ClusterScope" where
  "invoke cl c s = (cl (Trace s) c, s\<lparr>Trace := Trace s @ [c]\<rparr>)"

definition cluster_SiteID :: "NvidiaBMMCluster \<Rightarrow> error + string" where
  "cluster_SiteID c =
     (if site_ID (SiteRef (cluster_Spec c)) \<noteq> [] then Inr (site_ID (SiteRef (cluster_Spec c)))
      else if site_Name (SiteRef (cluster_Spec c)) \<noteq> []
      then Inl (Errorf ''site name reference not yet implemented, please use direct ID'' [])
      else Inl (Errorf ''site reference is empty'' []))"

definition SiteID :: "ClusterScope \<Rightarrow> error + string" where
  "SiteID s = cluster_SiteID (NvidiaBMMCluster s)"

definition mapStatus ::
  "(NvidiaBMMClusterStatus \<Rightarrow> NvidiaBMMClusterStatus) \<Rightarrow> ClusterScope \<Rightarrow> ClusterScope" where
  "mapStatus f s =
     s\<lparr>NvidiaBMMCluster := (NvidiaBMMCluster s)\<lparr>cluster_Status := f (cluster_Status (NvidiaBMMCluster s))\<rparr>\<rparr>"

definition mapNetworkStatus :: "(NetworkStatus \<Rightarrow> NetworkStatus) \<Rightarrow> ClusterScope \<Rightarrow> ClusterScope" where
  "mapNetworkStatus f s = mapStatus (\<lambda>st. st\<lparr>NetworkStatus := f (NetworkStatus st)\<rparr>) s"

definition getVPCID :: "ClusterScope \<Rightarrow> string" where
  "getVPCID s = VPCID (cluster_Status (NvidiaBMMCluster s))"

definition SetVPCID :: "string \<Rightarrow> ClusterScope \<Rightarrow> ClusterScope" where
  "SetVPCID v s = mapStatus (\<lambda>st. st\<lparr>VPCID := v\<rparr>) s"

definition SetReady :: "bool \<Rightarrow> ClusterScope \<Rightarrow> ClusterScope" where
  "SetReady b s = mapStatus (\<lambda>st. st\<lparr>cluster_Ready := b\<rparr>) s"

definition IsReady :: "ClusterScope \<Rightarrow> bool" where
  "IsReady s = cluster_Ready (cluster_Status (NvidiaBMMCluster s))"

definition getSubnetIDs :: "ClusterScope \<Rightarrow> (string \<times> string) list" where
  "getSubnetIDs s = SubnetIDs (NetworkStatus (cluster_Status (NvidiaBMMCluster s)))"

definition SetSubnetID :: "string \<Rightarrow> string \<Rightarrow> ClusterScope \<Rightarrow> ClusterScope" where
  "SetSubnetID name i s =
     mapNetworkStatus (\<lambda>n. n\<lparr>SubnetIDs := AList.update name i (SubnetIDs n)\<rparr>) s"

text \<open>\<^verbatim>\<open>delete(subnetIDs, name)\<close> on the map that \<^verbatim>\<open>SubnetIDs()\<close> hands out, which is the
  map of the status itself.\<close>

definition deleteSubnetID :: "string \<Rightarrow> ClusterScope \<Rightarrow> ClusterScope" where
  "deleteSubnetID name s =
     mapNetworkStatus (\<lambda>n. n\<lparr>SubnetIDs := AList.delete name (SubnetIDs n)\<rparr>) s"

definition getNSGID :: "ClusterScope \<Rightarrow> string" where
  "getNSGID s = NSGID (NetworkStatus (cluster_Status (NvidiaBMMCluster s)))"

definition SetNSGID :: "string \<Rightarrow> ClusterScope \<Rightarrow> ClusterScope" where
  "SetNSGID v s = mapNetworkStatus (\<lambda>n. n\<lparr>NSGID := v\<rparr>) s"

definition getIPBlockID :: "ClusterScope \<Rightarrow> string" where
  "getIPBlockID s = IPBlockID (NetworkStatus (cluster_Status (NvidiaBMMCluster s)))"

definition SetIPBlockID :: "string \<Rightarrow> ClusterScope \<Rightarrow> ClusterScope" where
  "SetIPBlockID v s = mapNetworkStatus (\<lambda>n. n\<lparr>IPBlockID := v\<rparr>) s"

definition setCondition :: "Condition \<Rightarrow> ClusterScope \<Rightarrow> ClusterScope" where
  "setCondition c s =
     mapStatus (\<lambda>st. st\<lparr>cluster_Conditions := conditions_Set c (cluster_Conditions st)\<rparr>) s"

definition getCondition :: "string \<Rightarrow> ClusterScope \<Rightarrow> Condition option" where
  "getCondition t s = conditions_Get t (cluster_Conditions (cluster_Status (NvidiaBMMCluster s)))"

definition getFinalizers :: "ClusterScope \<Rightarrow> string list" where
  "getFinalizers s = cluster_Finalizers (NvidiaBMMCluster s)"

definition setFinalizers :: "string list \<Rightarrow> ClusterScope \<Rightarrow> ClusterScope" where
  "setFinalizers fs s = s\<lparr>NvidiaBMMCluster := (NvidiaBMMCluster s)\<lparr>cluster_Finalizers := fs\<rparr>\<rparr>"

section \<open>Cluster controller (internal/controller)\<close>

definition NvidiaBMMClusterFinalizer :: string where
  "NvidiaBMMClusterFinalizer = ''nvidiabmmcluster.infrastructure.cluster.x-k8s.io''"

definition VPCReadyCondition :: string where
  "VPCReadyCondition = ''VPCReady''"

definition SubnetsReadyCondition :: string where
  "SubnetsReadyCondition = ''SubnetsReady''"

definition NSGReadyCondition :: string where
  "NSGReadyCondition = ''NSGReady''"

definition ReadyCondition :: string where
  "ReadyCondition = ''Ready''"

definition condTrue :: "string \<Rightarrow> string \<Rightarrow> Condition" where
  "condTrue t r = \<lparr>cond_Type = t, cond_Status = ConditionTrue, cond_Reason = r, cond_Message = None\<rparr>"

definition condFalse :: "string \<Rightarrow> string \<Rightarrow> error \<Rightarrow> Condition" where
  "condFalse t r e =
     \<lparr>cond_Type = t, cond_Status = ConditionFalse, cond_Reason = r, cond_Message = Some e\<rparr>"

definition found :: "HTTPResponse \<Rightarrow> bool" where
  "found resp = (StatusCode resp = 200 \<and> JSON200 resp \<noteq> None)"

subsection \<open>reconcileVPC\<close>

text \<open>The second half of \<^verbatim>\<open>reconcileVPC\<close> (from the comment \<^verbatim>\<open>// Create VPC\<close> on), reached
  when no VPC id is cached or the cached one was dropped.\<close>

definition reconcileVPC_create :: "client \<Rightarrow> ClusterScope \<Rightarrow> string \<Rightarrow> error option \<times> ClusterScope" where
  "reconcileVPC_create cl s siteID =
     (let vpcSpec = VPC (cluster_Spec (NvidiaBMMCluster s)) in
      case uuid_Parse siteID of
        Inl err \<Rightarrow> (Some (Errorf ''invalid site ID %s: %w'' [S siteID, W err]), s)
      | Inr siteUUID \<Rightarrow>
          (let vpcReq =
                 \<lparr>vpcReq_Name = vpc_Name vpcSpec,
                  vpcReq_SiteId = siteUUID,
                  vpcReq_NetworkVirtualizationType = Some (vpc_NetworkVirtualizationType vpcSpec),
                  vpcReq_Labels = (if 0 < length (vpc_Labels vpcSpec) then Some (vpc_Labels vpcSpec) else None)\<rparr>
           in case invoke cl (CreateVpc vpcReq) s of
                (Inl err, s1) \<Rightarrow> (Some (Errorf ''failed to create VPC: %w'' [W err]), s1)
              | (Inr resp, s1) \<Rightarrow>
                  if StatusCode resp \<noteq> 201
                  then (Some (Errorf ''failed to create VPC, status %d'' [D (StatusCode resp)]), s1)
                  else (case JSON201 resp of
                          None \<Rightarrow> (Some (Errorf ''unexpected response: no VPC data'' []), s1)
                        | Some vpc \<Rightarrow>
                            (case Id vpc of
                               None \<Rightarrow> (Some (Errorf ''VPC ID missing in response'' []), s1)
                             | Some i \<Rightarrow> (None, SetVPCID (uuid_String i) s1)))))"

definition reconcileVPC :: "client \<Rightarrow> ClusterScope \<Rightarrow> string \<Rightarrow> error option \<times> ClusterScope" where
  "reconcileVPC cl s siteID =
     (if getVPCID s \<noteq> [] then
        (case uuid_Parse (getVPCID s) of
           Inl err \<Rightarrow> (Some (Errorf ''invalid VPC ID %s: %w'' [S (getVPCID s), W err]), s)
         | Inr vpcUUID \<Rightarrow>
             (case invoke cl (GetVpc vpcUUID) s of
                (Inl err, s1) \<Rightarrow> reconcileVPC_create cl (SetVPCID [] s1) siteID
              | (Inr resp, s1) \<Rightarrow>
                  if StatusCode resp = 200 \<and> JSON200 resp \<noteq> None then (None, s1)
                  else reconcileVPC_create cl (SetVPCID [] s1) siteID))
      else reconcileVPC_create cl s siteID)"

subsection \<open>ensureIPBlock\<close>

text \<open>The second half of \<^verbatim>\<open>ensureIPBlock\<close> (from \<^verbatim>\<open>// Parse site ID\<close> on).\<close>

definition ensureIPBlock_create :: "client \<Rightarrow> ClusterScope \<Rightarrow> string \<Rightarrow> (error + UUID) \<times> ClusterScope" where
  "ensureIPBlock_create cl s siteID =
     (case uuid_Parse siteID of
        Inl err \<Rightarrow> (Inl (Errorf ''invalid site ID %s: %w'' [S siteID, W err]), s)
      | Inr siteUUID \<Rightarrow>
          (let ipBlockReq =
                 \<lparr>ipbReq_Name = cluster_Name (NvidiaBMMCluster s) @ ''-ipblock'',
                  ipbReq_Prefix = ''10.0.0.0'',
                  ipbReq_PrefixLength = 16,
                  ipbReq_ProtocolVersion = Ipv4,
                  ipbReq_RoutingType = IpBlockCreateRequestRoutingTypeDatacenterOnly,
                  ipbReq_SiteId = siteUUID\<rparr>
           in case invoke cl (CreateIpblock ipBlockReq) s of
                (Inl err, s1) \<Rightarrow> (Inl (Errorf ''failed to create IP block: %w'' [W err]), s1)
              | (Inr resp, s1) \<Rightarrow>
                  if StatusCode resp \<noteq> 201
                  then (Inl (Errorf ''failed to create IP block, status %d'' [D (StatusCode resp)]), s1)
                  else (case JSON201 resp of
                          None \<Rightarrow> (Inl (Errorf ''IP block ID missing in response'' []), s1)
                        | Some b \<Rightarrow>
                            (case Id b of
                               None \<Rightarrow> (Inl (Errorf ''IP block ID missing in response'' []), s1)
                             | Some ipBlockID \<Rightarrow>
                                 (Inr ipBlockID, SetIPBlockID (uuid_String ipBlockID) s1)))))"

definition ensureIPBlock :: "client \<Rightarrow> ClusterScope \<Rightarrow> string \<Rightarrow> (error + UUID) \<times> ClusterScope" where
  "ensureIPBlock cl s siteID =
     (if getIPBlockID s \<noteq> [] then
        (case uuid_Parse (getIPBlockID s) of
           Inr ipBlockUUID \<Rightarrow>
             (case invoke cl (GetIpblock (getIPBlockID s)) s of
                (Inr resp, s1) \<Rightarrow>
                  if StatusCode resp = 200 \<and> JSON200 resp \<noteq> None then (Inr ipBlockUUID, s1)
                  else ensureIPBlock_create cl s1 siteID
              | (Inl err, s1) \<Rightarrow> ensureIPBlock_create cl s1 siteID)
         | Inl err \<Rightarrow> ensureIPBlock_create cl s siteID)
      else ensureIPBlock_create cl s siteID)"

subsection \<open>reconcileSubnets\<close>

text \<open>The creating half of the loop body (from \<^verbatim>\<open>// Parse CIDR to get prefix length\<close> on).\<close>

definition reconcileSubnet_create ::
  "client \<Rightarrow> ipv6lib \<Rightarrow> UUID \<Rightarrow> UUID \<Rightarrow> SubnetSpec \<Rightarrow> ClusterScope \<Rightarrow> error option \<times> ClusterScope" where
  "reconcileSubnet_create cl lib vpcUUID ipBlockID subnetSpec s =
     (case parseCIDR lib (subnet_CIDR subnetSpec) of
        Inl err \<Rightarrow>
          (Some (Errorf ''failed to parse CIDR for subnet %s: %w'' [S (subnet_Name subnetSpec), W err]), s)
      | Inr (network, prefixLength) \<Rightarrow>
          (let subnetReq =
                 \<lparr>subReq_Name = subnet_Name subnetSpec,
                  subReq_VpcId = vpcUUID,
                  subReq_Ipv4BlockId = Some ipBlockID,
                  subReq_PrefixLength = prefixLength\<rparr>
           in case invoke cl (CreateSubnet subnetReq) s of
                (Inl err, s1) \<Rightarrow>
                  (Some (Errorf ''failed to create subnet %s: %w'' [S (subnet_Name subnetSpec), W err]), s1)
              | (Inr resp, s1) \<Rightarrow>
                  if StatusCode resp \<noteq> 201
                  then (Some (Errorf ''failed to create subnet %s, status %d''
                                [S (subnet_Name subnetSpec), D (StatusCode resp)]), s1)
                  else (case JSON201 resp of
                          None \<Rightarrow>
                            (Some (Errorf ''subnet ID missing in response for %s'' [S (subnet_Name subnetSpec)]), s1)
                        | Some sn \<Rightarrow>
                            (case Id sn of
                               None \<Rightarrow>
                                 (Some (Errorf ''subnet ID missing in response for %s''
                                          [S (subnet_Name subnetSpec)]), s1)
                             | Some i \<Rightarrow>
                                 (None, SetSubnetID (subnet_Name subnetSpec) (uuid_String i) s1)))))"

text \<open>One turn of the loop over the declared subnets.\<close>

definition reconcileSubnet ::
  "client \<Rightarrow> ipv6lib \<Rightarrow> UUID \<Rightarrow> UUID \<Rightarrow> SubnetSpec \<Rightarrow> ClusterScope \<Rightarrow> error option \<times> ClusterScope" where
  "reconcileSubnet cl lib vpcUUID ipBlockID subnetSpec s =
     (case map_of (getSubnetIDs s) (subnet_Name subnetSpec) of
        Some existingID \<Rightarrow>
          (case uuid_Parse existingID of
             Inl err \<Rightarrow>
               reconcileSubnet_create cl lib vpcUUID ipBlockID subnetSpec
                 (deleteSubnetID (subnet_Name subnetSpec) s)
           | Inr subnetUUID \<Rightarrow>
               (case invoke cl (GetSubnet subnetUUID) s of
                  (Inl err, s1) \<Rightarrow>
                    reconcileSubnet_create cl lib vpcUUID ipBlockID subnetSpec
                      (deleteSubnetID (subnet_Name subnetSpec) s1)
                | (Inr resp, s1) \<Rightarrow>
                    if StatusCode resp \<noteq> 200 \<or> JSON200 resp = None
                    then reconcileSubnet_create cl lib vpcUUID ipBlockID subnetSpec
                           (deleteSubnetID (subnet_Name subnetSpec) s1)
                    else (None, s1)))
      | None \<Rightarrow> reconcileSubnet_create cl lib vpcUUID ipBlockID subnetSpec s)"

fun reconcileSubnets_loop ::
  "client \<Rightarrow> ipv6lib \<Rightarrow> UUID \<Rightarrow> UUID \<Rightarrow> SubnetSpec list \<Rightarrow> ClusterScope \<Rightarrow> error option \<times> ClusterScope" where
  "reconcileSubnets_loop cl lib vpcUUID ipBlockID [] s = (None, s)"
| "reconcileSubnets_loop cl lib vpcUUID ipBlockID (subnetSpec # rest) s =
     (case reconcileSubnet cl lib vpcUUID ipBlockID subnetSpec s of
        (Some err, s1) \<Rightarrow> (Some err, s1)
      | (None, s1) \<Rightarrow> reconcileSubnets_loop cl lib vpcUUID ipBlockID rest s1)"

definition reconcileSubnets :: "client \<Rightarrow> ipv6lib \<Rightarrow> ClusterScope \<Rightarrow> string \<Rightarrow> error option \<times> ClusterScope" where
  "reconcileSubnets cl lib s siteID =
     (let vpcID = getVPCID s in
      if vpcID = [] then (Some (Errorf ''VPC ID is empty'' []), s)
      else (case uuid_Parse vpcID of
              Inl err \<Rightarrow> (Some (Errorf ''invalid VPC ID %s: %w'' [S vpcID, W err]), s)
            | Inr vpcUUID \<Rightarrow>
                (case ensureIPBlock cl s siteID of
                   (Inl err, s1) \<Rightarrow> (Some (Errorf ''failed to ensure IP block: %w'' [W err]), s1)
                 | (Inr ipBlockID, s1) \<Rightarrow>
                     reconcileSubnets_loop cl lib vpcUUID ipBlockID
                       (Subnets (cluster_Spec (NvidiaBMMCluster s1))) s1)))"

subsection \<open>reconcileNSG\<close>

definition convertRule :: "NSGRule \<Rightarrow> NetworkSecurityGroupRule" where
  "convertRule rule =
     \<lparr>nsgRule_Name = Some (rule_Name rule),
      nsgRule_Direction = ToLower (rule_Direction rule),
      nsgRule_Protocol = ToLower (rule_Protocol rule),
      nsgRule_Action = ToLower (rule_Action rule),
      nsgRule_SourcePrefix = (if rule_SourceCIDR rule = [] then ''0.0.0.0/0'' else rule_SourceCIDR rule),
      nsgRule_DestinationPrefix = ''0.0.0.0/0'',
      nsgRule_DestinationPortRange = (if rule_PortRange rule \<noteq> [] then Some (rule_PortRange rule) else None)\<rparr>"

text \<open>The second half of \<^verbatim>\<open>reconcileNSG\<close> (from \<^verbatim>\<open>// Convert NSG rules\<close> on).\<close>

definition reconcileNSG_create ::
  "client \<Rightarrow> ClusterScope \<Rightarrow> UUID \<Rightarrow> NSGSpec \<Rightarrow> error option \<times> ClusterScope" where
  "reconcileNSG_create cl s siteUUID nsgSpec =
     (let rules = map convertRule (nsg_Rules nsgSpec);
          nsgReq = \<lparr>nsgReq_Name = nsg_Name nsgSpec,
                    nsgReq_SiteId = siteUUID,
                    nsgReq_Rules = (if 0 < length rules then Some rules else None)\<rparr>
      in case invoke cl (CreateNetworkSecurityGroup nsgReq) s of
           (Inl err, s1) \<Rightarrow> (Some (Errorf ''failed to create NSG: %w'' [W err]), s1)
         | (Inr resp, s1) \<Rightarrow>
             if StatusCode resp \<noteq> 201
             then (Some (Errorf ''failed to create NSG, status %d'' [D (StatusCode resp)]), s1)
             else (case JSON201 resp of
                     None \<Rightarrow> (Some (Errorf ''NSG ID missing in response'' []), s1)
                   | Some g \<Rightarrow>
                       (case NsgId g of
                          None \<Rightarrow> (Some (Errorf ''NSG ID missing in response'' []), s1)
                        | Some nsgID \<Rightarrow> (None, SetNSGID nsgID s1))))"

text \<open>\<^verbatim>\<open>reconcileNSG\<close> is called only when the spec has a security group; \<open>nsgSpec\<close> is that
  group.\<close>

definition reconcileNSG :: "client \<Rightarrow> ClusterScope \<Rightarrow> string \<Rightarrow> NSGSpec \<Rightarrow> error option \<times> ClusterScope" where
  "reconcileNSG cl s siteID nsgSpec =
     (case uuid_Parse siteID of
        Inl err \<Rightarrow> (Some (Errorf ''invalid site ID %s: %w'' [S siteID, W err]), s)
      | Inr siteUUID \<Rightarrow>
          if getNSGID s \<noteq> [] then
            (case invoke cl (GetNetworkSecurityGroup (getNSGID s)) s of
               (Inl err, s1) \<Rightarrow> reconcileNSG_create cl (SetNSGID [] s1) siteUUID nsgSpec
             | (Inr resp, s1) \<Rightarrow>
                 if StatusCode resp \<noteq> 200 \<or> JSON200 resp = None
                 then reconcileNSG_create cl (SetNSGID [] s1) siteUUID nsgSpec
                 else (None, s1))
          else reconcileNSG_create cl s siteUUID nsgSpec)"

subsection \<open>reconcileNormal\<close>

definition reconcileNormal :: "client \<Rightarrow> ipv6lib \<Rightarrow> ClusterScope \<Rightarrow> (Result \<times> error option) \<times> ClusterScope" where
  "reconcileNormal cl lib s =
     (if \<not> ContainsFinalizer (getFinalizers s) NvidiaBMMClusterFinalizer
      then ((\<lparr>Requeue = True, RequeueAfter = 0\<rparr>, None),
            setFinalizers (AddFinalizer (getFinalizers s) NvidiaBMMClusterFinalizer) s)
      else
        (case SiteID s of
           Inl err \<Rightarrow>
             ((Result0, Some err), setCondition (condFalse VPCReadyCondition ''SiteNotFound'' err) s)
         | Inr siteID \<Rightarrow>
             (case reconcileVPC cl s siteID of
                (Some err, s1) \<Rightarrow>
                  ((Result0, Some err),
                   setCondition (condFalse VPCReadyCondition ''VPCReconcileFailed'' err) s1)
              | (None, s1) \<Rightarrow>
                  (let s2 = setCondition (condTrue VPCReadyCondition ''VPCReady'') s1 in
                   case reconcileSubnets cl lib s2 siteID of
                     (Some err, s3) \<Rightarrow>
                       ((Result0, Some err),
                        setCondition (condFalse SubnetsReadyCondition ''SubnetReconcileFailed'' err) s3)
                   | (None, s3) \<Rightarrow>
                       (let s4 = setCondition (condTrue SubnetsReadyCondition ''SubnetsReady'') s3 in
                        case (case vpc_NetworkSecurityGroup (VPC (cluster_Spec (NvidiaBMMCluster s4))) of
                                None \<Rightarrow> (None, s4)
                              | Some nsgSpec \<Rightarrow>
                                  (case reconcileNSG cl s4 siteID nsgSpec of
                                     (Some err, s5) \<Rightarrow>
                                       (Some err,
                                        setCondition (condFalse NSGReadyCondition ''NSGReconcileFailed'' err) s5)
                                   | (None, s5) \<Rightarrow>
                                       (None, setCondition (condTrue NSGReadyCondition ''NSGReady'') s5))) of
                          (Some err, s6) \<Rightarrow> ((Result0, Some err), s6)
                        | (None, s6) \<Rightarrow>
                            ((Result0, None),
                             setCondition (condTrue ReadyCondition ''NvidiaBMMClusterReady'')
                               (SetReady True s6)))))))"

subsection \<open>reconcileDelete\<close>

definition deleted :: "HTTPResponse \<Rightarrow> bool" where
  "deleted resp = (StatusCode resp = 200 \<or> StatusCode resp = 204)"

text \<open>The loop over the cached subnet ids; the order of the entries is the order in which
  the \<^verbatim>\<open>range\<close> over the map visits them.\<close>

fun deleteSubnets :: "client \<Rightarrow> (string \<times> string) list \<Rightarrow> ClusterScope \<Rightarrow> error option \<times> ClusterScope" where
  "deleteSubnets cl [] s = (None, s)"
| "deleteSubnets cl ((subnetName, subnetID) # rest) s =
     (case uuid_Parse subnetID of
        Inl err \<Rightarrow> (Some (Errorf ''invalid subnet ID %s: %w'' [S subnetID, W err]), s)
      | Inr subnetUUID \<Rightarrow>
          (case invoke cl (DeleteSubnet subnetUUID) s of
             (Inl err, s1) \<Rightarrow> (Some err, s1)
           | (Inr resp, s1) \<Rightarrow>
               if StatusCode resp \<noteq> 200 \<and> StatusCode resp \<noteq> 204
               then (Some (Errorf ''failed to delete subnet %s, status %d''
                             [S subnetName, D (StatusCode resp)]), s1)
               else deleteSubnets cl rest s1))"

definition deleteNSG :: "client \<Rightarrow> ClusterScope \<Rightarrow> error option \<times> ClusterScope" where
  "deleteNSG cl s =
     (if getNSGID s \<noteq> [] then
        (case invoke cl (DeleteNetworkSecurityGroup (getNSGID s)) s of
           (Inl err, s1) \<Rightarrow> (Some err, s1)
         | (Inr resp, s1) \<Rightarrow>
             if StatusCode resp \<noteq> 200 \<and> StatusCode resp \<noteq> 204
             then (Some (Errorf ''failed to delete NSG, status %d'' [D (StatusCode resp)]), s1)
             else (None, s1))
      else (None, s))"

definition deleteVPC :: "client \<Rightarrow> ClusterScope \<Rightarrow> error option \<times> ClusterScope" where
  "deleteVPC cl s =
     (if getVPCID s \<noteq> [] then
        (case uuid_Parse (getVPCID s) of
           Inl err \<Rightarrow> (Some (Errorf ''invalid VPC ID %s: %w'' [S (getVPCID s), W err]), s)
         | Inr vpcUUID \<Rightarrow>
             (case invoke cl (DeleteVpc vpcUUID) s of
                (Inl err, s1) \<Rightarrow> (Some err, s1)
              | (Inr resp, s1) \<Rightarrow>
                  if StatusCode resp \<noteq> 200 \<and> StatusCode resp \<noteq> 204
                  then (Some (Errorf ''failed to delete VPC, status %d'' [D (StatusCode resp)]), s1)
                  else (None, s1)))
      else (None, s))"

text \<open>\<^verbatim>\<open>reconcileDelete\<close>: the three blocks in the order of the source, each ending the
  pass at its first error; the finalizer is removed after the last block.\<close>

definition reconcileDelete :: "client \<Rightarrow> ClusterScope \<Rightarrow> (Result \<times> error option) \<times> ClusterScope" where
  "reconcileDelete cl s =
     (case deleteNSG cl s of
        (Some err, s1) \<Rightarrow> ((Result0, Some err), s1)
      | (None, s1) \<Rightarrow>
          (case deleteSubnets cl (getSubnetIDs s1) s1 of
             (Some err, s2) \<Rightarrow> ((Result0, Some err), s2)
           | (None, s2) \<Rightarrow>
               (case deleteVPC cl s2 of
                  (Some err, s3) \<Rightarrow> ((Result0, Some err), s3)
                | (None, s3) \<Rightarrow>
                    ((Result0, None),
                     setFinalizers (RemoveFinalizer (getFinalizers s3) NvidiaBMMClusterFinalizer) s3))))"

section \<open>Machine types and MachineScope\<close>

record MachineAddress =
  addr_Type :: string
  addr_Address :: string

text \<open>The fields of \<^verbatim>\<open>clusterv1.Machine\<close> and \<^verbatim>\<open>clusterv1.Cluster\<close> that the provider reads
  or writes.\<close>

record Machine =
  machine_Name :: string
  machine_Namespace :: string
  machine_Labels :: "(string \<times> string) list"
  machine_DataSecretName :: "string option"
  machine_ProviderID :: string
  machine_Addresses :: "MachineAddress list"

record Cluster =
  capi_Name :: string
  capi_Namespace :: string
  capi_Paused :: bool
  capi_InfrastructureRef_Name :: string

record NetworkInterface =
  ni_SubnetName :: string
  ni_IsPhysical :: bool

record NvidiaBMMMachineSpec =
  spec_ProviderID :: "string option"
  InstanceType_ID :: string
  InstanceType_MachineID :: string
  InstanceType_AllowUnhealthyMachine :: bool
  Network_SubnetName :: string
  Network_AdditionalInterfaces :: "NetworkInterface list"
  SSHKeyGroups :: "string list"
  spec_Labels :: "(string \<times> string) list"

record NvidiaBMMMachineStatus =
  status_Ready :: bool
  InstanceID :: string
  MachineID :: string
  InstanceState :: string
  Addresses :: "MachineAddress list"
  status_Conditions :: "Condition list"

record NvidiaBMMMachine =
  bmm_Name :: string
  bmm_Namespace :: string
  bmm_Annotations :: "(string \<times> string) list"
  bmm_Finalizers :: "string list"
  bmm_DeletionTimestamp :: "nat option"
  bmm_Spec :: NvidiaBMMMachineSpec
  bmm_Status :: NvidiaBMMMachineStatus

text \<open>
  The machine scope and the cluster scope of one machine pass point to the same
  \<^verbatim>\<open>NvidiaBMMCluster\<close> object, so the pass has one copy of it. \<open>ms_Trace\<close> records the calls
  issued through \<^verbatim>\<open>NvidiaBMMClient\<close>.
\<close>

record MachineScope =
  ms_Machine :: Machine
  ms_NvidiaBMMCluster :: NvidiaBMMCluster
  ms_NvidiaBMMMachine :: NvidiaBMMMachine
  ms_OrgName :: string
  ms_Trace :: "call list"

definition ms_invoke :: "client \<Rightarrow> call \<Rightarrow> MachineScope \<Rightarrow> (error + HTTPResponse) \<times> MachineScope" where
  "ms_invoke cl c s = (cl (ms_Trace s) c, s\<lparr>ms_Trace := ms_Trace s @ [c]\<rparr>)"

definition MachineControlPlaneLabel :: string where
  "MachineControlPlaneLabel = ''cluster.x-k8s.io/control-plane''"

text \<open>Reading a Go map at a missing key gives the empty string.\<close>

definition IsControlPlane :: "MachineScope \<Rightarrow> bool" where
  "IsControlPlane s =
     (case map_of (machine_Labels (ms_Machine s)) MachineControlPlaneLabel of
        None \<Rightarrow> False
      | Some v \<Rightarrow> v \<noteq> [])"

definition mapMachineStatus ::
  "(NvidiaBMMMachineStatus \<Rightarrow> NvidiaBMMMachineStatus) \<Rightarrow> MachineScope \<Rightarrow> MachineScope" where
  "mapMachineStatus f s =
     s\<lparr>ms_NvidiaBMMMachine :=
         (ms_NvidiaBMMMachine s)\<lparr>bmm_Status := f (bmm_Status (ms_NvidiaBMMMachine s))\<rparr>\<rparr>"

definition getInstanceID :: "MachineScope \<Rightarrow> string" where
  "getInstanceID s = InstanceID (bmm_Status (ms_NvidiaBMMMachine s))"

definition SetInstanceID :: "string \<Rightarrow> MachineScope \<Rightarrow> MachineScope" where
  "SetInstanceID v s = mapMachineStatus (\<lambda>st. st\<lparr>InstanceID := v\<rparr>) s"

definition SetMachineID :: "string \<Rightarrow> MachineScope \<Rightarrow> MachineScope" where
  "SetMachineID v s = mapMachineStatus (\<lambda>st. st\<lparr>MachineID := v\<rparr>) s"

definition SetInstanceState :: "string \<Rightarrow> MachineScope \<Rightarrow> MachineScope" where
  "SetInstanceState v s = mapMachineStatus (\<lambda>st. st\<lparr>InstanceState := v\<rparr>) s"

definition ms_SetReady :: "bool \<Rightarrow> MachineScope \<Rightarrow> MachineScope" where
  "ms_SetReady b s = mapMachineStatus (\<lambda>st. st\<lparr>status_Ready := b\<rparr>) s"

definition SetAddresses :: "MachineAddress list \<Rightarrow> MachineScope \<Rightarrow> MachineScope" where
  "SetAddresses as s =
     (mapMachineStatus (\<lambda>st. st\<lparr>Addresses := as\<rparr>) s)
       \<lparr>ms_Machine := (ms_Machine s)\<lparr>machine_Addresses := as\<rparr>\<rparr>"

definition ms_setCondition :: "Condition \<Rightarrow> MachineScope \<Rightarrow> MachineScope" where
  "ms_setCondition c s =
     mapMachineStatus (\<lambda>st. st\<lparr>status_Conditions := conditions_Set c (status_Conditions st)\<rparr>) s"

definition ms_getFinalizers :: "MachineScope \<Rightarrow> string list" where
  "ms_getFinalizers s = bmm_Finalizers (ms_NvidiaBMMMachine s)"

definition ms_setFinalizers :: "string list \<Rightarrow> MachineScope \<Rightarrow> MachineScope" where
  "ms_setFinalizers fs s = s\<lparr>ms_NvidiaBMMMachine := (ms_NvidiaBMMMachine s)\<lparr>bmm_Finalizers := fs\<rparr>\<rparr>"

definition getControlPlaneEndpoint :: "MachineScope \<Rightarrow> APIEndpoint option" where
  "getControlPlaneEndpoint s = ControlPlaneEndpoint (cluster_Spec (ms_NvidiaBMMCluster s))"

definition setControlPlaneEndpoint :: "APIEndpoint option \<Rightarrow> MachineScope \<Rightarrow> MachineScope" where
  "setControlPlaneEndpoint e s =
     s\<lparr>ms_NvidiaBMMCluster :=
         (ms_NvidiaBMMCluster s)\<lparr>cluster_Spec :=
           (cluster_Spec (ms_NvidiaBMMCluster s))\<lparr>ControlPlaneEndpoint := e\<rparr>\<rparr>\<rparr>"

text \<open>\<^verbatim>\<open>SetProviderID\<close> and \<^verbatim>\<open>ProviderID\<close> of the machine scope.\<close>

definition SetProviderID :: "string \<Rightarrow> string \<Rightarrow> string \<Rightarrow> MachineScope \<Rightarrow> error option \<times> MachineScope" where
  "SetProviderID tenantName siteName instanceIDStr s =
     (case uuid_Parse instanceIDStr of
        Inl err \<Rightarrow> (Some (Errorf ''invalid instance UUID %s: %w'' [S instanceIDStr, W err]), s)
      | Inr instanceUUID \<Rightarrow>
          (let providerIDStr = pid_String (NewProviderID (ms_OrgName s) tenantName siteName instanceUUID)
           in (None,
               s\<lparr>ms_NvidiaBMMMachine :=
                    (ms_NvidiaBMMMachine s)\<lparr>bmm_Spec :=
                      (bmm_Spec (ms_NvidiaBMMMachine s))\<lparr>spec_ProviderID := Some providerIDStr\<rparr>\<rparr>,
                  ms_Machine := (ms_Machine s)\<lparr>machine_ProviderID := providerIDStr\<rparr>\<rparr>)))"

definition getProviderID :: "MachineScope \<Rightarrow> ProviderID option" where
  "getProviderID s =
     (case spec_ProviderID (bmm_Spec (ms_NvidiaBMMMachine s)) of
        None \<Rightarrow> None
      | Some p \<Rightarrow>
          if p = [] then None
          else (case ParseProviderID p of Inl err \<Rightarrow> None | Inr pid \<Rightarrow> Some pid))"

section \<open>The Kubernetes API as seen by the machine controller\<close>

text \<open>
  What the reads of one pass return: the \<^verbatim>\<open>Get\<close> of the \<^verbatim>\<open>NvidiaBMMMachine\<close> named by the
  request, \<^verbatim>\<open>util.GetOwnerMachine\<close>, \<^verbatim>\<open>util.GetClusterFromMetadata\<close>, the \<^verbatim>\<open>Get\<close> of the
  \<^verbatim>\<open>NvidiaBMMCluster\<close> by namespace and name, \<^verbatim>\<open>patch.NewHelper\<close>, the data of a secret by
  namespace and name, and \<^verbatim>\<open>restclient.NewClientWithAuth\<close> by endpoint and token.
\<close>

datatype 'a got = NotFound | GetFailed error | Got 'a

record kube =
  kube_NvidiaBMMMachine :: "string \<times> string \<Rightarrow> NvidiaBMMMachine got"
  kube_OwnerMachine :: "NvidiaBMMMachine \<Rightarrow> error + Machine option"
  kube_Cluster :: "Machine \<Rightarrow> error + Cluster option"
  kube_NvidiaBMMCluster :: "string \<Rightarrow> string \<Rightarrow> error + NvidiaBMMCluster"
  kube_NewHelper :: "NvidiaBMMMachine \<Rightarrow> error option"
  kube_Secret :: "string \<Rightarrow> string \<Rightarrow> error + (string \<times> string) list"
  kube_NewClientWithAuth :: "string \<Rightarrow> string \<Rightarrow> error + client"

text \<open>\<^verbatim>\<open>annotations.IsPaused\<close>: the cluster is paused or the object carries the paused
  annotation.\<close>

definition PausedAnnotation :: string where
  "PausedAnnotation = ''cluster.x-k8s.io/paused''"

definition IsPaused :: "Cluster \<Rightarrow> NvidiaBMMMachine \<Rightarrow> bool" where
  "IsPaused cluster obj =
     (capi_Paused cluster \<or> map_of (bmm_Annotations obj) PausedAnnotation \<noteq> None)"

text \<open>\<^verbatim>\<open>NewClusterScope\<close>: the injected client and organization name if a client was
  injected, else the client built from the credentials secret.\<close>

definition NewClusterScope ::
  "kube \<Rightarrow> client option \<Rightarrow> string \<Rightarrow> NvidiaBMMCluster \<Rightarrow> error + (client \<times> string)" where
  "NewClusterScope k injected org c =
     (case injected of
        Some cl \<Rightarrow> Inr (cl, org)
      | None \<Rightarrow>
          (let ref = Authentication_SecretRef (cluster_Spec c);
               ns = (if secret_Namespace ref = [] then cluster_Namespace c else secret_Namespace ref)
           in case kube_Secret k ns (secret_Name ref) of
                Inl err \<Rightarrow> Inl (Errorf ''failed to get credentials secret: %w'' [W err])
              | Inr secretData \<Rightarrow>
                  (case map_of secretData ''endpoint'' of
                     None \<Rightarrow> Inl (Errorf ''secret %s is missing endpoint field'' [S (secret_Name ref)])
                   | Some endpoint \<Rightarrow>
                       (case map_of secretData ''orgName'' of
                          None \<Rightarrow> Inl (Errorf ''secret %s is missing orgName field'' [S (secret_Name ref)])
                        | Some orgName \<Rightarrow>
                            (case map_of secretData ''token'' of
                               None \<Rightarrow> Inl (Errorf ''secret %s is missing token field'' [S (secret_Name ref)])
                             | Some token \<Rightarrow>
                                 (case kube_NewClientWithAuth k endpoint token of
                                    Inl err \<Rightarrow> Inl (Errorf ''failed to create NVIDIA BMM client: %w'' [W err])
                                  | Inr cl \<Rightarrow> Inr (cl, orgName)))))))"

text \<open>\<^verbatim>\<open>NewMachineScope\<close>; of its checks only the one on the organization name can fail
  here, the other parameters being present at the call.\<close>

definition NewMachineScope ::
  "Machine \<Rightarrow> NvidiaBMMCluster \<Rightarrow> NvidiaBMMMachine \<Rightarrow> string \<Rightarrow> error + MachineScope" where
  "NewMachineScope machine c m org =
     (if org = [] then Inl (Errorf ''org name is required'' [])
      else Inr \<lparr>ms_Machine = machine, ms_NvidiaBMMCluster = c, ms_NvidiaBMMMachine = m,
                ms_OrgName = org, ms_Trace = []\<rparr>)"

definition GetBootstrapData :: "kube \<Rightarrow> MachineScope \<Rightarrow> error + string" where
  "GetBootstrapData k s =
     (case machine_DataSecretName (ms_Machine s) of
        None \<Rightarrow> Inl (Errorf ''bootstrap data secret name is not set'' [])
      | Some name \<Rightarrow>
          (case kube_Secret k (machine_Namespace (ms_Machine s)) name of
             Inl err \<Rightarrow> Inl (Errorf ''failed to get bootstrap secret: %w'' [W err])
           | Inr secretData \<Rightarrow>
               (case map_of secretData ''value'' of
                  None \<Rightarrow> Inl (Errorf ''bootstrap secret missing value key'' [])
                | Some v \<Rightarrow> Inr v)))"

definition GetSubnetID :: "MachineScope \<Rightarrow> error + string" where
  "GetSubnetID s =
     (let subnetName = Network_SubnetName (bmm_Spec (ms_NvidiaBMMMachine s)) in
      case map_of (SubnetIDs (NetworkStatus (cluster_Status (ms_NvidiaBMMCluster s)))) subnetName of
        None \<Rightarrow> Inl (Errorf ''subnet %s not found in cluster status'' [S subnetName])
      | Some subnetID \<Rightarrow> Inr subnetID)"

section \<open>Machine controller (internal/controller)\<close>

definition NvidiaBMMMachineFinalizer :: string where
  "NvidiaBMMMachineFinalizer = ''nvidiabmmmachine.infrastructure.cluster.x-k8s.io''"

definition InstanceProvisionedCondition :: string where
  "InstanceProvisionedCondition = ''InstanceProvisioned''"

definition NetworkConfiguredCondition :: string where
  "NetworkConfiguredCondition = ''NetworkConfigured''"

definition MachineInternalIP :: string where
  "MachineInternalIP = ''InternalIP''"

record NvidiaBMMMachineReconciler =
  r_NvidiaBMMClient :: "client option"
  r_OrgName :: string

subsection \<open>createInstance\<close>

text \<open>The loop over the additional interfaces of the spec.\<close>

fun additionalInterfaces ::
  "(string \<times> string) list \<Rightarrow> NetworkInterface list \<Rightarrow> error + InterfaceCreateRequest list" where
  "additionalInterfaces subnetIDs [] = Inr []"
| "additionalInterfaces subnetIDs (additionalIf # rest) =
     (case map_of subnetIDs (ni_SubnetName additionalIf) of
        None \<Rightarrow> Inl (Errorf ''subnet %s not found in cluster status'' [S (ni_SubnetName additionalIf)])
      | Some additionalSubnetID \<Rightarrow>
          (case uuid_Parse additionalSubnetID of
             Inl err \<Rightarrow> Inl (Errorf ''invalid subnet ID %s: %w'' [S additionalSubnetID, W err])
           | Inr additionalSubnetUUID \<Rightarrow>
               (case additionalInterfaces subnetIDs rest of
                  Inl err \<Rightarrow> Inl err
                | Inr ifs \<Rightarrow>
                    Inr (\<lparr>ifReq_SubnetId = Some additionalSubnetUUID,
                          ifReq_IsPhysical = Some (ni_IsPhysical additionalIf)\<rparr> # ifs))))"

text \<open>The loop over the SSH key group ids.\<close>

fun parseKeyGroups :: "string list \<Rightarrow> error + UUID list" where
  "parseKeyGroups [] = Inr []"
| "parseKeyGroups (keyGroupID # rest) =
     (case uuid_Parse keyGroupID of
        Inl err \<Rightarrow> Inl (Errorf ''invalid SSH key group ID %s: %w'' [S keyGroupID, W err])
      | Inr keyGroupUUID \<Rightarrow>
          (case parseKeyGroups rest of
             Inl err \<Rightarrow> Inl err
           | Inr us \<Rightarrow> Inr (keyGroupUUID # us)))"

text \<open>The part of \<^verbatim>\<open>createInstance\<close> before the remote call: the request body, and the
  site name for the provider id.\<close>

definition buildInstanceRequest :: "kube \<Rightarrow> MachineScope \<Rightarrow> error + (CreateInstanceRequest \<times> string)" where
  "buildInstanceRequest k s =
     (let spec = bmm_Spec (ms_NvidiaBMMMachine s);
          c = ms_NvidiaBMMCluster s in
      case GetBootstrapData k s of
        Inl err \<Rightarrow> Inl (Errorf ''failed to get bootstrap data: %w'' [W err])
      | Inr bootstrapData \<Rightarrow>
      (case GetSubnetID s of
        Inl err \<Rightarrow> Inl (Errorf ''failed to get subnet ID: %w'' [W err])
      | Inr subnetID \<Rightarrow>
      (case uuid_Parse subnetID of
        Inl err \<Rightarrow> Inl (Errorf ''invalid subnet ID %s: %w'' [S subnetID, W err])
      | Inr subnetUUID \<Rightarrow>
      (case uuid_Parse (VPCID (cluster_Status c)) of
        Inl err \<Rightarrow> Inl (Errorf ''invalid VPC ID %s: %w'' [S (VPCID (cluster_Status c)), W err])
      | Inr vpcUUID \<Rightarrow>
      (case cluster_SiteID c of
        Inl err \<Rightarrow> Inl (Errorf ''failed to get site ID: %w'' [W err])
      | Inr siteName \<Rightarrow>
      (case uuid_Parse (TenantID (cluster_Spec c)) of
        Inl err \<Rightarrow> Inl (Errorf ''invalid tenant ID %s: %w'' [S (TenantID (cluster_Spec c)), W err])
      | Inr tenantUUID \<Rightarrow>
      (case additionalInterfaces (SubnetIDs (NetworkStatus (cluster_Status c)))
              (Network_AdditionalInterfaces spec) of
        Inl err \<Rightarrow> Inl err
      | Inr extra \<Rightarrow>
      (case (if 0 < length (SSHKeyGroups spec)
             then map_sum id Some (parseKeyGroups (SSHKeyGroups spec)) else Inr None) of
        Inl err \<Rightarrow> Inl err
      | Inr sshKeyGroupUUIDs \<Rightarrow>
      (case (if InstanceType_ID spec \<noteq> []
             then (case uuid_Parse (InstanceType_ID spec) of
                     Inl err \<Rightarrow> Inl (Errorf ''invalid instance type ID %s: %w'' [S (InstanceType_ID spec), W err])
                   | Inr instanceTypeUUID \<Rightarrow> Inr (Some instanceTypeUUID))
             else Inr None) of
        Inl err \<Rightarrow> Inl err
      | Inr instanceTypeId \<Rightarrow>
          Inr (\<lparr>instReq_Name = machine_Name (ms_Machine s),
                instReq_TenantId = tenantUUID,
                instReq_VpcId = vpcUUID,
                instReq_UserData = Some bootstrapData,
                instReq_Interfaces =
                  Some (\<lparr>ifReq_SubnetId = Some subnetUUID, ifReq_IsPhysical = Some False\<rparr> # extra),
                instReq_SshKeyGroupIds = sshKeyGroupUUIDs,
                instReq_Labels = (if 0 < length (spec_Labels spec) then Some (spec_Labels spec) else None),
                instReq_InstanceTypeId = instanceTypeId,
                instReq_MachineId =
                  (if InstanceType_MachineID spec \<noteq> [] then Some (InstanceType_MachineID spec) else None),
                instReq_PhoneHomeEnabled = Some True\<rparr>,
               siteName))))))))))"

definition createInstance :: "kube \<Rightarrow> client \<Rightarrow> MachineScope \<Rightarrow> error option \<times> MachineScope" where
  "createInstance k cl s =
     (case buildInstanceRequest k s of
        Inl err \<Rightarrow> (Some err, s)
      | Inr (instanceReq, siteName) \<Rightarrow>
          (case ms_invoke cl (CreateInstance instanceReq) s of
             (Inl err, s1) \<Rightarrow> (Some (Errorf ''failed to create instance: %w'' [W err]), s1)
           | (Inr resp, s1) \<Rightarrow>
               if StatusCode resp \<noteq> 200 \<and> StatusCode resp \<noteq> 201
               then (Some (Errorf ''failed to create instance, status %d'' [D (StatusCode resp)]), s1)
               else (case JSON201 resp of
                       None \<Rightarrow> (Some (Errorf ''unexpected response: no instance data'' []), s1)
                     | Some instance \<Rightarrow>
                         (case Id instance of
                            None \<Rightarrow> (Some (Errorf ''instance ID missing in response'' []), s1)
                          | Some i \<Rightarrow>
                              (let instanceID = uuid_String i;
                                   machineID = (case inst_MachineId instance of None \<Rightarrow> [] | Some m \<Rightarrow> m);
                                   status = (case inst_Status instance of None \<Rightarrow> [] | Some st \<Rightarrow> st);
                                   s2 = SetInstanceState status (SetMachineID machineID (SetInstanceID instanceID s1))
                               in case SetProviderID (TenantID (cluster_Spec (ms_NvidiaBMMCluster s2)))
                                         siteName instanceID s2 of
                                    (Some err, s3) \<Rightarrow> (Some (Errorf ''failed to set provider ID: %w'' [W err]), s3)
                                  | (None, s3) \<Rightarrow> (None, s3))))))"

subsection \<open>reconcileInstance\<close>

text \<open>The IP addresses of every interface of the instance, in order, each an internal one.\<close>

definition collectAddresses :: "Resource \<Rightarrow> MachineAddress list" where
  "collectAddresses instance =
     (case inst_Interfaces instance of
        None \<Rightarrow> []
      | Some ifaces \<Rightarrow>
          concat (map (\<lambda>iface. case IpAddresses iface of
                                 None \<Rightarrow> []
                               | Some ips \<Rightarrow>
                                   map (\<lambda>ipAddr. \<lparr>addr_Type = MachineInternalIP, addr_Address = ipAddr\<rparr>) ips)
                      ifaces))"

text \<open>The block \<^verbatim>\<open>// For first control plane machine, update cluster endpoint if not set\<close>.\<close>

definition adoptEndpoint :: "MachineAddress list \<Rightarrow> MachineScope \<Rightarrow> MachineScope" where
  "adoptEndpoint addresses s =
     (if IsControlPlane s \<and>
         (case getControlPlaneEndpoint s of None \<Rightarrow> True | Some e \<Rightarrow> Host e = [])
      then (case addresses of
              [] \<Rightarrow> s
            | a # rest \<Rightarrow> setControlPlaneEndpoint (Some \<lparr>Host = addr_Address a, Port = 6443\<rparr>) s)
      else s)"

definition reconcileInstance :: "client \<Rightarrow> MachineScope \<Rightarrow> (Result \<times> error option) \<times> MachineScope" where
  "reconcileInstance cl s =
     (case uuid_Parse (getInstanceID s) of
        Inl err \<Rightarrow> ((Result0, Some (Errorf ''invalid instance ID %s: %w'' [S (getInstanceID s), W err])), s)
      | Inr instanceUUID \<Rightarrow>
          (case ms_invoke cl (GetInstance instanceUUID) s of
             (Inl err, s1) \<Rightarrow> ((Result0, Some err), s1)
           | (Inr resp, s1) \<Rightarrow>
               if StatusCode resp \<noteq> 200
               then ((Result0, Some (Errorf ''failed to get instance, status %d'' [D (StatusCode resp)])), s1)
               else (case JSON200 resp of
                       None \<Rightarrow>
                         ((Result0, Some (Errorf ''failed to get instance, status %d'' [D (StatusCode resp)])), s1)
                     | Some instance \<Rightarrow>
                         (let s2 = (case inst_Status instance of None \<Rightarrow> s1 | Some st \<Rightarrow> SetInstanceState st s1);
                              s3 = (case inst_MachineId instance of None \<Rightarrow> s2 | Some m \<Rightarrow> SetMachineID m s2);
                              addresses = collectAddresses instance;
                              s4 = (if 0 < length addresses
                                    then ms_setCondition (condTrue NetworkConfiguredCondition ''NetworkReady'')
                                           (SetAddresses addresses s3)
                                    else s3)
                          in if inst_Status instance = Some ''Ready''
                             then ((Result0, None),
                                   adoptEndpoint addresses
                                     (ms_setCondition (condTrue ReadyCondition ''NvidiaBMMMachineReady'')
                                        (ms_SetReady True s4)))
                             else ((\<lparr>Requeue = False, RequeueAfter = 30 * Second\<rparr>, None), s4)))))"

subsection \<open>reconcileNormal, reconcileDelete and Reconcile of the machine controller\<close>

definition reconcileNormal_machine ::
  "kube \<Rightarrow> client \<Rightarrow> MachineScope \<Rightarrow> (Result \<times> error option) \<times> MachineScope" where
  "reconcileNormal_machine k cl s =
     (if \<not> ContainsFinalizer (ms_getFinalizers s) NvidiaBMMMachineFinalizer
      then ((\<lparr>Requeue = True, RequeueAfter = 0\<rparr>, None),
            ms_setFinalizers (AddFinalizer (ms_getFinalizers s) NvidiaBMMMachineFinalizer) s)
      else if getInstanceID s \<noteq> [] then reconcileInstance cl s
      else (case createInstance k cl s of
              (Some err, s1) \<Rightarrow>
                ((Result0, Some err),
                 ms_setCondition (condFalse InstanceProvisionedCondition ''InstanceCreationFailed'' err) s1)
            | (None, s1) \<Rightarrow>
                ((\<lparr>Requeue = False, RequeueAfter = 10 * Second\<rparr>, None),
                 ms_setCondition (condTrue InstanceProvisionedCondition ''InstanceCreated'') s1)))"

definition reconcileDelete_machine :: "client \<Rightarrow> MachineScope \<Rightarrow> (Result \<times> error option) \<times> MachineScope" where
  "reconcileDelete_machine cl s =
     (case (if getInstanceID s \<noteq> [] then
              (case uuid_Parse (getInstanceID s) of
                 Inl err \<Rightarrow> (Some (Errorf ''invalid instance ID %s: %w'' [S (getInstanceID s), W err]), s)
               | Inr instanceUUID \<Rightarrow>
                   (case ms_invoke cl (DeleteInstance instanceUUID) s of
                      (Inl err, s1) \<Rightarrow> (Some err, s1)
                    | (Inr resp, s1) \<Rightarrow>
                        if StatusCode resp \<noteq> 200 \<and> StatusCode resp \<noteq> 204
                        then (Some (Errorf ''failed to delete instance, status %d'' [D (StatusCode resp)]), s1)
                        else (None, s1)))
            else (None, s)) of
        (Some err, s1) \<Rightarrow> ((Result0, Some err), s1)
      | (None, s1) \<Rightarrow>
          ((Result0, None),
           ms_setFinalizers (RemoveFinalizer (ms_getFinalizers s1) NvidiaBMMMachineFinalizer) s1))"

text \<open>
  \<^verbatim>\<open>Reconcile\<close> of the machine controller. The second component of the result is the
  scope at the end of the pass, whose \<^verbatim>\<open>NvidiaBMMMachine\<close> the deferred \<^verbatim>\<open>Patch\<close> writes back;
  it is \<open>None\<close> when the pass ended before a scope existed, so that no object was touched
  and no remote call made.
\<close>

definition Reconcile ::
  "NvidiaBMMMachineReconciler \<Rightarrow> kube \<Rightarrow> string \<times> string \<Rightarrow> (Result \<times> error option) \<times> MachineScope option" where
  "Reconcile r k req =
     (case kube_NvidiaBMMMachine k req of
        NotFound \<Rightarrow> ((Result0, None), None)
      | GetFailed err \<Rightarrow> ((Result0, Some err), None)
      | Got nvidiaBmmMachine \<Rightarrow>
      (case kube_OwnerMachine k nvidiaBmmMachine of
        Inl err \<Rightarrow> ((Result0, Some err), None)
      | Inr None \<Rightarrow> ((Result0, None), None)
      | Inr (Some machine) \<Rightarrow>
      (case kube_Cluster k machine of
        Inl err \<Rightarrow> ((Result0, Some err), None)
      | Inr None \<Rightarrow> ((\<lparr>Requeue = False, RequeueAfter = 10 * Second\<rparr>, None), None)
      | Inr (Some cluster) \<Rightarrow>
      (case kube_NvidiaBMMCluster k (capi_Namespace cluster) (capi_InfrastructureRef_Name cluster) of
        Inl err \<Rightarrow> ((Result0, Some err), None)
      | Inr nvidiaBmmCluster \<Rightarrow>
          if IsPaused cluster nvidiaBmmMachine then ((Result0, None), None)
          else if \<not> cluster_Ready (cluster_Status nvidiaBmmCluster)
          then ((\<lparr>Requeue = False, RequeueAfter = 10 * Second\<rparr>, None), None)
          else if machine_DataSecretName machine = None
          then ((\<lparr>Requeue = False, RequeueAfter = 10 * Second\<rparr>, None), None)
          else
      (case kube_NewHelper k nvidiaBmmMachine of
        Some err \<Rightarrow> ((Result0, Some err), None)
      | None \<Rightarrow>
      (case NewClusterScope k (r_NvidiaBMMClient r) (r_OrgName r) nvidiaBmmCluster of
        Inl err \<Rightarrow> ((Result0, Some (Errorf ''failed to create cluster scope: %w'' [W err])), None)
      | Inr (cl, orgName) \<Rightarrow>
      (case NewMachineScope machine nvidiaBmmCluster nvidiaBmmMachine orgName of
        Inl err \<Rightarrow> ((Result0, Some (Errorf ''failed to create machine scope: %w'' [W err])), None)
      | Inr machineScope \<Rightarrow>
          (case (if bmm_DeletionTimestamp nvidiaBmmMachine \<noteq> None
                 then reconcileDelete_machine cl machineScope
                 else reconcileNormal_machine k cl machineScope) of
             (res, s') \<Rightarrow> (res, Some s')))))))))"

section \<open>Vocabulary of the properties\<close>

subsection \<open>Identifier codec\<close>

text \<open>A 4-tuple is valid when no name contains the separator of the grammar and the
  identifier is a UUID value, that is, sixteen bytes.\<close>

definition validTuple :: "string \<Rightarrow> string \<Rightarrow> string \<Rightarrow> UUID \<Rightarrow> bool" where
  "validTuple org tenant site u =
     (CHR ''/'' \<notin> set org \<and> CHR ''/'' \<notin> set tenant \<and> CHR ''/'' \<notin> set site \<and> length (bytes u) = 16)"

text \<open>The segments of an identifier: what follows the scheme, cut at the slashes.\<close>

definition segments :: "string \<Rightarrow> string list" where
  "segments s = Split (CHR ''/'') (drop (length (scheme @ ''://'')) s)"

definition exampleUUID :: UUID where
  "exampleUUID = UUID [0x55, 0x0e, 0x84, 0x00, 0xe2, 0x9b, 0x41, 0xd4,
                       0xa7, 0x16, 0x44, 0x66, 0x55, 0x44, 0x00, 0x00]"

definition exampleScope :: MachineScope where
  "exampleScope =
     \<lparr>ms_Machine =
        \<lparr>machine_Name = ''cp-0'', machine_Namespace = ''default'',
         machine_Labels = [(MachineControlPlaneLabel, ''true'')],
         machine_DataSecretName = Some ''cp-0-bootstrap'', machine_ProviderID = [],
         machine_Addresses = []\<rparr>,
      ms_NvidiaBMMCluster =
        \<lparr>cluster_Name = ''c1'', cluster_Namespace = ''default'', cluster_Annotations = [],
         cluster_Finalizers = [], cluster_DeletionTimestamp = None,
         cluster_Spec =
           \<lparr>SiteRef = \<lparr>site_Name = [], site_ID = ''550e8400-e29b-41d4-a716-446655440000''\<rparr>,
            TenantID = ''660e8400-e29b-41d4-a716-446655440001'',
            VPC = \<lparr>vpc_Name = ''vpc'', vpc_NetworkVirtualizationType = ''FNN'', vpc_Labels = [],
                   vpc_NetworkSecurityGroup = None\<rparr>,
            Subnets = [],
            ControlPlaneEndpoint = None,
            Authentication_SecretRef = \<lparr>secret_Name = ''creds'', secret_Namespace = []\<rparr>\<rparr>,
         cluster_Status =
           \<lparr>cluster_Ready = True, VPCID = [],
            NetworkStatus = \<lparr>SubnetIDs = [], NSGID = [], IPBlockID = []\<rparr>,
            cluster_Conditions = []\<rparr>\<rparr>,
      ms_NvidiaBMMMachine =
        \<lparr>bmm_Name = ''cp-0'', bmm_Namespace = ''default'', bmm_Annotations = [],
         bmm_Finalizers = [NvidiaBMMMachineFinalizer], bmm_DeletionTimestamp = None,
         bmm_Spec =
           \<lparr>spec_ProviderID = None, InstanceType_ID = [], InstanceType_MachineID = [],
            InstanceType_AllowUnhealthyMachine = False, Network_SubnetName = ''control-plane'',
            Network_AdditionalInterfaces = [], SSHKeyGroups = [], spec_Labels = []\<rparr>,
         bmm_Status =
           \<lparr>status_Ready = False, InstanceID = ''550e8400-e29b-41d4-a716-446655440000'',
            MachineID = [], InstanceState = [], Addresses = [], status_Conditions = []\<rparr>\<rparr>,
      ms_OrgName = ''acme'',
      ms_Trace = []\<rparr>"

subsection \<open>Cluster passes\<close>

text \<open>The calls a pass issued: what it appended to the trace.\<close>

definition issued :: "ClusterScope \<Rightarrow> ClusterScope \<Rightarrow> call list" where
  "issued s s' = drop (length (Trace s)) (Trace s')"

text \<open>A delete call succeeded: a response with status 200 or 204.\<close>

definition okDelete :: "error + HTTPResponse \<Rightarrow> bool" where
  "okDelete r = (case r of Inl err \<Rightarrow> False | Inr resp \<Rightarrow> StatusCode resp = 200 \<or> StatusCode resp = 204)"

text \<open>
  The delete steps of a pass in the order the spec gives them: the security group, every
  cached subnet, the VPC. A step whose cached id is not a UUID cannot be issued.
\<close>

datatype deleteStep = Issue call | Unissuable

definition deletePlan :: "ClusterScope \<Rightarrow> deleteStep list" where
  "deletePlan s =
     (if getNSGID s \<noteq> [] then [Issue (DeleteNetworkSecurityGroup (getNSGID s))] else []) @
     map (\<lambda>(name, i). case uuid_Parse i of Inl err \<Rightarrow> Unissuable | Inr u \<Rightarrow> Issue (DeleteSubnet u))
       (getSubnetIDs s) @
     (if getVPCID s \<noteq> []
      then [case uuid_Parse (getVPCID s) of Inl err \<Rightarrow> Unissuable | Inr u \<Rightarrow> Issue (DeleteVpc u)]
      else [])"

text \<open>Carrying a plan out against the remote platform, stopping at the first step that
  cannot be issued or that fails: the calls issued, and whether every step succeeded.\<close>

fun carryOut :: "client \<Rightarrow> call list \<Rightarrow> deleteStep list \<Rightarrow> call list \<times> bool" where
  "carryOut cl h [] = ([], True)"
| "carryOut cl h (Unissuable # rest) = ([], False)"
| "carryOut cl h (Issue c # rest) =
     (if okDelete (cl h c)
      then (case carryOut cl (h @ [c]) rest of (cs, ok) \<Rightarrow> (c # cs, ok))
      else ([c], False))"


text \<open>Example values: a UUID of sixteen equal bytes, a response with a status only, a
  response body, and a cluster whose four ids are cached.\<close>

definition uuidOf :: "byte \<Rightarrow> UUID" where
  "uuidOf b = UUID (replicate 16 b)"

definition http :: "int \<Rightarrow> error + HTTPResponse" where
  "http n = Inr \<lparr>StatusCode = n, JSON200 = None, JSON201 = None\<rparr>"

definition resource :: "UUID \<Rightarrow> Resource" where
  "resource u = \<lparr>Id = Some u, NsgId = Some (uuid_String u), inst_MachineId = None,
                  inst_Status = None, inst_Interfaces = None\<rparr>"

definition exampleCluster :: ClusterScope where
  "exampleCluster =
     \<lparr>NvidiaBMMCluster =
        \<lparr>cluster_Name = ''c1'', cluster_Namespace = ''default'', cluster_Annotations = [],
         cluster_Finalizers = [NvidiaBMMClusterFinalizer], cluster_DeletionTimestamp = None,
         cluster_Spec =
           \<lparr>SiteRef = \<lparr>site_Name = [], site_ID = ''550e8400-e29b-41d4-a716-446655440000''\<rparr>,
            TenantID = ''660e8400-e29b-41d4-a716-446655440001'',
            VPC = \<lparr>vpc_Name = ''vpc'', vpc_NetworkVirtualizationType = ''FNN'', vpc_Labels = [],
                   vpc_NetworkSecurityGroup = Some \<lparr>nsg_Name = ''nsg'', nsg_Rules = []\<rparr>\<rparr>,
            Subnets =
              [\<lparr>subnet_Name = ''a'', subnet_CIDR = ''10.0.1.0/24'', subnet_Role = ''control-plane'',
                subnet_Labels = []\<rparr>,
               \<lparr>subnet_Name = ''b'', subnet_CIDR = ''10.0.2.5/24'', subnet_Role = ''worker'',
                subnet_Labels = []\<rparr>],
            ControlPlaneEndpoint = None,
            Authentication_SecretRef = \<lparr>secret_Name = ''creds'', secret_Namespace = []\<rparr>\<rparr>,
         cluster_Status =
           \<lparr>cluster_Ready = False,
            VPCID = ''11111111-1111-1111-1111-111111111111'',
            NetworkStatus =
              \<lparr>SubnetIDs = [(''a'', ''aaaaaaaa-aaaa-aaaa-aaaa-aaaaaaaaaaaa''),
                            (''b'', ''bbbbbbbb-bbbb-bbbb-bbbb-bbbbbbbbbbbb'')],
               NSGID = ''nsg-1'',
               IPBlockID = ''44444444-4444-4444-4444-444444444444''\<rparr>,
            cluster_Conditions = []\<rparr>\<rparr>,
      OrgName = ''acme'',
      Trace = []\<rparr>"

text \<open>The same cluster with an empty site reference, so that the site id does not resolve.\<close>

definition exampleNoSite :: ClusterScope where
  "exampleNoSite =
     exampleCluster\<lparr>NvidiaBMMCluster :=
       (NvidiaBMMCluster exampleCluster)\<lparr>cluster_Spec :=
         (cluster_Spec (NvidiaBMMCluster exampleCluster))\<lparr>SiteRef := \<lparr>site_Name = [], site_ID = []\<rparr>\<rparr>\<rparr>\<rparr>"

text \<open>A remote platform on which every delete succeeds, and one on which the delete of
  subnet \<open>a\<close> fails.\<close>

definition deletesSucceed :: client where
  "deletesSucceed h c = http 204"

definition deleteOfAFails :: client where
  "deleteOfAFails h c = (if c = DeleteSubnet (uuidOf 0xaa) then http 500 else http 204)"

subsection \<open>CIDR texts\<close>

text \<open>
  The text of an IPv4 CIDR: four decimal octets (no leading zero, at most 255) separated
  by dots, a slash, and a decimal prefix length of at most 32.
\<close>

definition octetText :: "string \<Rightarrow> bool" where
  "octetText f = (f \<noteq> [] \<and> list_all isDigit f \<and> (1 < length f \<longrightarrow> hd f \<noteq> CHR ''0'') \<and> decimal f \<le> 255)"

definition prefixText :: "string \<Rightarrow> bool" where
  "prefixText m = (m \<noteq> [] \<and> list_all isDigit m \<and> decimal m \<le> 32)"

definition wellFormedCIDR4 :: "string \<Rightarrow> bool" where
  "wellFormedCIDR4 s =
     (\<exists>a b c d m. s = a @ ''.'' @ b @ ''.'' @ c @ ''.'' @ d @ ''/'' @ m \<and>
        octetText a \<and> octetText b \<and> octetText c \<and> octetText d \<and> prefixText m)"

subsection \<open>Converging passes\<close>

text \<open>What the steps of a pass never touch: organization, name, spec, finalizers, the ready
  flag and the conditions; and they only append to the trace.\<close>

definition stepFrame :: "ClusterScope \<Rightarrow> ClusterScope \<Rightarrow> bool" where
  "stepFrame s s' =
     (OrgName s' = OrgName s \<and>
      cluster_Name (NvidiaBMMCluster s') = cluster_Name (NvidiaBMMCluster s) \<and>
      cluster_Spec (NvidiaBMMCluster s') = cluster_Spec (NvidiaBMMCluster s) \<and>
      cluster_Finalizers (NvidiaBMMCluster s') = cluster_Finalizers (NvidiaBMMCluster s) \<and>
      cluster_Ready (cluster_Status (NvidiaBMMCluster s')) = cluster_Ready (cluster_Status (NvidiaBMMCluster s)) \<and>
      cluster_Conditions (cluster_Status (NvidiaBMMCluster s')) =
        cluster_Conditions (cluster_Status (NvidiaBMMCluster s)) \<and>
      Trace s' = Trace s @ issued s s')"


text \<open>
  The verdicts of the three steps of one converging pass, in the order VPC, subnets,
  security group: each step runs on the state its predecessor left (with the
  predecessor's condition set), and nothing runs after a failure.
\<close>

datatype verdict = Succeeded | Failed error | NotRun

definition vpcTrue :: Condition where
  "vpcTrue = \<lparr>cond_Type = VPCReadyCondition, cond_Status = ConditionTrue,
              cond_Reason = ''VPCReady'', cond_Message = None\<rparr>"

definition subnetsTrue :: Condition where
  "subnetsTrue = \<lparr>cond_Type = SubnetsReadyCondition, cond_Status = ConditionTrue,
                  cond_Reason = ''SubnetsReady'', cond_Message = None\<rparr>"

definition verdicts :: "client \<Rightarrow> ipv6lib \<Rightarrow> ClusterScope \<Rightarrow> string \<Rightarrow> verdict \<times> verdict \<times> verdict" where
  "verdicts cl lib s siteID =
     (case reconcileVPC cl s siteID of
        (Some e, s1) \<Rightarrow> (Failed e, NotRun, NotRun)
      | (None, s1) \<Rightarrow>
          (case reconcileSubnets cl lib (setCondition vpcTrue s1) siteID of
             (Some e, s3) \<Rightarrow> (Succeeded, Failed e, NotRun)
           | (None, s3) \<Rightarrow>
               (case vpc_NetworkSecurityGroup (VPC (cluster_Spec (NvidiaBMMCluster s))) of
                  None \<Rightarrow> (Succeeded, Succeeded, NotRun)
                | Some nsgSpec \<Rightarrow>
                    (case reconcileNSG cl (setCondition subnetsTrue s3) siteID nsgSpec of
                       (Some e, s5) \<Rightarrow> (Succeeded, Succeeded, Failed e)
                     | (None, s5) \<Rightarrow> (Succeeded, Succeeded, Succeeded)))))"

text \<open>
  What the object says about a condition: \<open>holds t st msg s\<close> when the cluster object of
  \<open>s\<close> carries a condition of type \<open>t\<close> whose status is \<open>st\<close> and whose message is \<open>msg\<close>
  (\<open>None\<close> is the empty message, \<open>Some e\<close> the text of the error \<open>e\<close>).
\<close>

definition holds :: "string \<Rightarrow> ConditionStatus \<Rightarrow> error option \<Rightarrow> ClusterScope \<Rightarrow> bool" where
  "holds t st msg s =
     (case getCondition t s of
        None \<Rightarrow> False
      | Some c \<Rightarrow> cond_Type c = t \<and> cond_Status c = st \<and> cond_Message c = msg)"

text \<open>
  What a step with verdict \<open>v\<close> must have left in its condition \<open>t\<close> after a pass from \<open>s\<close> to
  \<open>s'\<close>: status true and no message when it succeeded, status false and the error as message
  when it failed, and the condition as it was before the pass when it did not run.
\<close>

definition recorded :: "string \<Rightarrow> verdict \<Rightarrow> ClusterScope \<Rightarrow> ClusterScope \<Rightarrow> bool" where
  "recorded t v s s' =
     (case v of
        Succeeded \<Rightarrow> holds t ConditionTrue None s'
      | Failed e \<Rightarrow> holds t ConditionFalse (Some e) s'
      | NotRun \<Rightarrow> getCondition t s' = getCondition t s)"

text \<open>The error of the step that failed, if one did.\<close>

definition failure :: "verdict \<times> verdict \<times> verdict \<Rightarrow> error option" where
  "failure vs =
     (case vs of
        (Failed e, b, c) \<Rightarrow> Some e
      | (a, Failed e, c) \<Rightarrow> Some e
      | (a, b, Failed e) \<Rightarrow> Some e
      | _ \<Rightarrow> None)"


text \<open>Example platforms: one on which every read finds its resource and every create
  succeeds, and one on which subnet \<open>b\<close> is gone and creates are refused.\<close>

definition noIPv6 :: ipv6lib where
  "noIPv6 = \<lparr>parseIPv6 = (\<lambda>s. None), string16 = (\<lambda>bs. [])\<rparr>"

definition ok200 :: "error + HTTPResponse" where
  "ok200 = Inr \<lparr>StatusCode = 200, JSON200 = Some (resource (uuidOf 0x77)), JSON201 = None\<rparr>"

definition created201 :: "UUID \<Rightarrow> error + HTTPResponse" where
  "created201 u = Inr \<lparr>StatusCode = 201, JSON200 = None, JSON201 = Some (resource u)\<rparr>"

definition isGet :: "call \<Rightarrow> bool" where
  "isGet c = (case c of GetVpc u \<Rightarrow> True | GetIpblock i \<Rightarrow> True | GetSubnet u \<Rightarrow> True
               | GetNetworkSecurityGroup i \<Rightarrow> True | GetInstance u \<Rightarrow> True | _ \<Rightarrow> False)"

definition isCreate :: "call \<Rightarrow> bool" where
  "isCreate c = (case c of CreateVpc r \<Rightarrow> True | CreateIpblock r \<Rightarrow> True | CreateSubnet r \<Rightarrow> True
                  | CreateNetworkSecurityGroup r \<Rightarrow> True | CreateInstance r \<Rightarrow> True | _ \<Rightarrow> False)"

definition platformUp :: client where
  "platformUp h c = (if isGet c then ok200 else if isCreate c then created201 (uuidOf 0x99) else http 204)"

definition subnetBLost :: client where
  "subnetBLost h c =
     (if c = GetSubnet (uuidOf 0xbb) then http 404
      else if isGet c then ok200
      else if isCreate c then http 500
      else http 204)"

subsection \<open>Converged clusters\<close>

text \<open>
  A read \<open>c\<close> resolves on the platform \<open>cl\<close> when, whatever was called before, the platform
  answers it with status 200 and a body.
\<close>

definition resolves :: "client \<Rightarrow> call \<Rightarrow> bool" where
  "resolves cl c = (\<forall>h. \<exists>resp. cl h c = Inr resp \<and> StatusCode resp = 200 \<and> JSON200 resp \<noteq> None)"

text \<open>
  A converged cluster: the finalizer is attached; a VPC id and an IP-block id are cached,
  are UUIDs (the controller reads neither resource otherwise) and resolve; every subnet
  of the spec has a cached id that is a UUID and resolves; and, when the spec has a
  security group, its id is cached and resolves.
\<close>

definition converged :: "client \<Rightarrow> ClusterScope \<Rightarrow> bool" where
  "converged cl s =
     (ContainsFinalizer (getFinalizers s) NvidiaBMMClusterFinalizer \<and>
      (\<exists>u. getVPCID s \<noteq> [] \<and> uuid_Parse (getVPCID s) = Inr u \<and> resolves cl (GetVpc u)) \<and>
      (\<exists>u. getIPBlockID s \<noteq> [] \<and> uuid_Parse (getIPBlockID s) = Inr u \<and>
           resolves cl (GetIpblock (getIPBlockID s))) \<and>
      (\<forall>subnetSpec \<in> set (Subnets (cluster_Spec (NvidiaBMMCluster s))).
         \<exists>i u. map_of (getSubnetIDs s) (subnet_Name subnetSpec) = Some i \<and>
               uuid_Parse i = Inr u \<and> resolves cl (GetSubnet u)) \<and>
      (vpc_NetworkSecurityGroup (VPC (cluster_Spec (NvidiaBMMCluster s))) \<noteq> None \<longrightarrow>
         getNSGID s \<noteq> [] \<and> resolves cl (GetNetworkSecurityGroup (getNSGID s))))"

text \<open>The cached ids of a cluster: VPC, IP block, subnets by name, security group.\<close>

definition cachedIds :: "ClusterScope \<Rightarrow> string \<times> string \<times> (string \<times> string) list \<times> string" where
  "cachedIds s = (getVPCID s, getIPBlockID s, getSubnetIDs s, getNSGID s)"

text \<open>A quiet stretch of a pass: the cached ids, the spec and the finalizers stay, and the
  calls issued are appended to the trace and none of them is a create.\<close>

definition quiet :: "ClusterScope \<Rightarrow> ClusterScope \<Rightarrow> bool" where
  "quiet s s' =
     (cachedIds s' = cachedIds s \<and>
      cluster_Spec (NvidiaBMMCluster s') = cluster_Spec (NvidiaBMMCluster s) \<and>
      getFinalizers s' = getFinalizers s \<and>
      Trace s' = Trace s @ issued s s' \<and> (\<forall>c \<in> set (issued s s'). \<not> isCreate c))"

subsection \<open>Machine passes\<close>

text \<open>
  The reads at the head of a machine pass succeed: the request names the
  \<^verbatim>\<open>NvidiaBMMMachine\<close> \<open>m\<close>, its owner is \<open>machine\<close>, the owner's cluster is \<open>cluster\<close>, and
  the cluster's infrastructure reference names the \<^verbatim>\<open>NvidiaBMMCluster\<close> \<open>c\<close>.
\<close>

definition fetched ::
  "kube \<Rightarrow> string \<times> string \<Rightarrow> NvidiaBMMMachine \<Rightarrow> Machine \<Rightarrow> Cluster \<Rightarrow> NvidiaBMMCluster \<Rightarrow> bool" where
  "fetched k req m machine cluster c =
     (kube_NvidiaBMMMachine k req = Got m \<and>
      kube_OwnerMachine k m = Inr (Some machine) \<and>
      kube_Cluster k machine = Inr (Some cluster) \<and>
      kube_NvidiaBMMCluster k (capi_Namespace cluster) (capi_InfrastructureRef_Name cluster) = Inr c)"

text \<open>A readiness gate is closed: the cluster is not ready or the owner machine has no
  bootstrap-data secret name.\<close>

definition gateClosed :: "NvidiaBMMCluster \<Rightarrow> Machine \<Rightarrow> bool" where
  "gateClosed c machine =
     (\<not> cluster_Ready (cluster_Status c) \<or> machine_DataSecretName machine = None)"

text \<open>
  What a machine pass did, read off the value of \<^verbatim>\<open>Reconcile\<close>: the remote calls it issued
  (none when the pass ended before it had a client), and the \<^verbatim>\<open>NvidiaBMMMachine\<close> as it is
  after the pass when it was \<open>m\<close> before (still \<open>m\<close> when the pass ended before the patch
  helper existed, else the object the deferred patch writes).
\<close>

type_synonym outcome = "(Result \<times> error option) \<times> MachineScope option"

definition callsOf :: "outcome \<Rightarrow> call list" where
  "callsOf out = (case snd out of None \<Rightarrow> [] | Some s \<Rightarrow> ms_Trace s)"

definition objectAfter :: "NvidiaBMMMachine \<Rightarrow> outcome \<Rightarrow> NvidiaBMMMachine" where
  "objectAfter m out = (case snd out of None \<Rightarrow> m | Some s \<Rightarrow> ms_NvidiaBMMMachine s)"

definition isDeleteInstance :: "call \<Rightarrow> bool" where
  "isDeleteInstance c = (case c of DeleteInstance u \<Rightarrow> True | _ \<Rightarrow> False)"

text \<open>
  An example store: the machine \<open>cp-0\<close> of the example scope in namespace \<open>default\<close>, with
  the cluster paused or not, the \<^verbatim>\<open>NvidiaBMMCluster\<close> ready or not, the bootstrap secret name
  and the deletion timestamp as given. The reconciler has a client injected, on which
  every delete succeeds.
\<close>

definition exampleKube :: "bool \<Rightarrow> bool \<Rightarrow> string option \<Rightarrow> nat option \<Rightarrow> kube" where
  "exampleKube paused ready secret deletion =
     \<lparr>kube_NvidiaBMMMachine =
        (\<lambda>req. if req = (''default'', ''cp-0'')
               then Got ((ms_NvidiaBMMMachine exampleScope)\<lparr>bmm_DeletionTimestamp := deletion\<rparr>)
               else NotFound),
      kube_OwnerMachine =
        (\<lambda>m. Inr (Some ((ms_Machine exampleScope)\<lparr>machine_DataSecretName := secret\<rparr>))),
      kube_Cluster =
        (\<lambda>machine. Inr (Some \<lparr>capi_Name = ''c1'', capi_Namespace = ''default'',
                                capi_Paused = paused, capi_InfrastructureRef_Name = ''c1''\<rparr>)),
      kube_NvidiaBMMCluster =
        (\<lambda>ns name. Inr ((ms_NvidiaBMMCluster exampleScope)
                          \<lparr>cluster_Status := (cluster_Status (ms_NvidiaBMMCluster exampleScope))
                                               \<lparr>cluster_Ready := ready\<rparr>\<rparr>)),
      kube_NewHelper = (\<lambda>m. None),
      kube_Secret = (\<lambda>ns name. Inr [(''value'', ''#cloud-config'')]),
      kube_NewClientWithAuth = (\<lambda>endpoint token. Inr deletesSucceed)\<rparr>"

definition exampleReconciler :: NvidiaBMMMachineReconciler where
  "exampleReconciler = \<lparr>r_NvidiaBMMClient = Some deletesSucceed, r_OrgName = ''acme''\<rparr>"

definition exampleRequest :: "string \<times> string" where
  "exampleRequest = (''default'', ''cp-0'')"

subsection \<open>Replies of the platform during a pass\<close>

text \<open>
  The calls \<open>cs\<close> issued after the history \<open>h\<close>, each with the reply the platform gave it.
\<close>

fun replies :: "client \<Rightarrow> call list \<Rightarrow> call list \<Rightarrow> (call \<times> (error + HTTPResponse)) list" where
  "replies cl h [] = []"
| "replies cl h (c # cs) = (c, cl h c) # replies cl (h @ [c]) cs"

text \<open>Among the calls \<open>cs\<close> issued after \<open>h\<close> there is a create that the platform answered
  with a transport error.\<close>

definition createFailed :: "client \<Rightarrow> call list \<Rightarrow> call list \<Rightarrow> bool" where
  "createFailed cl h cs = list_ex (\<lambda>(c, r). isCreate c \<and> isl r) (replies cl h cs)"


text \<open>A stretch of a pass that appends its calls to the trace and in which no create failed
  in transport.\<close>

definition smooth :: "client \<Rightarrow> ClusterScope \<Rightarrow> ClusterScope \<Rightarrow> bool" where
  "smooth cl s s' = (Trace s' = Trace s @ issued s s' \<and> \<not> createFailed cl (Trace s) (issued s s'))"




subsection \<open>Stale cached ids\<close>









section \<open>Lemmas on strings and scopes\<close>

lemma Split_nonempty: "Split c s \<noteq> []"
  by (induction s) (auto split: list.splits)

lemma Split_single: "Split c s = [x] \<Longrightarrow> s = x"
  by (induction s arbitrary: x) (auto simp: Split_nonempty split: if_splits list.splits)

lemma Split_cons:
  "Split c s = x # y # ys \<Longrightarrow> \<exists>s'. s = x @ c # s' \<and> Split c s' = y # ys"
  by (induction s arbitrary: x) (auto simp: Split_nonempty split: if_splits list.splits)

lemma Split4:
  assumes "Split c s = [a, b, d, e]"
  shows "s = a @ c # b @ c # d @ c # e"
proof -
  from Split_cons[OF assms] obtain s1 where 1: "s = a @ c # s1" "Split c s1 = [b, d, e]" by blast
  from Split_cons[OF 1(2)] obtain s2 where 2: "s1 = b @ c # s2" "Split c s2 = [d, e]" by blast
  from Split_cons[OF 2(2)] obtain s3 where 3: "s2 = d @ c # s3" "Split c s3 = [e]" by blast
  from Split_single[OF 3(2)] 1 2 3 show ?thesis by simp
qed

lemmas scope_defs = invoke_def SiteID_def mapStatus_def mapNetworkStatus_def getVPCID_def
  SetVPCID_def SetReady_def IsReady_def getSubnetIDs_def SetSubnetID_def deleteSubnetID_def
  getNSGID_def SetNSGID_def getIPBlockID_def SetIPBlockID_def setCondition_def getCondition_def
  getFinalizers_def setFinalizers_def

section \<open>What the steps of a cluster pass leave alone\<close>

lemma issued_self [simp]: "issued s s = []"
  by (simp add: issued_def)

lemma stepFrame_refl [simp]: "stepFrame s s"
  by (simp add: stepFrame_def)

lemma issued_trans:
  "Trace s1 = Trace s @ issued s s1 \<Longrightarrow> Trace s2 = Trace s1 @ issued s1 s2 \<Longrightarrow>
   issued s s2 = issued s s1 @ issued s1 s2"
  by (metis append.assoc append_eq_conv_conj issued_def)

lemma stepFrame_trans: "stepFrame s s1 \<Longrightarrow> stepFrame s1 s2 \<Longrightarrow> stepFrame s s2"
  unfolding stepFrame_def using issued_trans[of s1 s s2] by (metis append.assoc)

lemma stepFrame_issued_trans:
  "stepFrame s s1 \<Longrightarrow> stepFrame s1 s2 \<Longrightarrow> issued s s2 = issued s s1 @ issued s1 s2"
  unfolding stepFrame_def using issued_trans by blast

lemma issued_call [simp]: "issued s (s\<lparr>Trace := Trace s @ cs\<rparr>) = cs"
  by (simp add: issued_def)

lemma reconcileVPC_create_frame:
  "reconcileVPC_create cl s siteID = (r, s') \<Longrightarrow> stepFrame s s'"
  by (auto simp: reconcileVPC_create_def stepFrame_def issued_def scope_defs Let_def
           split: sum.splits prod.splits if_splits option.splits)

lemma reconcileVPC_frame: "reconcileVPC cl s siteID = (r, s') \<Longrightarrow> stepFrame s s'"
  by (auto simp: reconcileVPC_def reconcileVPC_create_def stepFrame_def issued_def scope_defs Let_def
           split: sum.splits prod.splits if_splits option.splits)

lemma ensureIPBlock_frame: "ensureIPBlock cl s siteID = (r, s') \<Longrightarrow> stepFrame s s'"
  by (auto simp: ensureIPBlock_def ensureIPBlock_create_def stepFrame_def issued_def scope_defs Let_def
           split: sum.splits prod.splits if_splits option.splits)

lemma reconcileSubnet_frame:
  "reconcileSubnet cl lib vpcUUID ipBlockID subnetSpec s = (r, s') \<Longrightarrow> stepFrame s s'"
  by (auto simp: reconcileSubnet_def reconcileSubnet_create_def stepFrame_def issued_def scope_defs Let_def
           split: sum.splits prod.splits if_splits option.splits)

lemma reconcileSubnets_loop_frame:
  "reconcileSubnets_loop cl lib vpcUUID ipBlockID specs s = (r, s') \<Longrightarrow> stepFrame s s'"
proof (induction specs arbitrary: s)
  case Nil
  then show ?case by simp
next
  case (Cons a specs)
  obtain r1 s1 where one: "reconcileSubnet cl lib vpcUUID ipBlockID a s = (r1, s1)"
    by (cases "reconcileSubnet cl lib vpcUUID ipBlockID a s") auto
  note f1 = reconcileSubnet_frame[OF one]
  show ?case
  proof (cases r1)
    case None
    with Cons.prems one have "reconcileSubnets_loop cl lib vpcUUID ipBlockID specs s1 = (r, s')" by simp
    from stepFrame_trans[OF f1 Cons.IH[OF this]] show ?thesis .
  next
    case (Some e)
    with Cons.prems one f1 show ?thesis by simp
  qed
qed

lemma reconcileSubnets_frame: "reconcileSubnets cl lib s siteID = (r, s') \<Longrightarrow> stepFrame s s'"
proof -
  assume a: "reconcileSubnets cl lib s siteID = (r, s')"
  show ?thesis
  proof (cases "getVPCID s = [] \<or> (\<exists>e. uuid_Parse (getVPCID s) = Inl e)")
    case True
    with a show ?thesis by (auto simp: reconcileSubnets_def Let_def split: sum.splits if_splits)
  next
    case False
    then obtain u where u: "getVPCID s \<noteq> []" "uuid_Parse (getVPCID s) = Inr u"
      by (cases "uuid_Parse (getVPCID s)") auto
    obtain r1 s1 where e: "ensureIPBlock cl s siteID = (r1, s1)" by (cases "ensureIPBlock cl s siteID") auto
    note f1 = ensureIPBlock_frame[OF e]
    show ?thesis
    proof (cases r1)
      case (Inl x)
      with a u e f1 show ?thesis by (simp add: reconcileSubnets_def Let_def)
    next
      case (Inr b)
      with a u e have "reconcileSubnets_loop cl lib u b (Subnets (cluster_Spec (NvidiaBMMCluster s1))) s1 = (r, s')"
        by (simp add: reconcileSubnets_def Let_def)
      from stepFrame_trans[OF f1 reconcileSubnets_loop_frame[OF this]] show ?thesis .
    qed
  qed
qed

lemma reconcileNSG_frame: "reconcileNSG cl s siteID nsgSpec = (r, s') \<Longrightarrow> stepFrame s s'"
  by (auto simp: reconcileNSG_def reconcileNSG_create_def stepFrame_def issued_def scope_defs Let_def
           split: sum.splits prod.splits if_splits option.splits)

lemma Trace_setCondition [simp]: "Trace (setCondition c s) = Trace s"
  by (simp add: scope_defs)

lemma Trace_SetReady [simp]: "Trace (SetReady b s) = Trace s"
  by (simp add: scope_defs)


section \<open>Cluster deletion\<close>

lemma carryOut_append:
  "carryOut cl h (p1 @ p2) =
     (case carryOut cl h p1 of
        (cs, ok) \<Rightarrow> if ok then (case carryOut cl (h @ cs) p2 of (cs2, ok2) \<Rightarrow> (cs @ cs2, ok2))
                   else (cs, False))"
  by (induction cl h p1 rule: carryOut.induct) (auto split: prod.splits)

lemma carryOut_prefix: "prefix (map Issue (fst (carryOut cl h p))) p"
  by (induction cl h p rule: carryOut.induct) (auto split: prod.splits)

lemma carryOut_complete: "snd (carryOut cl h p) \<Longrightarrow> map Issue (fst (carryOut cl h p)) = p"
  by (induction cl h p rule: carryOut.induct) (auto split: prod.splits if_splits)

lemma carryOut_failure:
  "i < length (fst (carryOut cl h p)) \<Longrightarrow>
   \<not> okDelete (cl (h @ take i (fst (carryOut cl h p))) (fst (carryOut cl h p) ! i)) \<Longrightarrow>
   Suc i = length (fst (carryOut cl h p)) \<and> \<not> snd (carryOut cl h p)"
proof (induction cl h p arbitrary: i rule: carryOut.induct)
  case (1 cl h)
  then show ?case by simp
next
  case (2 cl h rest)
  then show ?case by simp
next
  case (3 cl h c rest)
  show ?case
  proof (cases "okDelete (cl h c)")
    case False
    with 3 show ?thesis by simp
  next
    case True
    obtain cs ok where co: "carryOut cl (h @ [c]) rest = (cs, ok)"
      by (cases "carryOut cl (h @ [c]) rest") auto
    show ?thesis
    proof (cases i)
      case 0
      with 3 True co show ?thesis by simp
    next
      case (Suc j)
      with 3 True co show ?thesis by auto
    qed
  qed
qed

lemma deleteNSG_carryOut:
  "deleteNSG cl s = (e, s1) \<Longrightarrow>
   s1 = s\<lparr>Trace := Trace s @ fst (carryOut cl (Trace s)
           (if getNSGID s \<noteq> [] then [Issue (DeleteNetworkSecurityGroup (getNSGID s))] else []))\<rparr> \<and>
   (e = None) = snd (carryOut cl (Trace s)
           (if getNSGID s \<noteq> [] then [Issue (DeleteNetworkSecurityGroup (getNSGID s))] else []))"
  by (auto simp: deleteNSG_def invoke_def okDelete_def split: if_splits sum.splits prod.splits)

lemma deleteVPC_carryOut:
  "deleteVPC cl s = (e, s1) \<Longrightarrow>
   s1 = s\<lparr>Trace := Trace s @ fst (carryOut cl (Trace s)
           (if getVPCID s \<noteq> []
            then [case uuid_Parse (getVPCID s) of Inl err \<Rightarrow> Unissuable | Inr u \<Rightarrow> Issue (DeleteVpc u)]
            else []))\<rparr> \<and>
   (e = None) = snd (carryOut cl (Trace s)
           (if getVPCID s \<noteq> []
            then [case uuid_Parse (getVPCID s) of Inl err \<Rightarrow> Unissuable | Inr u \<Rightarrow> Issue (DeleteVpc u)]
            else []))"
  by (auto simp: deleteVPC_def invoke_def okDelete_def split: if_splits sum.splits prod.splits)

lemma deleteSubnets_carryOut:
  "deleteSubnets cl ids s = (e, s1) \<Longrightarrow>
   s1 = s\<lparr>Trace := Trace s @ fst (carryOut cl (Trace s)
           (map (\<lambda>(name, i). case uuid_Parse i of Inl err \<Rightarrow> Unissuable | Inr u \<Rightarrow> Issue (DeleteSubnet u)) ids))\<rparr> \<and>
   (e = None) = snd (carryOut cl (Trace s)
           (map (\<lambda>(name, i). case uuid_Parse i of Inl err \<Rightarrow> Unissuable | Inr u \<Rightarrow> Issue (DeleteSubnet u)) ids))"
proof (induction cl ids s arbitrary: e s1 rule: deleteSubnets.induct)
  case (1 cl s)
  then show ?case by simp
next
  case (2 cl subnetName subnetID rest s)
  show ?case
  proof (cases "uuid_Parse subnetID")
    case (Inl err)
    with 2(2) show ?thesis by auto
  next
    case (Inr u)
    show ?thesis
    proof (cases "okDelete (cl (Trace s) (DeleteSubnet u))")
      case False
      with 2(2) Inr show ?thesis
        by (auto simp: invoke_def okDelete_def split: sum.splits if_splits)
    next
      case True
      then obtain resp where r: "cl (Trace s) (DeleteSubnet u) = Inr resp"
        and st: "StatusCode resp = 200 \<or> StatusCode resp = 204"
        by (auto simp: okDelete_def split: sum.splits)
      let ?s1 = "s\<lparr>Trace := Trace s @ [DeleteSubnet u]\<rparr>"
      have inv: "invoke cl (DeleteSubnet u) s = (Inr resp, ?s1)"
        by (simp add: invoke_def r)
      from 2(2) Inr inv st have rec: "deleteSubnets cl rest ?s1 = (e, s1)"
        by auto
      have "\<not> (StatusCode resp \<noteq> 200 \<and> StatusCode resp \<noteq> 204)" using st by simp
      from 2(1)[OF Inr inv[symmetric] refl this rec] True Inr
      show ?thesis by (auto split: prod.splits)
    qed
  qed
qed

lemma reconcileDelete_carryOut:
  assumes "reconcileDelete cl s = ((res, err), s')"
  shows "Trace s' = Trace s @ fst (carryOut cl (Trace s) (deletePlan s))"
    and "(err = None) = snd (carryOut cl (Trace s) (deletePlan s))"
    and "getFinalizers s' =
           (if err = None then RemoveFinalizer (getFinalizers s) NvidiaBMMClusterFinalizer
            else getFinalizers s)"
proof -
  let ?p1 = "if getNSGID s \<noteq> [] then [Issue (DeleteNetworkSecurityGroup (getNSGID s))] else []"
  let ?p2 = "map (\<lambda>(name, i). case uuid_Parse i of Inl err \<Rightarrow> Unissuable | Inr u \<Rightarrow> Issue (DeleteSubnet u)) (getSubnetIDs s)"
  let ?p3 = "if getVPCID s \<noteq> []
            then [case uuid_Parse (getVPCID s) of Inl err \<Rightarrow> Unissuable | Inr u \<Rightarrow> Issue (DeleteVpc u)]
            else []"
  have plan: "deletePlan s = ?p1 @ ?p2 @ ?p3" by (simp add: deletePlan_def)
  obtain e1 s1 where d1: "deleteNSG cl s = (e1, s1)" by (cases "deleteNSG cl s") auto
  note n = deleteNSG_carryOut[OF d1]
  obtain c1 ok1 where k1: "carryOut cl (Trace s) ?p1 = (c1, ok1)" by (cases "carryOut cl (Trace s) ?p1") auto
  from n k1 have s1: "s1 = s\<lparr>Trace := Trace s @ c1\<rparr>" and e1: "(e1 = None) = ok1" by simp_all
  have ids1: "getSubnetIDs s1 = getSubnetIDs s" "getVPCID s1 = getVPCID s" "getFinalizers s1 = getFinalizers s"
    by (simp_all add: s1 scope_defs)
  obtain e2 s2 where d2: "deleteSubnets cl (getSubnetIDs s1) s1 = (e2, s2)"
    by (cases "deleteSubnets cl (getSubnetIDs s1) s1") auto
  note m = deleteSubnets_carryOut[OF d2]
  obtain c2 ok2 where k2: "carryOut cl (Trace s @ c1) ?p2 = (c2, ok2)"
    by (cases "carryOut cl (Trace s @ c1) ?p2") auto
  from m k2 ids1 s1 have s2: "s2 = s\<lparr>Trace := Trace s @ c1 @ c2\<rparr>" and e2: "(e2 = None) = ok2" by simp_all
  have ids2: "getVPCID s2 = getVPCID s" "getFinalizers s2 = getFinalizers s"
    by (simp_all add: s2 scope_defs)
  obtain e3 s3 where d3: "deleteVPC cl s2 = (e3, s3)" by (cases "deleteVPC cl s2") auto
  note v = deleteVPC_carryOut[OF d3, unfolded ids2(1)]
  obtain c3 ok3 where k3: "carryOut cl (Trace s @ c1 @ c2) ?p3 = (c3, ok3)"
    by (cases "carryOut cl (Trace s @ c1 @ c2) ?p3") auto
  from v k3 ids2 s2 have s3: "s3 = s\<lparr>Trace := Trace s @ c1 @ c2 @ c3\<rparr>" and e3: "(e3 = None) = ok3" by simp_all
  have fin3: "getFinalizers s3 = getFinalizers s" by (simp add: s3 scope_defs)
  have whole: "carryOut cl (Trace s) (deletePlan s) =
      (if ok1 then (if ok2 then (c1 @ c2 @ c3, ok3) else (c1 @ c2, False)) else (c1, False))"
    unfolding plan carryOut_append using k1 k2 k3 by (simp add: carryOut_append)
  show "Trace s' = Trace s @ fst (carryOut cl (Trace s) (deletePlan s))"
    using assms d1 d2 d3 e1 e2 e3 s1 s2 s3 unfolding whole reconcileDelete_def
    by (auto simp: scope_defs split: option.splits)
  show "(err = None) = snd (carryOut cl (Trace s) (deletePlan s))"
    using assms d1 d2 d3 e1 e2 e3 unfolding whole reconcileDelete_def
    by (auto split: option.splits)
  show "getFinalizers s' =
           (if err = None then RemoveFinalizer (getFinalizers s) NvidiaBMMClusterFinalizer
            else getFinalizers s)"
    using assms d1 d2 d3 ids1 ids2 fin3 unfolding reconcileDelete_def
    by (auto simp: scope_defs split: option.splits)
qed


text \<open>
  C2. In a cluster deletion pass the calls issued are, in order, an initial part of the
  plan: the delete of the cached security group, then the deletes of the cached subnets,
  then the delete of the cached VPC. A delete call that fails (a transport error or a
  status other than 200 and 204) is the last call of the pass, the pass then returns an
  error and the finalizers are as before. The pass returns no error only when the whole
  plan was issued and every call succeeded, and only then is the finalizer removed.
\<close>

theorem C2_deletion_order:
  assumes "reconcileDelete cl s = ((res, err), s')"
  shows "Trace s' = Trace s @ issued s s' \<and>
         prefix (map Issue (issued s s')) (deletePlan s) \<and>
         (\<forall>i < length (issued s s').
            \<not> okDelete (cl (Trace s @ take i (issued s s')) (issued s s' ! i)) \<longrightarrow>
            Suc i = length (issued s s') \<and> err \<noteq> None) \<and>
         (err \<noteq> None \<longrightarrow> getFinalizers s' = getFinalizers s) \<and>
         (err = None \<longrightarrow>
            map Issue (issued s s') = deletePlan s \<and>
            (\<forall>i < length (issued s s').
               okDelete (cl (Trace s @ take i (issued s s')) (issued s s' ! i))) \<and>
            getFinalizers s' = RemoveFinalizer (getFinalizers s) NvidiaBMMClusterFinalizer) \<and>
         (NvidiaBMMClusterFinalizer \<in> set (getFinalizers s) \<and>
          NvidiaBMMClusterFinalizer \<notin> set (getFinalizers s') \<longrightarrow> err = None)"
proof -
  let ?co = "carryOut cl (Trace s) (deletePlan s)"
  note r = reconcileDelete_carryOut[OF assms]
  have iss: "issued s s' = fst ?co" by (simp add: issued_def r(1))
  have ok: "(err = None) = snd ?co" by (rule r(2))
  have fail: "\<forall>i < length (issued s s').
            \<not> okDelete (cl (Trace s @ take i (issued s s')) (issued s s' ! i)) \<longrightarrow>
            Suc i = length (issued s s') \<and> err \<noteq> None"
    unfolding iss using carryOut_failure[of _ cl "Trace s" "deletePlan s"] ok by blast
  have all: "err = None \<longrightarrow> (\<forall>i < length (issued s s').
               okDelete (cl (Trace s @ take i (issued s s')) (issued s s' ! i)))"
    using fail by blast
  show ?thesis
    using r(1) r(3) iss ok fail all carryOut_prefix[of cl "Trace s" "deletePlan s"]
      carryOut_complete[of cl "Trace s" "deletePlan s"]
    by auto
qed



theorem C2_deletion_order_witness:
  "issued exampleCluster (snd (reconcileDelete deleteOfAFails exampleCluster)) =
     [DeleteNetworkSecurityGroup ''nsg-1'', DeleteSubnet (uuidOf 0xaa)] \<and>
   deletePlan exampleCluster =
     [Issue (DeleteNetworkSecurityGroup ''nsg-1''), Issue (DeleteSubnet (uuidOf 0xaa)),
      Issue (DeleteSubnet (uuidOf 0xbb)), Issue (DeleteVpc (uuidOf 0x11))] \<and>
   prefix (map Issue (issued exampleCluster (snd (reconcileDelete deleteOfAFails exampleCluster))))
     (deletePlan exampleCluster) \<and>
   snd (fst (reconcileDelete deleteOfAFails exampleCluster)) \<noteq> None \<and>
   getFinalizers (snd (reconcileDelete deleteOfAFails exampleCluster)) = getFinalizers exampleCluster \<and>
   snd (fst (reconcileDelete deletesSucceed exampleCluster)) = None \<and>
   map Issue (issued exampleCluster (snd (reconcileDelete deletesSucceed exampleCluster))) =
     deletePlan exampleCluster \<and>
   getFinalizers (snd (reconcileDelete deletesSucceed exampleCluster)) =
     RemoveFinalizer (getFinalizers exampleCluster) NvidiaBMMClusterFinalizer"
proof -
  let ?sF = "exampleCluster\<lparr>Trace := [DeleteNetworkSecurityGroup ''nsg-1'', DeleteSubnet (uuidOf 0xaa)]\<rparr>"
  let ?sS = "setFinalizers []
               (exampleCluster\<lparr>Trace := [DeleteNetworkSecurityGroup ''nsg-1'', DeleteSubnet (uuidOf 0xaa),
                                           DeleteSubnet (uuidOf 0xbb), DeleteVpc (uuidOf 0x11)]\<rparr>)"
  have f: "reconcileDelete deleteOfAFails exampleCluster =
             ((Result0, Some (Errorf ''failed to delete subnet %s, status %d'' [S ''a'', D 500])), ?sF)"
    by code_simp
  have g: "reconcileDelete deletesSucceed exampleCluster = ((Result0, None), ?sS)"
    by code_simp
  have i1: "issued exampleCluster ?sF = [DeleteNetworkSecurityGroup ''nsg-1'', DeleteSubnet (uuidOf 0xaa)]"
    by code_simp
  have plan: "deletePlan exampleCluster =
     [Issue (DeleteNetworkSecurityGroup ''nsg-1''), Issue (DeleteSubnet (uuidOf 0xaa)),
      Issue (DeleteSubnet (uuidOf 0xbb)), Issue (DeleteVpc (uuidOf 0x11))]"
    by code_simp
  from C2_deletion_order[OF f]
  have a: "prefix (map Issue (issued exampleCluster ?sF)) (deletePlan exampleCluster)"
    and b: "getFinalizers ?sF = getFinalizers exampleCluster"
    by blast+
  from C2_deletion_order[OF g]
  have c: "map Issue (issued exampleCluster ?sS) = deletePlan exampleCluster"
    and d: "getFinalizers ?sS = RemoveFinalizer (getFinalizers exampleCluster) NvidiaBMMClusterFinalizer"
    by blast+
  show ?thesis
    unfolding f g using a b c d i1 plan by simp
qed

section \<open>Readiness conditions of a converging pass\<close>

lemma conditions_Get_Set:
  "conditions_Get t (conditions_Set c cs) = (if cond_Type c = t then Some c else conditions_Get t cs)"
  by (induction cs) (auto simp: conditions_Get_def)

lemma getCondition_setCondition:
  "getCondition t (setCondition c s) = (if cond_Type c = t then Some c else getCondition t s)"
  by (simp add: getCondition_def setCondition_def mapStatus_def conditions_Get_Set)

lemma getCondition_SetReady [simp]: "getCondition t (SetReady b s) = getCondition t s"
  by (simp add: scope_defs)

lemma IsReady_setCondition [simp]: "IsReady (setCondition c s) = IsReady s"
  by (simp add: scope_defs)

lemma IsReady_SetReady [simp]: "IsReady (SetReady b s) = b"
  by (simp add: scope_defs)

lemma stepFrame_condition: "stepFrame s s' \<Longrightarrow> getCondition t s' = getCondition t s"
  by (simp add: stepFrame_def getCondition_def)

lemma stepFrame_ready: "stepFrame s s' \<Longrightarrow> IsReady s' = IsReady s"
  by (simp add: stepFrame_def IsReady_def)

lemma stepFrame_spec:
  "stepFrame s s' \<Longrightarrow> cluster_Spec (NvidiaBMMCluster s') = cluster_Spec (NvidiaBMMCluster s)"
  by (simp add: stepFrame_def)

lemma spec_setCondition [simp]:
  "cluster_Spec (NvidiaBMMCluster (setCondition c s)) = cluster_Spec (NvidiaBMMCluster s)"
  by (simp add: scope_defs)

lemma cond_types [simp]:
  "cond_Type (condTrue t r) = t" "cond_Type (condFalse t r e) = t"
  "cond_Type vpcTrue = VPCReadyCondition" "cond_Type subnetsTrue = SubnetsReadyCondition"
  by (simp_all add: condTrue_def condFalse_def vpcTrue_def subnetsTrue_def)

lemma vpcTrue_eq: "vpcTrue = condTrue VPCReadyCondition ''VPCReady''"
  by (simp add: vpcTrue_def condTrue_def)

lemma subnetsTrue_eq: "subnetsTrue = condTrue SubnetsReadyCondition ''SubnetsReady''"
  by (simp add: subnetsTrue_def condTrue_def)

lemma holds_setCondition:
  "holds t st msg (setCondition c s) =
     (if cond_Type c = t then cond_Status c = st \<and> cond_Message c = msg else holds t st msg s)"
  by (simp add: holds_def getCondition_setCondition)

lemma holds_SetReady [simp]: "holds t st msg (SetReady b s) = holds t st msg s"
  by (simp add: holds_def)

lemma cond_fields [simp]:
  "cond_Status (condTrue t r) = ConditionTrue" "cond_Message (condTrue t r) = None"
  "cond_Status (condFalse t r e) = ConditionFalse" "cond_Message (condFalse t r e) = Some e"
  by (simp_all add: condTrue_def condFalse_def)

lemma holds_frame: "stepFrame s s' \<Longrightarrow> holds t st msg s' = holds t st msg s"
  by (simp add: holds_def stepFrame_condition)

lemma cond_names_distinct [simp]:
  "VPCReadyCondition \<noteq> SubnetsReadyCondition" "VPCReadyCondition \<noteq> NSGReadyCondition"
  "SubnetsReadyCondition \<noteq> NSGReadyCondition" "SubnetsReadyCondition \<noteq> VPCReadyCondition"
  "NSGReadyCondition \<noteq> VPCReadyCondition" "NSGReadyCondition \<noteq> SubnetsReadyCondition"
  "ReadyCondition \<noteq> VPCReadyCondition" "ReadyCondition \<noteq> SubnetsReadyCondition"
  "ReadyCondition \<noteq> NSGReadyCondition"
  by (simp_all add: VPCReadyCondition_def SubnetsReadyCondition_def NSGReadyCondition_def ReadyCondition_def)

lemma reconcileNormal_verdicts:
  assumes fin: "ContainsFinalizer (getFinalizers s) NvidiaBMMClusterFinalizer"
    and site: "SiteID s = Inr siteID"
    and run: "reconcileNormal cl lib s = ((res, err), s')"
  shows "err = failure (verdicts cl lib s siteID) \<and>
         recorded VPCReadyCondition (fst (verdicts cl lib s siteID)) s s' \<and>
         recorded SubnetsReadyCondition (fst (snd (verdicts cl lib s siteID))) s s' \<and>
         recorded NSGReadyCondition (snd (snd (verdicts cl lib s siteID))) s s' \<and>
         IsReady s' = (if failure (verdicts cl lib s siteID) = None then True else IsReady s)"
proof -
  obtain r1 s1 where v: "reconcileVPC cl s siteID = (r1, s1)" by (cases "reconcileVPC cl s siteID") auto
  note f1 = reconcileVPC_frame[OF v]
  let ?s2 = "setCondition (condTrue VPCReadyCondition ''VPCReady'') s1"
  obtain r3 s3 where sn: "reconcileSubnets cl lib ?s2 siteID = (r3, s3)"
    by (cases "reconcileSubnets cl lib ?s2 siteID") auto
  note f3 = reconcileSubnets_frame[OF sn]
  let ?s4 = "setCondition (condTrue SubnetsReadyCondition ''SubnetsReady'') s3"
  have spec4: "cluster_Spec (NvidiaBMMCluster ?s4) = cluster_Spec (NvidiaBMMCluster s)"
    using stepFrame_spec[OF f1] stepFrame_spec[OF f3] by simp
  have c1: "\<And>t. getCondition t s1 = getCondition t s" using stepFrame_condition[OF f1] by simp
  have c3: "\<And>t. getCondition t s3 = getCondition t ?s2" using stepFrame_condition[OF f3] by simp
  have r1': "IsReady s1 = IsReady s" using stepFrame_ready[OF f1] .
  have r3': "IsReady s3 = IsReady s" using stepFrame_ready[OF f3] r1' by simp
  show ?thesis
  proof (cases r1)
    case (Some e)
    from run fin site v Some have "err = Some e"
      and "s' = setCondition (condFalse VPCReadyCondition ''VPCReconcileFailed'' e) s1"
      by (simp_all add: reconcileNormal_def)
    moreover have "verdicts cl lib s siteID = (Failed e, NotRun, NotRun)"
      using v Some by (simp add: verdicts_def)
    ultimately show ?thesis
      by (simp add: getCondition_setCondition c1 r1' recorded_def holds_def failure_def)
  next
    case None
    note n1 = None
    show ?thesis
    proof (cases r3)
      case (Some e)
      from run fin site v n1 sn Some have "err = Some e"
        and "s' = setCondition (condFalse SubnetsReadyCondition ''SubnetReconcileFailed'' e) s3"
        by (simp_all add: reconcileNormal_def Let_def)
      moreover have "verdicts cl lib s siteID = (Succeeded, Failed e, NotRun)"
        using v n1 sn Some by (simp add: verdicts_def vpcTrue_eq)
      ultimately show ?thesis
        by (simp add: getCondition_setCondition c1 c3 r3' recorded_def holds_def failure_def)
    next
      case None
      note n3 = None
      show ?thesis
      proof (cases "vpc_NetworkSecurityGroup (VPC (cluster_Spec (NvidiaBMMCluster s)))")
        case None
        from run fin site v n1 sn n3 None spec4 have "err = None"
          and "s' = setCondition (condTrue ReadyCondition ''NvidiaBMMClusterReady'') (SetReady True ?s4)"
          by (simp_all add: reconcileNormal_def Let_def)
        moreover have "verdicts cl lib s siteID = (Succeeded, Succeeded, NotRun)"
          using v n1 sn n3 None by (simp add: verdicts_def vpcTrue_eq)
        ultimately show ?thesis
          by (simp add: getCondition_setCondition c1 c3 recorded_def holds_def failure_def)
      next
        case (Some nsgSpec)
        obtain r5 s5 where g: "reconcileNSG cl ?s4 siteID nsgSpec = (r5, s5)"
          by (cases "reconcileNSG cl ?s4 siteID nsgSpec") auto
        note f5 = reconcileNSG_frame[OF g]
        have c5: "\<And>t. getCondition t s5 = getCondition t ?s4" using stepFrame_condition[OF f5] by simp
        have r5': "IsReady s5 = IsReady s" using stepFrame_ready[OF f5] r3' by simp
        show ?thesis
        proof (cases r5)
          case (Some e)
          from run fin site v n1 sn n3 \<open>vpc_NetworkSecurityGroup _ = Some nsgSpec\<close> spec4 g Some
          have "err = Some e"
            and "s' = setCondition (condFalse NSGReadyCondition ''NSGReconcileFailed'' e) s5"
            by (simp_all add: reconcileNormal_def Let_def)
          moreover have "verdicts cl lib s siteID = (Succeeded, Succeeded, Failed e)"
            using v n1 sn n3 \<open>vpc_NetworkSecurityGroup _ = Some nsgSpec\<close> g Some
            by (simp add: verdicts_def vpcTrue_eq subnetsTrue_eq)
          ultimately show ?thesis
            by (simp add: getCondition_setCondition c1 c3 c5 r5' recorded_def holds_def failure_def)
        next
          case None
          from run fin site v n1 sn n3 \<open>vpc_NetworkSecurityGroup _ = Some nsgSpec\<close> spec4 g None
          have "err = None"
            and "s' = setCondition (condTrue ReadyCondition ''NvidiaBMMClusterReady'')
                       (SetReady True (setCondition (condTrue NSGReadyCondition ''NSGReady'') s5))"
            by (simp_all add: reconcileNormal_def Let_def)
          moreover have "verdicts cl lib s siteID = (Succeeded, Succeeded, Succeeded)"
            using v n1 sn n3 \<open>vpc_NetworkSecurityGroup _ = Some nsgSpec\<close> g None
            by (simp add: verdicts_def vpcTrue_eq subnetsTrue_eq)
          ultimately show ?thesis
            by (simp add: getCondition_setCondition c1 c3 c5 recorded_def holds_def failure_def)
        qed
      qed
    qed
  qed
qed


lemma verdicts_shape:
  "failure (verdicts cl lib s siteID) = None \<longleftrightarrow>
     verdicts cl lib s siteID =
       (Succeeded, Succeeded,
        if vpc_NetworkSecurityGroup (VPC (cluster_Spec (NvidiaBMMCluster s))) = None
        then NotRun else Succeeded)"
  by (auto simp: verdicts_def failure_def split: prod.splits option.splits)

lemma reconcileNormal_no_site:
  assumes fin: "ContainsFinalizer (getFinalizers s) NvidiaBMMClusterFinalizer"
    and site: "SiteID s = Inl e"
    and run: "reconcileNormal cl lib s = ((res, err), s')"
  shows "err = Some e \<and> s' = setCondition (condFalse VPCReadyCondition ''SiteNotFound'' e) s"
  using assms by (simp add: reconcileNormal_def)

text \<open>
  C3. Take a converging pass: \<^verbatim>\<open>reconcileNormal\<close> on a cluster whose finalizer is attached.
  The three condition types are pairwise distinct.

  \<^item> When the site id does not resolve, no step runs and no remote call is made; the pass
    returns the resolution error, the VPC condition has status false with that error as
    message, the other two conditions are as before.
  \<^item> Otherwise the VPC, subnets and security-group steps run in this order, each on the
    state the one before left, the pass stops at the first that fails, and the
    security-group step runs only when the spec has a security group. After the pass
    the condition of a step that succeeded has status true (and no message), the
    condition of the step that failed has status false and the step's error as message,
    and the condition of a step that did not run is as before. The pass returns the
    error of the failed step, and none when no step failed.

  In both cases the ready flag is true after a pass without error and otherwise as it was
  before the pass; so it turns true only in a pass in which every applicable step has
  succeeded, and a pass in which a step fails returns an error and does not set it.
\<close>

theorem C3_step_conditions:
  assumes "ContainsFinalizer (getFinalizers s) NvidiaBMMClusterFinalizer"
    and "reconcileNormal cl lib s = ((res, err), s')"
  shows "distinct [VPCReadyCondition, SubnetsReadyCondition, NSGReadyCondition] \<and>
         (case SiteID s of
            Inl e \<Rightarrow>
              err = Some e \<and> Trace s' = Trace s \<and>
              holds VPCReadyCondition ConditionFalse (Some e) s' \<and>
              getCondition SubnetsReadyCondition s' = getCondition SubnetsReadyCondition s \<and>
              getCondition NSGReadyCondition s' = getCondition NSGReadyCondition s
          | Inr siteID \<Rightarrow>
              err = failure (verdicts cl lib s siteID) \<and>
              recorded VPCReadyCondition (fst (verdicts cl lib s siteID)) s s' \<and>
              recorded SubnetsReadyCondition (fst (snd (verdicts cl lib s siteID))) s s' \<and>
              recorded NSGReadyCondition (snd (snd (verdicts cl lib s siteID))) s s' \<and>
              (err = None \<longleftrightarrow>
                 verdicts cl lib s siteID =
                   (Succeeded, Succeeded,
                    if vpc_NetworkSecurityGroup (VPC (cluster_Spec (NvidiaBMMCluster s))) = None
                    then NotRun else Succeeded))) \<and>
         IsReady s' = (if err = None then True else IsReady s) \<and>
         (IsReady s' \<and> \<not> IsReady s \<longrightarrow> err = None)"
proof (cases "SiteID s")
  case (Inl e)
  from reconcileNormal_no_site[OF assms(1) Inl assms(2)]
  show ?thesis using Inl
    by (simp add: holds_setCondition getCondition_setCondition)
next
  case (Inr siteID)
  from reconcileNormal_verdicts[OF assms(1) Inr assms(2)] verdicts_shape[of cl lib s siteID]
  show ?thesis using Inr
    by (auto split: if_splits)
qed

lemma example_site: "SiteID exampleCluster = Inr ''550e8400-e29b-41d4-a716-446655440000''"
  by code_simp

lemma example_finalizer: "ContainsFinalizer (getFinalizers exampleCluster) NvidiaBMMClusterFinalizer"
  by code_simp

lemma example_nsg:
  "vpc_NetworkSecurityGroup (VPC (cluster_Spec (NvidiaBMMCluster exampleCluster))) =
     Some \<lparr>nsg_Name = ''nsg'', nsg_Rules = []\<rparr>"
  by code_simp

lemma up_vpc:
  "reconcileVPC platformUp exampleCluster ''550e8400-e29b-41d4-a716-446655440000'' =
     (None, exampleCluster\<lparr>Trace := [GetVpc (uuidOf 0x11)]\<rparr>)"
  by code_simp

lemma up_subnets:
  "reconcileSubnets platformUp noIPv6
     (setCondition vpcTrue (exampleCluster\<lparr>Trace := [GetVpc (uuidOf 0x11)]\<rparr>))
     ''550e8400-e29b-41d4-a716-446655440000'' =
   (None, setCondition vpcTrue
      (exampleCluster\<lparr>Trace := [GetVpc (uuidOf 0x11),
         GetIpblock ''44444444-4444-4444-4444-444444444444'',
         GetSubnet (uuidOf 0xaa), GetSubnet (uuidOf 0xbb)]\<rparr>))"
  by code_simp

lemma up_nsg:
  "reconcileNSG platformUp
     (setCondition subnetsTrue (setCondition vpcTrue
        (exampleCluster\<lparr>Trace := [GetVpc (uuidOf 0x11),
           GetIpblock ''44444444-4444-4444-4444-444444444444'',
           GetSubnet (uuidOf 0xaa), GetSubnet (uuidOf 0xbb)]\<rparr>)))
     ''550e8400-e29b-41d4-a716-446655440000'' \<lparr>nsg_Name = ''nsg'', nsg_Rules = []\<rparr> =
   (None, setCondition subnetsTrue (setCondition vpcTrue
      (exampleCluster\<lparr>Trace := [GetVpc (uuidOf 0x11),
         GetIpblock ''44444444-4444-4444-4444-444444444444'',
         GetSubnet (uuidOf 0xaa), GetSubnet (uuidOf 0xbb),
         GetNetworkSecurityGroup ''nsg-1'']\<rparr>)))"
  by code_simp




lemma lost_vpc:
  "reconcileVPC subnetBLost exampleCluster ''550e8400-e29b-41d4-a716-446655440000'' =
     (None, exampleCluster\<lparr>Trace := [GetVpc (uuidOf 0x11)]\<rparr>)"
  by code_simp

lemma lost_subnets:
  "reconcileSubnets subnetBLost noIPv6
     (setCondition vpcTrue (exampleCluster\<lparr>Trace := [GetVpc (uuidOf 0x11)]\<rparr>))
     ''550e8400-e29b-41d4-a716-446655440000'' =
   (Some (Errorf ''failed to create subnet %s, status %d'' [S ''b'', D 500]),
    deleteSubnetID ''b'' (setCondition vpcTrue
      (exampleCluster\<lparr>Trace := [GetVpc (uuidOf 0x11),
         GetIpblock ''44444444-4444-4444-4444-444444444444'',
         GetSubnet (uuidOf 0xaa), GetSubnet (uuidOf 0xbb),
         CreateSubnet \<lparr>subReq_Name = ''b'', subReq_VpcId = uuidOf 0x11,
                       subReq_Ipv4BlockId = Some (uuidOf 0x44), subReq_PrefixLength = 24\<rparr>]\<rparr>)))"
  by code_simp

lemma no_site: "SiteID exampleNoSite = Inl (Errorf ''site reference is empty'' [])"
  by code_simp

lemma no_site_finalizer: "ContainsFinalizer (getFinalizers exampleNoSite) NvidiaBMMClusterFinalizer"
  by code_simp

theorem C3_step_conditions_witness:
  "snd (fst (reconcileNormal platformUp noIPv6 exampleCluster)) = None \<and>
   holds VPCReadyCondition ConditionTrue None (snd (reconcileNormal platformUp noIPv6 exampleCluster)) \<and>
   holds SubnetsReadyCondition ConditionTrue None (snd (reconcileNormal platformUp noIPv6 exampleCluster)) \<and>
   holds NSGReadyCondition ConditionTrue None (snd (reconcileNormal platformUp noIPv6 exampleCluster)) \<and>
   IsReady (snd (reconcileNormal platformUp noIPv6 exampleCluster)) \<and>
   snd (fst (reconcileNormal subnetBLost noIPv6 exampleCluster)) =
     Some (Errorf ''failed to create subnet %s, status %d'' [S ''b'', D 500]) \<and>
   holds VPCReadyCondition ConditionTrue None (snd (reconcileNormal subnetBLost noIPv6 exampleCluster)) \<and>
   holds SubnetsReadyCondition ConditionFalse
     (Some (Errorf ''failed to create subnet %s, status %d'' [S ''b'', D 500]))
     (snd (reconcileNormal subnetBLost noIPv6 exampleCluster)) \<and>
   getCondition NSGReadyCondition (snd (reconcileNormal subnetBLost noIPv6 exampleCluster)) = None \<and>
   \<not> IsReady (snd (reconcileNormal subnetBLost noIPv6 exampleCluster)) \<and>
   snd (fst (reconcileNormal platformUp noIPv6 exampleNoSite)) =
     Some (Errorf ''site reference is empty'' []) \<and>
   holds VPCReadyCondition ConditionFalse (Some (Errorf ''site reference is empty'' []))
     (snd (reconcileNormal platformUp noIPv6 exampleNoSite)) \<and>
   Trace (snd (reconcileNormal platformUp noIPv6 exampleNoSite)) = [] \<and>
   \<not> IsReady (snd (reconcileNormal platformUp noIPv6 exampleNoSite))"
proof -
  let ?site = "''550e8400-e29b-41d4-a716-446655440000''"
  let ?e = "Errorf ''failed to create subnet %s, status %d'' [S ''b'', D 500]"
  have up: "reconcileNormal platformUp noIPv6 exampleCluster =
      ((fst (fst (reconcileNormal platformUp noIPv6 exampleCluster)),
        snd (fst (reconcileNormal platformUp noIPv6 exampleCluster))),
       snd (reconcileNormal platformUp noIPv6 exampleCluster))"
    by simp
  have lost: "reconcileNormal subnetBLost noIPv6 exampleCluster =
      ((fst (fst (reconcileNormal subnetBLost noIPv6 exampleCluster)),
        snd (fst (reconcileNormal subnetBLost noIPv6 exampleCluster))),
       snd (reconcileNormal subnetBLost noIPv6 exampleCluster))"
    by simp
  have nosite: "reconcileNormal platformUp noIPv6 exampleNoSite =
      ((fst (fst (reconcileNormal platformUp noIPv6 exampleNoSite)),
        snd (fst (reconcileNormal platformUp noIPv6 exampleNoSite))),
       snd (reconcileNormal platformUp noIPv6 exampleNoSite))"
    by simp
  have v1: "verdicts platformUp noIPv6 exampleCluster ?site = (Succeeded, Succeeded, Succeeded)"
    by (simp add: verdicts_def up_vpc up_subnets up_nsg example_nsg)
  have v2: "verdicts subnetBLost noIPv6 exampleCluster ?site = (Succeeded, Failed ?e, NotRun)"
    by (simp add: verdicts_def lost_vpc lost_subnets)
  have before: "getCondition NSGReadyCondition exampleCluster = None" "\<not> IsReady exampleCluster"
    "\<not> IsReady exampleNoSite" "Trace exampleNoSite = []"
    by code_simp+
  have fa: "failure (Succeeded, Succeeded, Succeeded) = None" by (simp add: failure_def)
  have fb: "failure (Succeeded, Failed ?e, NotRun) = Some ?e" by (simp add: failure_def)
  note a = C3_step_conditions[OF example_finalizer up, unfolded example_site sum.case v1 fa]
  note b = C3_step_conditions[OF example_finalizer lost, unfolded example_site sum.case v2 fb]
  note c = C3_step_conditions[OF no_site_finalizer nosite, unfolded no_site sum.case]
  from a have a': "snd (fst (reconcileNormal platformUp noIPv6 exampleCluster)) = None"
    by blast
  from b have b': "snd (fst (reconcileNormal subnetBLost noIPv6 exampleCluster)) = Some ?e"
    by blast
  from c have c': "snd (fst (reconcileNormal platformUp noIPv6 exampleNoSite)) =
      Some (Errorf ''site reference is empty'' [])"
    by blast
  show ?thesis
    using a b c unfolding a' b' c' by (simp add: recorded_def before)
qed

section \<open>Idempotence of cluster reconciliation once converged\<close>

lemma quiet_refl [simp]: "quiet s s"
  by (simp add: quiet_def)

lemma quiet_trans: "quiet s s1 \<Longrightarrow> quiet s1 s2 \<Longrightarrow> quiet s s2"
  unfolding quiet_def using issued_trans[of s1 s s2] by auto

lemma quiet_call: "\<not> isCreate c \<Longrightarrow> quiet s (s\<lparr>Trace := Trace s @ [c]\<rparr>)"
  by (simp add: quiet_def cachedIds_def scope_defs issued_def)

lemma quiet_calls: "\<forall>c\<in>set cs. \<not> isCreate c \<Longrightarrow> quiet s (s\<lparr>Trace := Trace s @ cs\<rparr>)"
  by (simp add: quiet_def cachedIds_def scope_defs issued_def)

lemma quiet_setCondition [simp]: "quiet s (setCondition c s)"
  by (simp add: quiet_def cachedIds_def scope_defs issued_def)

lemma quiet_SetReady [simp]: "quiet s (SetReady b s)"
  by (simp add: quiet_def cachedIds_def scope_defs issued_def)

lemma reconcileVPC_resolved:
  assumes "getVPCID s \<noteq> []" "uuid_Parse (getVPCID s) = Inr u" "resolves cl (GetVpc u)"
  shows "reconcileVPC cl s siteID = (None, s\<lparr>Trace := Trace s @ [GetVpc u]\<rparr>)"
proof -
  from assms(3) obtain resp body where "cl (Trace s) (GetVpc u) = Inr resp" "StatusCode resp = 200" "JSON200 resp = Some body"
    unfolding resolves_def by (metis not_None_eq)
  with assms(1,2) show ?thesis by (simp add: reconcileVPC_def invoke_def)
qed

lemma ensureIPBlock_resolved:
  assumes "getIPBlockID s \<noteq> []" "uuid_Parse (getIPBlockID s) = Inr u"
    "resolves cl (GetIpblock (getIPBlockID s))"
  shows "ensureIPBlock cl s siteID = (Inr u, s\<lparr>Trace := Trace s @ [GetIpblock (getIPBlockID s)]\<rparr>)"
proof -
  from assms(3) obtain resp body where "cl (Trace s) (GetIpblock (getIPBlockID s)) = Inr resp"
    "StatusCode resp = 200" "JSON200 resp = Some body"
    unfolding resolves_def by (metis not_None_eq)
  with assms(1,2) show ?thesis by (simp add: ensureIPBlock_def invoke_def)
qed

lemma reconcileSubnet_resolved:
  assumes "map_of (getSubnetIDs s) (subnet_Name subnetSpec) = Some i" "uuid_Parse i = Inr u"
    "resolves cl (GetSubnet u)"
  shows "reconcileSubnet cl lib vpcUUID ipBlockID subnetSpec s = (None, s\<lparr>Trace := Trace s @ [GetSubnet u]\<rparr>)"
proof -
  from assms(3) obtain resp body where "cl (Trace s) (GetSubnet u) = Inr resp"
    "StatusCode resp = 200" "JSON200 resp = Some body"
    unfolding resolves_def by (metis not_None_eq)
  with assms(1,2) show ?thesis by (simp add: reconcileSubnet_def invoke_def)
qed

lemma reconcileSubnets_loop_resolved:
  assumes "\<forall>subnetSpec \<in> set specs.
         \<exists>i u. map_of (getSubnetIDs s) (subnet_Name subnetSpec) = Some i \<and>
               uuid_Parse i = Inr u \<and> resolves cl (GetSubnet u)"
  shows "\<exists>cs. reconcileSubnets_loop cl lib vpcUUID ipBlockID specs s = (None, s\<lparr>Trace := Trace s @ cs\<rparr>) \<and>
              (\<forall>c\<in>set cs. \<not> isCreate c)"
  using assms
proof (induction specs arbitrary: s)
  case Nil
  have "s\<lparr>Trace := Trace s @ []\<rparr> = s" by simp
  then show ?case by (intro exI[of _ "[]"]) simp
next
  case (Cons a specs)
  from Cons.prems obtain i u where a: "map_of (getSubnetIDs s) (subnet_Name a) = Some i"
    "uuid_Parse i = Inr u" "resolves cl (GetSubnet u)" by auto
  let ?s1 = "s\<lparr>Trace := Trace s @ [GetSubnet u]\<rparr>"
  note one = reconcileSubnet_resolved[OF a, of lib vpcUUID ipBlockID]
  have ids: "getSubnetIDs ?s1 = getSubnetIDs s" by (simp add: scope_defs)
  from Cons.prems have "\<forall>subnetSpec \<in> set specs.
         \<exists>i u. map_of (getSubnetIDs ?s1) (subnet_Name subnetSpec) = Some i \<and>
               uuid_Parse i = Inr u \<and> resolves cl (GetSubnet u)"
    unfolding ids by simp
  from Cons.IH[OF this] obtain cs where
    r: "reconcileSubnets_loop cl lib vpcUUID ipBlockID specs ?s1 = (None, ?s1\<lparr>Trace := Trace ?s1 @ cs\<rparr>)"
    and c: "\<forall>c\<in>set cs. \<not> isCreate c" by blast
  have "reconcileSubnets_loop cl lib vpcUUID ipBlockID (a # specs) s =
          (None, s\<lparr>Trace := Trace s @ (GetSubnet u # cs)\<rparr>)"
    using one r by simp
  moreover have "\<forall>c\<in>set (GetSubnet u # cs). \<not> isCreate c" using c by (simp add: isCreate_def)
  ultimately show ?case by blast
qed

lemma reconcileSubnets_resolved:
  assumes "converged cl s"
  shows "\<exists>s'. reconcileSubnets cl lib s siteID = (None, s') \<and> quiet s s'"
proof -
  from assms obtain v where v: "getVPCID s \<noteq> []" "uuid_Parse (getVPCID s) = Inr v"
    by (auto simp: converged_def)
  from assms obtain b where b: "getIPBlockID s \<noteq> []" "uuid_Parse (getIPBlockID s) = Inr b"
    "resolves cl (GetIpblock (getIPBlockID s))"
    by (auto simp: converged_def)
  let ?s1 = "s\<lparr>Trace := Trace s @ [GetIpblock (getIPBlockID s)]\<rparr>"
  note e = ensureIPBlock_resolved[OF b, of siteID]
  have q1: "quiet s ?s1" by (rule quiet_call) (simp add: isCreate_def)
  have same: "getSubnetIDs ?s1 = getSubnetIDs s"
    "cluster_Spec (NvidiaBMMCluster ?s1) = cluster_Spec (NvidiaBMMCluster s)"
    by (simp_all add: scope_defs)
  from assms have "\<forall>subnetSpec \<in> set (Subnets (cluster_Spec (NvidiaBMMCluster ?s1))).
         \<exists>i u. map_of (getSubnetIDs ?s1) (subnet_Name subnetSpec) = Some i \<and>
               uuid_Parse i = Inr u \<and> resolves cl (GetSubnet u)"
    unfolding same by (simp add: converged_def)
  from reconcileSubnets_loop_resolved[OF this, of lib v b] obtain cs where
    l: "reconcileSubnets_loop cl lib v b (Subnets (cluster_Spec (NvidiaBMMCluster ?s1))) ?s1 =
          (None, ?s1\<lparr>Trace := Trace ?s1 @ cs\<rparr>)"
    and c: "\<forall>c\<in>set cs. \<not> isCreate c" by blast
  have q2: "quiet ?s1 (?s1\<lparr>Trace := Trace ?s1 @ cs\<rparr>)" by (rule quiet_calls[OF c])
  have "reconcileSubnets cl lib s siteID = (None, ?s1\<lparr>Trace := Trace ?s1 @ cs\<rparr>)"
    using v e l by (simp add: reconcileSubnets_def Let_def)
  with quiet_trans[OF q1 q2] show ?thesis by blast
qed

lemma reconcileNSG_resolved:
  assumes "getNSGID s \<noteq> []" "resolves cl (GetNetworkSecurityGroup (getNSGID s))"
  shows "\<exists>r s'. reconcileNSG cl s siteID nsgSpec = (r, s') \<and> quiet s s' \<and>
           ((\<exists>u. uuid_Parse siteID = Inr u) \<longrightarrow> r = None)"
proof -
  from assms(2) obtain resp body where r: "cl (Trace s) (GetNetworkSecurityGroup (getNSGID s)) = Inr resp"
    "StatusCode resp = 200" "JSON200 resp = Some body"
    unfolding resolves_def by (metis not_None_eq)
  show ?thesis
  proof (cases "uuid_Parse siteID")
    case (Inl e)
    then show ?thesis by (simp add: reconcileNSG_def)
  next
    case (Inr u)
    have "quiet s (s\<lparr>Trace := Trace s @ [GetNetworkSecurityGroup (getNSGID s)]\<rparr>)"
      by (rule quiet_call) (simp add: isCreate_def)
    with Inr r assms(1) show ?thesis by (simp add: reconcileNSG_def invoke_def)
  qed
qed

lemma converged_quiet: "converged cl s \<Longrightarrow> quiet s s' \<Longrightarrow> converged cl s'"
  by (simp add: converged_def quiet_def cachedIds_def)


lemma reconcileNormal_converged:
  assumes conv: "converged cl s" and run: "reconcileNormal cl lib s = ((res, err), s')"
  shows "quiet s s' \<and>
         (\<forall>siteID u. SiteID s = Inr siteID \<and> uuid_Parse siteID = Inr u \<longrightarrow> err = None \<and> IsReady s')"
proof -
  from conv have fin: "ContainsFinalizer (getFinalizers s) NvidiaBMMClusterFinalizer"
    by (simp add: converged_def)
  show ?thesis
  proof (cases "SiteID s")
    case (Inl e)
    with run fin show ?thesis by (auto simp: reconcileNormal_def)
  next
    case (Inr siteID)
    from conv obtain v where v: "getVPCID s \<noteq> []" "uuid_Parse (getVPCID s) = Inr v" "resolves cl (GetVpc v)"
      by (auto simp: converged_def)
    let ?s1 = "s\<lparr>Trace := Trace s @ [GetVpc v]\<rparr>"
    note r1 = reconcileVPC_resolved[OF v, of siteID]
    have q1: "quiet s ?s1" by (rule quiet_call) (simp add: isCreate_def)
    let ?s2 = "setCondition (condTrue VPCReadyCondition ''VPCReady'') ?s1"
    have q2: "quiet s ?s2" by (rule quiet_trans[OF q1]) simp
    note c2 = converged_quiet[OF conv q2]
    from reconcileSubnets_resolved[OF c2, of lib siteID] obtain s3 where
      r3: "reconcileSubnets cl lib ?s2 siteID = (None, s3)" and q3: "quiet ?s2 s3" by blast
    let ?s4 = "setCondition (condTrue SubnetsReadyCondition ''SubnetsReady'') s3"
    have q4: "quiet s ?s4" by (rule quiet_trans[OF quiet_trans[OF q2 q3]]) simp
    note c4 = converged_quiet[OF conv q4]
    show ?thesis
    proof (cases "vpc_NetworkSecurityGroup (VPC (cluster_Spec (NvidiaBMMCluster ?s4)))")
      case None
      with run fin Inr r1 r3 have e: "err = None"
        and s': "s' = setCondition (condTrue ReadyCondition ''NvidiaBMMClusterReady'') (SetReady True ?s4)"
        by (simp_all add: reconcileNormal_def Let_def)
      have "quiet ?s4 s'" unfolding s' by (rule quiet_trans[of _ "SetReady True ?s4"]) simp_all
      from quiet_trans[OF q4 this] e s' show ?thesis by simp
    next
      case (Some nsgSpec)
      with c4 have n: "getNSGID ?s4 \<noteq> []" "resolves cl (GetNetworkSecurityGroup (getNSGID ?s4))"
        by (simp_all add: converged_def)
      from reconcileNSG_resolved[OF n, of siteID nsgSpec] obtain r5 s5 where
        r5: "reconcileNSG cl ?s4 siteID nsgSpec = (r5, s5)" and q5: "quiet ?s4 s5"
        and ok: "(\<exists>u. uuid_Parse siteID = Inr u) \<longrightarrow> r5 = None" by blast
      show ?thesis
      proof (cases r5)
        case None
        with run fin Inr r1 r3 Some r5 have e: "err = None"
          and s': "s' = setCondition (condTrue ReadyCondition ''NvidiaBMMClusterReady'')
                     (SetReady True (setCondition (condTrue NSGReadyCondition ''NSGReady'') s5))"
          by (simp_all add: reconcileNormal_def Let_def)
        let ?a = "setCondition (condTrue NSGReadyCondition ''NSGReady'') s5"
        have "quiet s5 ?a" "quiet ?a (SetReady True ?a)"
          "quiet (SetReady True ?a) (setCondition (condTrue ReadyCondition ''NvidiaBMMClusterReady'') (SetReady True ?a))"
          by simp_all
        then have "quiet s5 s'" unfolding s' by (blast intro: quiet_trans)
        from quiet_trans[OF quiet_trans[OF q4 q5] this] e s' show ?thesis by simp
      next
        case (Some x)
        with run fin Inr r1 r3 \<open>vpc_NetworkSecurityGroup _ = Some nsgSpec\<close> r5 have e: "err = Some x"
          and s': "s' = setCondition (condFalse NSGReadyCondition ''NSGReconcileFailed'' x) s5"
          by (simp_all add: reconcileNormal_def Let_def)
        have "quiet s5 s'" unfolding s' by simp
        from quiet_trans[OF quiet_trans[OF q4 q5] this] ok Some Inr show ?thesis by auto
      qed
    qed
  qed
qed

text \<open>
  C4. Take a converged cluster on the platform \<open>cl\<close>: the finalizer is attached and the cached
  VPC id, the cached IP-block id, the cached id of every subnet of the spec and, when the
  spec has a security group, the cached security-group id all resolve (the read returns
  status 200 with a body). Then a pass of \<^verbatim>\<open>reconcileNormal\<close> only appends calls to the
  trace, none of the calls it issues is a create (\<^verbatim>\<open>CreateVpc\<close>, \<^verbatim>\<open>CreateIpblock\<close>,
  \<^verbatim>\<open>CreateSubnet\<close>, \<^verbatim>\<open>CreateNetworkSecurityGroup\<close>), every cached id is after the pass
  what it was before, and the cluster is converged again, so that the same holds of the
  next pass. When moreover the site id of the spec is a UUID, the pass returns no error
  and leaves the cluster ready.
\<close>

theorem C4_idempotent_once_converged:
  assumes "converged cl s" and "reconcileNormal cl lib s = ((res, err), s')"
  shows "Trace s' = Trace s @ issued s s' \<and>
         (\<forall>c \<in> set (issued s s'). \<not> isCreate c) \<and>
         cachedIds s' = cachedIds s \<and>
         converged cl s' \<and>
         (\<forall>siteID u. SiteID s = Inr siteID \<and> uuid_Parse siteID = Inr u \<longrightarrow> err = None \<and> IsReady s')"
  using reconcileNormal_converged[OF assms] converged_quiet[OF assms(1)]
  by (auto simp: quiet_def)


lemma platformUp_resolves: "isGet c \<Longrightarrow> resolves platformUp c"
  by (simp add: resolves_def platformUp_def ok200_def)

lemma example_converged: "converged platformUp exampleCluster"
proof -
  have v: "getVPCID exampleCluster \<noteq> []" "uuid_Parse (getVPCID exampleCluster) = Inr (uuidOf 0x11)"
    by code_simp+
  have b: "getIPBlockID exampleCluster \<noteq> []" "uuid_Parse (getIPBlockID exampleCluster) = Inr (uuidOf 0x44)"
    by code_simp+
  have sn: "map (\<lambda>x. map_of (getSubnetIDs exampleCluster) (subnet_Name x))
              (Subnets (cluster_Spec (NvidiaBMMCluster exampleCluster))) =
            [Some ''aaaaaaaa-aaaa-aaaa-aaaa-aaaaaaaaaaaa'', Some ''bbbbbbbb-bbbb-bbbb-bbbb-bbbbbbbbbbbb'']"
    by code_simp
  have p: "uuid_Parse ''aaaaaaaa-aaaa-aaaa-aaaa-aaaaaaaaaaaa'' = Inr (uuidOf 0xaa)"
    "uuid_Parse ''bbbbbbbb-bbbb-bbbb-bbbb-bbbbbbbbbbbb'' = Inr (uuidOf 0xbb)"
    by code_simp+
  have n: "getNSGID exampleCluster \<noteq> []" by code_simp
  have subnets: "\<forall>subnetSpec \<in> set (Subnets (cluster_Spec (NvidiaBMMCluster exampleCluster))).
         \<exists>i u. map_of (getSubnetIDs exampleCluster) (subnet_Name subnetSpec) = Some i \<and>
               uuid_Parse i = Inr u \<and> resolves platformUp (GetSubnet u)"
  proof
    fix x assume "x \<in> set (Subnets (cluster_Spec (NvidiaBMMCluster exampleCluster)))"
    then have "map_of (getSubnetIDs exampleCluster) (subnet_Name x) \<in>
        set (map (\<lambda>x. map_of (getSubnetIDs exampleCluster) (subnet_Name x))
              (Subnets (cluster_Spec (NvidiaBMMCluster exampleCluster))))" by simp
    then have "map_of (getSubnetIDs exampleCluster) (subnet_Name x) = Some ''aaaaaaaa-aaaa-aaaa-aaaa-aaaaaaaaaaaa'' \<or>
               map_of (getSubnetIDs exampleCluster) (subnet_Name x) = Some ''bbbbbbbb-bbbb-bbbb-bbbb-bbbbbbbbbbbb''"
      unfolding sn by simp
    then show "\<exists>i u. map_of (getSubnetIDs exampleCluster) (subnet_Name x) = Some i \<and>
               uuid_Parse i = Inr u \<and> resolves platformUp (GetSubnet u)"
      using p platformUp_resolves[of "GetSubnet (uuidOf 0xaa)"] platformUp_resolves[of "GetSubnet (uuidOf 0xbb)"]
      by (auto simp: isGet_def)
  qed
  show ?thesis
    unfolding converged_def
    using example_finalizer v b n subnets
      platformUp_resolves[of "GetVpc (uuidOf 0x11)"]
      platformUp_resolves[of "GetIpblock (getIPBlockID exampleCluster)"]
      platformUp_resolves[of "GetNetworkSecurityGroup (getNSGID exampleCluster)"]
    by (simp add: isGet_def)
qed

lemma up_pass:
  "reconcileNormal platformUp noIPv6 exampleCluster =
     ((Result0, None),
      setCondition (condTrue ReadyCondition ''NvidiaBMMClusterReady'')
        (SetReady True
          (setCondition (condTrue NSGReadyCondition ''NSGReady'')
            (setCondition subnetsTrue (setCondition vpcTrue
              (exampleCluster\<lparr>Trace := [GetVpc (uuidOf 0x11),
                 GetIpblock ''44444444-4444-4444-4444-444444444444'',
                 GetSubnet (uuidOf 0xaa), GetSubnet (uuidOf 0xbb),
                 GetNetworkSecurityGroup ''nsg-1'']\<rparr>))))))"
  by (simp add: reconcileNormal_def example_finalizer example_site up_vpc
      vpcTrue_eq[symmetric] subnetsTrue_eq[symmetric] up_subnets up_nsg example_nsg Let_def)

theorem C4_idempotent_once_converged_witness:
  "converged platformUp exampleCluster \<and>
   issued exampleCluster (snd (reconcileNormal platformUp noIPv6 exampleCluster)) =
     [GetVpc (uuidOf 0x11), GetIpblock ''44444444-4444-4444-4444-444444444444'',
      GetSubnet (uuidOf 0xaa), GetSubnet (uuidOf 0xbb), GetNetworkSecurityGroup ''nsg-1''] \<and>
   list_all (\<lambda>c. \<not> isCreate c)
     (issued exampleCluster (snd (reconcileNormal platformUp noIPv6 exampleCluster))) \<and>
   cachedIds (snd (reconcileNormal platformUp noIPv6 exampleCluster)) = cachedIds exampleCluster \<and>
   converged platformUp (snd (reconcileNormal platformUp noIPv6 exampleCluster)) \<and>
   snd (fst (reconcileNormal platformUp noIPv6 exampleCluster)) = None \<and>
   IsReady (snd (reconcileNormal platformUp noIPv6 exampleCluster))"
proof -
  have t0: "Trace exampleCluster = []" by code_simp
  have sid: "uuid_Parse ''550e8400-e29b-41d4-a716-446655440000'' = Inr exampleUUID" by code_simp
  note a = C4_idempotent_once_converged[OF example_converged up_pass]
  from a example_site sid have ok: "(None :: error option) = None \<and> IsReady (snd (reconcileNormal platformUp noIPv6 exampleCluster))"
    unfolding up_pass by auto
  have iss: "issued exampleCluster (snd (reconcileNormal platformUp noIPv6 exampleCluster)) =
     [GetVpc (uuidOf 0x11), GetIpblock ''44444444-4444-4444-4444-444444444444'',
      GetSubnet (uuidOf 0xaa), GetSubnet (uuidOf 0xbb), GetNetworkSecurityGroup ''nsg-1'']"
    unfolding up_pass by (simp add: issued_def t0 vpcTrue_def subnetsTrue_def)
  show ?thesis
    using a ok example_converged iss unfolding up_pass
    by (simp add: list_all_iff)
qed

section \<open>CIDR parsing: lemmas\<close>

lemma parseOctet_Some: "parseOctet f = Some b \<Longrightarrow> octetText f"
  by (auto simp: parseOctet_def octetText_def split: if_splits)

lemma parseIPv4_Some:
  assumes "parseIPv4 s = Some bs"
  shows "\<exists>a b c d. s = a @ ''.'' @ b @ ''.'' @ c @ ''.'' @ d \<and>
           octetText a \<and> octetText b \<and> octetText c \<and> octetText d"
proof -
  from assms have len: "length (Split (CHR ''.'') s) = 4"
    and th: "those (map parseOctet (Split (CHR ''.'') s)) = Some bs"
    by (auto simp: parseIPv4_def Let_def split: if_splits)
  from len obtain a b c d where sp: "Split (CHR ''.'') s = [a, b, c, d]"
    by (auto simp: length_Suc_conv numeral_eq_Suc)
  from th sp have "octetText a \<and> octetText b \<and> octetText c \<and> octetText d"
    by (auto split: option.splits dest: parseOctet_Some)
  with Split4[OF sp] show ?thesis by auto
qed

lemma ParseAddr_scan_no_colon:
  "CHR '':'' \<notin> set cs \<Longrightarrow> ParseAddr_scan lib s cs = Some a \<Longrightarrow>
   \<exists>bs. a = Addr4 bs \<and> parseIPv4 s = Some bs"
  by (induction cs) (auto split: if_splits)

lemma dtoi_loop_digits:
  "dtoi_loop n i s = (n', i', True) \<Longrightarrow> i' = i + length s \<Longrightarrow> 0 \<le> n \<Longrightarrow>
   list_all isDigit s \<and> n' = int (foldl (\<lambda>n c. n * 10 + digitVal c) (nat n) s)"
proof (induction s arbitrary: n i)
  case Nil
  then show ?case by simp
next
  case (Cons c cs)
  show ?case
  proof (cases "isDigit c")
    case True
    have "nat (n * 10 + int (digitVal c)) = nat n * 10 + digitVal c"
      using Cons.prems(3) by (simp add: nat_add_distrib nat_mult_distrib)
    with True Cons.prems show ?thesis
      using Cons.IH[of "n * 10 + int (digitVal c)" "Suc i"] by (auto split: if_splits)
  next
    case False
    with Cons.prems show ?thesis by simp
  qed
qed

lemma dtoi_full:
  assumes "dtoi m = (n, i, True)" and "i = length m"
  shows "m \<noteq> [] \<and> list_all isDigit m \<and> int (decimal m) = n"
proof -
  obtain n0 i0 ok0 where l: "dtoi_loop 0 0 m = (n0, i0, ok0)" by (cases "dtoi_loop 0 0 m") auto
  with assms(1) have ok: "ok0" and i0: "i0 \<noteq> 0" and e: "n0 = n" "i0 = i"
    by (auto simp: dtoi_def split: if_splits)
  from l ok e assms(2) have "dtoi_loop 0 0 m = (n, 0 + length m, True)" by simp
  from dtoi_loop_digits[OF this] have "list_all isDigit m \<and> n = int (decimal m)"
    by (simp add: decimal_def)
  moreover from i0 e assms(2) have "m \<noteq> []" by auto
  ultimately show ?thesis by simp
qed

lemma cut_at_slash:
  "CHR ''/'' \<in> set s \<Longrightarrow>
   s = takeWhile (\<lambda>c. c \<noteq> CHR ''/'') s @ CHR ''/'' # drop (Suc (length (takeWhile (\<lambda>c. c \<noteq> CHR ''/'') s))) s"
  by (induction s) auto

lemma ParseCIDR_wellFormed:
  assumes "ParseCIDR lib s = Inr ipNet" and "CHR '':'' \<notin> set s"
  shows "wellFormedCIDR4 s"
proof -
  let ?addr = "takeWhile (\<lambda>c. c \<noteq> CHR ''/'') s"
  let ?mask = "drop (Suc (length ?addr)) s"
  from assms(1) have sl: "CHR ''/'' \<in> set s"
    by (auto simp: ParseCIDR_def split: if_splits)
  from assms(1) sl obtain ipAddr where pa: "ParseAddr lib ?addr = Some ipAddr"
    by (auto simp: ParseCIDR_def Let_def split: option.splits)
  have "CHR '':'' \<notin> set ?addr" using assms(2) by (meson set_takeWhileD)
  with pa obtain bs where a4: "ipAddr = Addr4 bs" "parseIPv4 ?addr = Some bs"
    using ParseAddr_scan_no_colon[of ?addr lib ?addr ipAddr] by (auto simp: ParseAddr_def)
  obtain n i ok where d: "dtoi ?mask = (n, i, ok)" by (cases "dtoi ?mask") auto
  from assms(1) sl pa a4 d have okk: "ok" "i = length ?mask" "n \<le> 32"
    by (auto simp: ParseCIDR_def Let_def BitLen_def split: if_splits)
  from dtoi_full[of ?mask n i] d okk have m: "prefixText ?mask"
    by (auto simp: prefixText_def)
  from parseIPv4_Some[OF a4(2)] obtain a b c e where
    ad: "?addr = a @ ''.'' @ b @ ''.'' @ c @ ''.'' @ e"
    and oc: "octetText a" "octetText b" "octetText c" "octetText e" by blast
  have "s = ?addr @ ''/'' @ ?mask" using cut_at_slash[OF sl] by simp
  then have "s = a @ ''.'' @ b @ ''.'' @ c @ ''.'' @ e @ ''/'' @ ?mask"
    using ad by (metis append.assoc)
  with oc m show ?thesis unfolding wellFormedCIDR4_def by blast
qed

lemma parseCIDR_error_iff:
  "(\<exists>e. parseCIDR lib s = Inl e) \<longleftrightarrow> (\<exists>e. ParseCIDR lib s = Inl e)"
  by (auto simp: parseCIDR_def split: sum.splits)

lemma parseCIDR_malformed:
  assumes "\<not> wellFormedCIDR4 s" and "CHR '':'' \<notin> set s"
  shows "parseCIDR lib s = Inl (Errorf ''invalid CIDR %s: %w'' [S s, W (cidrError s)])"
proof -
  have "\<exists>e. ParseCIDR lib s = Inl e"
    using ParseCIDR_wellFormed[OF _ assms(2)] assms(1) by (cases "ParseCIDR lib s") auto
  moreover have "\<And>e. ParseCIDR lib s = Inl e \<Longrightarrow> e = cidrError s"
    by (auto simp: ParseCIDR_def Let_def split: if_splits option.splits prod.splits)
  ultimately show ?thesis by (auto simp: parseCIDR_def)
qed

section \<open>Identifier codec: lemmas\<close>

lemma xvalue_hexdigit: "n < 16 \<Longrightarrow> xvalue (hexdigit n) = Some n"
proof -
  assume "n < 16"
  then have "n \<in> {0,1,2,3,4,5,6,7,8,9,10,11,12,13,14,15}" by auto arith
  then show ?thesis by (auto simp add: hexdigit_def xvalue_def)
qed

lemma hexdigit_not_slash: "n < 16 \<Longrightarrow> hexdigit n \<noteq> CHR ''/''"
proof -
  assume "n < 16"
  then have "n \<in> {0,1,2,3,4,5,6,7,8,9,10,11,12,13,14,15}" by auto arith
  then show ?thesis by (auto simp add: hexdigit_def)
qed

lemma byte_nibbles: "unat (b :: byte) div 16 < 16" "unat b mod 16 < 16"
proof -
  have "unat b < 256" using unsigned_less[of b] by simp
  then show "unat b div 16 < 16" by simp
  show "unat b mod 16 < 16" by simp
qed

lemma xtob_hexByte: "xtob (hexdigit (unat b div 16)) (hexdigit (unat b mod 16)) = Some b"
  by (simp add: xtob_def xvalue_hexdigit byte_nibbles)

lemma decodePairs_encodeHex_append:
  "decodePairs (encodeHex bs @ rest) = map_option (\<lambda>ys. bs @ ys) (decodePairs rest)"
  by (induction bs)
     (auto simp: encodeHex_def hexByte_def xtob_hexByte option.map_ident split: option.splits)

lemma decodePairs_encodeHex: "decodePairs (encodeHex bs) = Some bs"
  using decodePairs_encodeHex_append[of bs "[]"] by simp

lemma decodePairs_length: "decodePairs s = Some bs \<Longrightarrow> length bs = length s div 2"
  by (induction s arbitrary: bs rule: decodePairs.induct) (auto split: option.splits)

lemma encodeHex_append: "encodeHex (xs @ ys) = encodeHex xs @ encodeHex ys"
  by (simp add: encodeHex_def)

lemma length_encodeHex: "length (encodeHex bs) = 2 * length bs"
  by (induction bs) (auto simp: encodeHex_def hexByte_def)

lemma slash_notin_hexByte: "CHR ''/'' \<notin> set (hexByte b)"
  using hexdigit_not_slash[OF byte_nibbles(1), of b] hexdigit_not_slash[OF byte_nibbles(2), of b]
  by (auto simp: hexByte_def)

lemma slash_notin_encodeHex: "CHR ''/'' \<notin> set (encodeHex bs)"
  by (induction bs) (simp_all add: encodeHex_def slash_notin_hexByte)

lemma slash_notin_uuid_String: "CHR ''/'' \<notin> set (uuid_String u)"
  by (simp add: uuid_String_def slash_notin_encodeHex)

lemma parseCanonical_shape:
  "length a = 8 \<Longrightarrow> length b = 4 \<Longrightarrow> length c = 4 \<Longrightarrow> length d = 4 \<Longrightarrow> length e = 12 \<Longrightarrow>
   parseCanonical (a @ ''-'' @ b @ ''-'' @ c @ ''-'' @ d @ ''-'' @ e) =
     (case decodePairs (a @ b @ c @ d @ e) of None \<Rightarrow> Inl invalidFormat | Some bs \<Rightarrow> Inr (UUID bs))"
  by (simp add: parseCanonical_def nth_append)

lemma split16:
  "take 4 bs @ take 2 (drop 4 bs) @ take 2 (drop 6 bs) @ take 2 (drop 8 bs) @ drop 10 bs = bs"
proof -
  have a: "take 2 (drop 8 bs) @ drop 10 bs = drop 8 bs"
    using append_take_drop_id[of 2 "drop 8 bs"] by simp
  have b: "take 2 (drop 6 bs) @ drop 8 bs = drop 6 bs"
    using append_take_drop_id[of 2 "drop 6 bs"] by simp
  have c: "take 2 (drop 4 bs) @ drop 6 bs = drop 4 bs"
    using append_take_drop_id[of 2 "drop 4 bs"] by simp
  show ?thesis by (simp add: a b c)
qed

lemma uuid_Parse_String: "length (bytes u) = 16 \<Longrightarrow> uuid_Parse (uuid_String u) = Inr u"
proof -
  assume len: "length (bytes u) = 16"
  define bs where "bs = bytes u"
  have l: "length bs = 16" using len bs_def by simp
  let ?a = "encodeHex (take 4 bs)" and ?b = "encodeHex (take 2 (drop 4 bs))"
  and ?c = "encodeHex (take 2 (drop 6 bs))" and ?d = "encodeHex (take 2 (drop 8 bs))"
  and ?e = "encodeHex (drop 10 bs)"
  have s: "uuid_String u = ?a @ ''-'' @ ?b @ ''-'' @ ?c @ ''-'' @ ?d @ ''-'' @ ?e"
    by (simp add: uuid_String_def bs_def)
  have la: "length ?a = 8" "length ?b = 4" "length ?c = 4" "length ?d = 4" "length ?e = 12"
    using l by (simp_all add: length_encodeHex)
  have len36: "length (uuid_String u) = 36" unfolding s using la by simp
  have cat: "?a @ ?b @ ?c @ ?d @ ?e = encodeHex bs"
    using split16[of bs] by (metis encodeHex_append)
  have "parseCanonical (uuid_String u) = Inr (UUID bs)"
    unfolding s using parseCanonical_shape[OF la] cat by (simp add: decodePairs_encodeHex)
  then show ?thesis using len36 by (simp add: uuid_Parse_def bs_def)
qed

lemma parseCanonical_length:
  "36 \<le> length s \<Longrightarrow> parseCanonical s = Inr u \<Longrightarrow> length (bytes u) = 16"
  by (auto simp: parseCanonical_def split: if_splits option.splits dest!: decodePairs_length)

lemma uuid_Parse_length: "uuid_Parse s = Inr u \<Longrightarrow> length (bytes u) = 16"
  by (auto simp: uuid_Parse_def split: if_splits option.splits
           dest!: decodePairs_length dest: parseCanonical_length[rotated])

lemma Split_notin: "c \<notin> set a \<Longrightarrow> Split c a = [a]"
  by (induction a) auto

lemma Split_append: "c \<notin> set a \<Longrightarrow> Split c (a @ c # rest) = a # Split c rest"
  by (induction a) auto

lemma ParseProviderID_String:
  assumes "validTuple org tenant site u"
  shows "ParseProviderID (pid_String (NewProviderID org tenant site u)) =
         Inr (NewProviderID org tenant site u)"
proof -
  from assms have o: "CHR ''/'' \<notin> set org" and t: "CHR ''/'' \<notin> set tenant"
    and si: "CHR ''/'' \<notin> set site" and l: "length (bytes u) = 16"
    by (simp_all add: validTuple_def)
  let ?rest = "org @ CHR ''/'' # tenant @ CHR ''/'' # site @ CHR ''/'' # uuid_String u"
  have str: "pid_String (NewProviderID org tenant site u) = (scheme @ ''://'') @ ?rest"
    by (simp add: pid_String_def NewProviderID_def)
  have sp: "Split (CHR ''/'') ?rest = [org, tenant, site, uuid_String u]"
    by (simp add: Split_append o t si Split_notin slash_notin_uuid_String)
  show ?thesis unfolding str ParseProviderID_def
    by (simp add: sp uuid_Parse_String l del: append_assoc)
qed

lemma ParseProviderID_structural:
  assumes "\<not> prefix (scheme @ ''://'') s \<or> length (segments s) \<noteq> 4"
  shows "ParseProviderID s = Inl StructuralError"
proof (cases "prefix (scheme @ ''://'') s")
  case False
  then show ?thesis by (simp add: ParseProviderID_def)
next
  case True
  with assms have "length (segments s) \<noteq> 4" by simp
  then show ?thesis
    by (auto simp: ParseProviderID_def segments_def split: list.splits)
qed

lemma ParseProviderID_value:
  assumes "prefix (scheme @ ''://'') s" and "length (segments s) = 4"
    and "uuid_Parse (last (segments s)) = Inl e"
  shows "ParseProviderID s = Inl (ValueError e)"
proof -
  from assms(2) obtain a b c d where seg: "segments s = [a, b, c, d]"
    by (auto simp: length_Suc_conv numeral_eq_Suc)
  with assms(3) have "uuid_Parse d = Inl e" by simp
  with assms(1) seg show ?thesis
    by (simp add: ParseProviderID_def segments_def)
qed

lemma pid_String_nonempty: "pid_String p \<noteq> []"
  by (simp add: pid_String_def scheme_def)

lemma SetProviderID_getProviderID:
  assumes "uuid_Parse instanceIDStr = Inr u"
    and "CHR ''/'' \<notin> set (ms_OrgName sc)" "CHR ''/'' \<notin> set tenant" "CHR ''/'' \<notin> set site"
  shows "\<exists>sc'. SetProviderID tenant site instanceIDStr sc = (None, sc') \<and>
               getProviderID sc' = Some (NewProviderID (ms_OrgName sc) tenant site u)"
proof -
  have "validTuple (ms_OrgName sc) tenant site u"
    using assms uuid_Parse_length[OF assms(1)] by (simp add: validTuple_def)
  from ParseProviderID_String[OF this] show ?thesis
    using assms(1) by (simp add: SetProviderID_def getProviderID_def pid_String_nonempty Let_def)
qed

section \<open>Identifier codec: the round trip\<close>

text \<open>
  C6. The identifier codec round-trips exactly: decoding the encoding of a valid 4-tuple
  \<open>(org, tenant, site, u)\<close> returns that tuple. A string whose scheme or segment count
  does not match the grammar decodes to a structural error; a string that matches and
  whose last segment is not a valid UUID decodes to a value error. At the machine scope,
  \<open>SetProviderID\<close> followed by \<open>ProviderID\<close> gives back the organization, tenant, site and
  the parsed instance id.
\<close>

theorem C6_identifier_roundtrip:
  "(validTuple org tenant site u \<longrightarrow>
      ParseProviderID (pid_String (NewProviderID org tenant site u)) =
      Inr (NewProviderID org tenant site u)) \<and>
   (\<not> prefix (scheme @ ''://'') s \<or> length (segments s) \<noteq> 4 \<longrightarrow>
      ParseProviderID s = Inl StructuralError) \<and>
   (prefix (scheme @ ''://'') s \<and> length (segments s) = 4 \<and>
    uuid_Parse (last (segments s)) = Inl e \<longrightarrow>
      ParseProviderID s = Inl (ValueError e)) \<and>
   (uuid_Parse instanceIDStr = Inr i \<and> CHR ''/'' \<notin> set (ms_OrgName sc) \<and>
    CHR ''/'' \<notin> set tenantName \<and> CHR ''/'' \<notin> set siteName \<longrightarrow>
      (\<exists>sc'. SetProviderID tenantName siteName instanceIDStr sc = (None, sc') \<and>
             getProviderID sc' = Some (NewProviderID (ms_OrgName sc) tenantName siteName i)))"
  using ParseProviderID_String ParseProviderID_structural ParseProviderID_value
    SetProviderID_getProviderID
  by blast

theorem C6_identifier_roundtrip_witness:
  "ParseProviderID (pid_String (NewProviderID ''acme'' ''tenant-1'' ''site-a'' exampleUUID)) =
     Inr (NewProviderID ''acme'' ''tenant-1'' ''site-a'' exampleUUID) \<and>
   ParseProviderID ''aws://acme/tenant-1/site-a/550e8400-e29b-41d4-a716-446655440000'' =
     Inl StructuralError \<and>
   ParseProviderID ''nvidia-bmm://acme/site-a/550e8400-e29b-41d4-a716-446655440000'' =
     Inl StructuralError \<and>
   ParseProviderID ''nvidia-bmm://acme/tenant-1/site-a/not-a-uuid'' =
     Inl (ValueError (Errorf ''invalid UUID length: %d'' [D 10])) \<and>
   (\<exists>sc'. SetProviderID ''tenant-1'' ''site-a'' ''550E8400-E29B-41D4-A716-446655440000'' exampleScope =
            (None, sc') \<and>
          getProviderID sc' = Some (NewProviderID ''acme'' ''tenant-1'' ''site-a'' exampleUUID))"
proof -
  have h1: "validTuple ''acme'' ''tenant-1'' ''site-a'' exampleUUID"
    by code_simp
  have h2: "\<not> prefix (scheme @ ''://'')
              ''aws://acme/tenant-1/site-a/550e8400-e29b-41d4-a716-446655440000'' \<or>
            length (segments ''aws://acme/tenant-1/site-a/550e8400-e29b-41d4-a716-446655440000'') \<noteq> 4"
    by code_simp
  have h3: "\<not> prefix (scheme @ ''://'')
              ''nvidia-bmm://acme/site-a/550e8400-e29b-41d4-a716-446655440000'' \<or>
            length (segments ''nvidia-bmm://acme/site-a/550e8400-e29b-41d4-a716-446655440000'') \<noteq> 4"
    by code_simp
  have h4: "prefix (scheme @ ''://'') ''nvidia-bmm://acme/tenant-1/site-a/not-a-uuid'' \<and>
            length (segments ''nvidia-bmm://acme/tenant-1/site-a/not-a-uuid'') = 4 \<and>
            uuid_Parse (last (segments ''nvidia-bmm://acme/tenant-1/site-a/not-a-uuid'')) =
              Inl (Errorf ''invalid UUID length: %d'' [D 10])"
    by code_simp
  have h5: "uuid_Parse ''550E8400-E29B-41D4-A716-446655440000'' = Inr exampleUUID \<and>
            CHR ''/'' \<notin> set (ms_OrgName exampleScope) \<and>
            CHR ''/'' \<notin> set ''tenant-1'' \<and> CHR ''/'' \<notin> set ''site-a''"
    by code_simp
  have o: "ms_OrgName exampleScope = ''acme''"
    by (simp add: exampleScope_def)
  show ?thesis
    using h1 h2 h3 h4 h5
      C6_identifier_roundtrip[of "''acme''" "''tenant-1''" "''site-a''" exampleUUID
        "''aws://acme/tenant-1/site-a/550e8400-e29b-41d4-a716-446655440000''" _
        "''550E8400-E29B-41D4-A716-446655440000''" exampleUUID exampleScope
        "''tenant-1''" "''site-a''"]
      C6_identifier_roundtrip[of _ _ _ _
        "''nvidia-bmm://acme/site-a/550e8400-e29b-41d4-a716-446655440000''"]
      C6_identifier_roundtrip[of _ _ _ _
        "''nvidia-bmm://acme/tenant-1/site-a/not-a-uuid''"
        "Errorf ''invalid UUID length: %d'' [D 10]"]
    unfolding o by blast
qed

section \<open>Transport errors in a cluster pass\<close>



lemma createFailed_Nil [simp]: "\<not> createFailed cl h []"
  by (simp add: createFailed_def)






lemma smooth_refl [simp]: "smooth cl s s"
  by (simp add: smooth_def)





lemma Trace_setFinalizers [simp]: "Trace (setFinalizers f s) = Trace s"
  by (simp add: scope_defs)













lemma Trace_SetVPCID [simp]: "Trace (SetVPCID i s) = Trace s"
  by (simp add: scope_defs)

lemma IsReady_SetVPCID [simp]: "IsReady (SetVPCID i s) = IsReady s"
  by (simp add: scope_defs)





lemma spec_SetVPCID [simp]:
  "cluster_Spec (NvidiaBMMCluster (SetVPCID i s)) = cluster_Spec (NvidiaBMMCluster s)"
  by (simp add: scope_defs)



section \<open>Cached ids that no longer resolve\<close>











section \<open>The readiness gates of the machine controller\<close>

lemma Reconcile_gated:
  assumes "fetched k req m machine cluster c" and "gateClosed c machine"
  shows "Reconcile r k req =
           ((if IsPaused cluster m then Result0 else \<lparr>Requeue = False, RequeueAfter = 10 * Second\<rparr>, None),
            None)"
  using assms by (auto simp: fetched_def gateClosed_def Reconcile_def)

text \<open>
  C1. Take a machine pass whose reads succeed, of a \<^verbatim>\<open>NvidiaBMMMachine\<close> that is not being
  deleted, with the cluster not ready or the bootstrap-data secret name unset. The pass
  ends before it has a patch helper, a scope or a client: it issues no remote call and
  leaves the object as it was, its \<^verbatim>\<open>Status.InstanceID\<close> included, and it returns no error.
  It asks for a requeue after ten seconds when neither the cluster nor the object is
  paused; when one of them is paused it returns the empty result, because the pause
  check stands before the two gates.
\<close>

theorem C1_gated_pass_waits:
  assumes "fetched k req m machine cluster c"
    and "bmm_DeletionTimestamp m = None"
    and "gateClosed c machine"
  shows "snd (Reconcile r k req) = None \<and>
         callsOf (Reconcile r k req) = [] \<and>
         objectAfter m (Reconcile r k req) = m \<and>
         InstanceID (bmm_Status (objectAfter m (Reconcile r k req))) = InstanceID (bmm_Status m) \<and>
         snd (fst (Reconcile r k req)) = None \<and>
         fst (fst (Reconcile r k req)) =
           (if IsPaused cluster m then \<lparr>Requeue = False, RequeueAfter = 0\<rparr>
            else \<lparr>Requeue = False, RequeueAfter = 10 * Second\<rparr>)"
  using Reconcile_gated[OF assms(1,3), of r]
  by (simp add: callsOf_def objectAfter_def Result0_def)

lemma example_fetched:
  "fetched (exampleKube paused ready secret deletion) exampleRequest
     ((ms_NvidiaBMMMachine exampleScope)\<lparr>bmm_DeletionTimestamp := deletion\<rparr>)
     ((ms_Machine exampleScope)\<lparr>machine_DataSecretName := secret\<rparr>)
     \<lparr>capi_Name = ''c1'', capi_Namespace = ''default'', capi_Paused = paused,
      capi_InfrastructureRef_Name = ''c1''\<rparr>
     ((ms_NvidiaBMMCluster exampleScope)
        \<lparr>cluster_Status := (cluster_Status (ms_NvidiaBMMCluster exampleScope))\<lparr>cluster_Ready := ready\<rparr>\<rparr>)"
  by (simp add: fetched_def exampleKube_def exampleRequest_def)

theorem C1_gated_pass_waits_witness:
  "Reconcile exampleReconciler (exampleKube False False (Some ''cp-0-bootstrap'') None) exampleRequest =
     ((\<lparr>Requeue = False, RequeueAfter = 10 * Second\<rparr>, None), None) \<and>
   Reconcile exampleReconciler (exampleKube False True None None) exampleRequest =
     ((\<lparr>Requeue = False, RequeueAfter = 10 * Second\<rparr>, None), None) \<and>
   callsOf (Reconcile exampleReconciler (exampleKube False True None None) exampleRequest) = []"
proof -
  have p: "\<not> IsPaused \<lparr>capi_Name = ''c1'', capi_Namespace = ''default'', capi_Paused = False,
      capi_InfrastructureRef_Name = ''c1''\<rparr> ((ms_NvidiaBMMMachine exampleScope)\<lparr>bmm_DeletionTimestamp := None\<rparr>)"
    by code_simp
  have g1: "gateClosed ((ms_NvidiaBMMCluster exampleScope)
        \<lparr>cluster_Status := (cluster_Status (ms_NvidiaBMMCluster exampleScope))\<lparr>cluster_Ready := False\<rparr>\<rparr>)
        ((ms_Machine exampleScope)\<lparr>machine_DataSecretName := Some ''cp-0-bootstrap''\<rparr>)"
    by (simp add: gateClosed_def)
  have g2: "gateClosed ((ms_NvidiaBMMCluster exampleScope)
        \<lparr>cluster_Status := (cluster_Status (ms_NvidiaBMMCluster exampleScope))\<lparr>cluster_Ready := True\<rparr>\<rparr>)
        ((ms_Machine exampleScope)\<lparr>machine_DataSecretName := None\<rparr>)"
    by (simp add: gateClosed_def)
  have d: "bmm_DeletionTimestamp ((ms_NvidiaBMMMachine exampleScope)\<lparr>bmm_DeletionTimestamp := None\<rparr>) = None"
    by simp
  note a = C1_gated_pass_waits[where r = exampleReconciler,
      OF example_fetched[of False False "Some ''cp-0-bootstrap''" None] d g1]
  note b = C1_gated_pass_waits[where r = exampleReconciler,
      OF example_fetched[of False True None None] d g2]
  show ?thesis using a b p by (simp add: prod_eq_iff)
qed

text \<open>
  A pass that the wording "returns a fixed-delay 10-second requeue" does not cover: the
  cluster is paused and not ready, the machine is not being deleted, and \<^verbatim>\<open>Reconcile\<close>
  returns the empty result, without a requeue delay.
\<close>

theorem C1_paused_pass_counterexample:
  "fetched (exampleKube True False (Some ''cp-0-bootstrap'') None) exampleRequest
     ((ms_NvidiaBMMMachine exampleScope)\<lparr>bmm_DeletionTimestamp := None\<rparr>)
     ((ms_Machine exampleScope)\<lparr>machine_DataSecretName := Some ''cp-0-bootstrap''\<rparr>)
     \<lparr>capi_Name = ''c1'', capi_Namespace = ''default'', capi_Paused = True,
      capi_InfrastructureRef_Name = ''c1''\<rparr>
     ((ms_NvidiaBMMCluster exampleScope)
        \<lparr>cluster_Status := (cluster_Status (ms_NvidiaBMMCluster exampleScope))\<lparr>cluster_Ready := False\<rparr>\<rparr>) \<and>
   Reconcile exampleReconciler (exampleKube True False (Some ''cp-0-bootstrap'') None) exampleRequest =
     ((\<lparr>Requeue = False, RequeueAfter = 0\<rparr>, None), None) \<and>
   RequeueAfter (fst (fst (Reconcile exampleReconciler
      (exampleKube True False (Some ''cp-0-bootstrap'') None) exampleRequest))) \<noteq> 10 * Second"
proof -
  have "Reconcile exampleReconciler (exampleKube True False (Some ''cp-0-bootstrap'') None) exampleRequest =
     ((\<lparr>Requeue = False, RequeueAfter = 0\<rparr>, None), None)"
    by code_simp
  then show ?thesis using example_fetched[of True False "Some ''cp-0-bootstrap''" None]
    by (simp add: Second_def)
qed

text \<open>
  C10. Take a machine pass whose reads succeed, of a \<^verbatim>\<open>NvidiaBMMMachine\<close> whose deletion
  timestamp is set, with the cluster not ready or the bootstrap-data secret name unset.
  The two gates stand before the test of the deletion timestamp, so the pass does not
  reach \<^verbatim>\<open>reconcileDelete\<close>: it issues no remote call, in particular no delete of the
  instance, the finalizers of the object are as before, and no error is returned. The
  result is a requeue after ten seconds when neither the cluster nor the object is
  paused, and the empty result when one of them is.
\<close>

theorem C10_gates_precede_deletion:
  assumes "fetched k req m machine cluster c"
    and "bmm_DeletionTimestamp m \<noteq> None"
    and "gateClosed c machine"
  shows "snd (Reconcile r k req) = None \<and>
         callsOf (Reconcile r k req) = [] \<and>
         list_all (\<lambda>c. \<not> isDeleteInstance c) (callsOf (Reconcile r k req)) \<and>
         bmm_Finalizers (objectAfter m (Reconcile r k req)) = bmm_Finalizers m \<and>
         snd (fst (Reconcile r k req)) = None \<and>
         fst (fst (Reconcile r k req)) =
           (if IsPaused cluster m then \<lparr>Requeue = False, RequeueAfter = 0\<rparr>
            else \<lparr>Requeue = False, RequeueAfter = 10 * Second\<rparr>)"
  using Reconcile_gated[OF assms(1,3), of r]
  by (simp add: callsOf_def objectAfter_def Result0_def)

text \<open>With both gates open and nothing paused, the pass of the same machine under deletion
  does reach \<^verbatim>\<open>reconcileDelete\<close>: the instance delete is issued and the finalizer removed.\<close>

lemma open_deletion:
  "Reconcile exampleReconciler (exampleKube False True (Some ''cp-0-bootstrap'') (Some 7)) exampleRequest =
     ((\<lparr>Requeue = False, RequeueAfter = 0\<rparr>, None),
      Some (exampleScope\<lparr>ms_NvidiaBMMMachine :=
              (ms_NvidiaBMMMachine exampleScope)\<lparr>bmm_DeletionTimestamp := Some 7, bmm_Finalizers := []\<rparr>,
            ms_Trace := [DeleteInstance exampleUUID]\<rparr>))"
  by code_simp

theorem C10_gates_precede_deletion_witness:
  "Reconcile exampleReconciler (exampleKube False False (Some ''cp-0-bootstrap'') (Some 7)) exampleRequest =
     ((\<lparr>Requeue = False, RequeueAfter = 10 * Second\<rparr>, None), None) \<and>
   callsOf (Reconcile exampleReconciler (exampleKube False False (Some ''cp-0-bootstrap'') (Some 7))
              exampleRequest) = [] \<and>
   bmm_Finalizers (objectAfter ((ms_NvidiaBMMMachine exampleScope)\<lparr>bmm_DeletionTimestamp := Some 7\<rparr>)
     (Reconcile exampleReconciler (exampleKube False False (Some ''cp-0-bootstrap'') (Some 7)) exampleRequest)) =
     [NvidiaBMMMachineFinalizer] \<and>
   callsOf (Reconcile exampleReconciler (exampleKube False True (Some ''cp-0-bootstrap'') (Some 7))
              exampleRequest) = [DeleteInstance exampleUUID] \<and>
   bmm_Finalizers (objectAfter ((ms_NvidiaBMMMachine exampleScope)\<lparr>bmm_DeletionTimestamp := Some 7\<rparr>)
     (Reconcile exampleReconciler (exampleKube False True (Some ''cp-0-bootstrap'') (Some 7)) exampleRequest)) = []"
proof -
  have p: "\<not> IsPaused \<lparr>capi_Name = ''c1'', capi_Namespace = ''default'', capi_Paused = False,
      capi_InfrastructureRef_Name = ''c1''\<rparr> ((ms_NvidiaBMMMachine exampleScope)\<lparr>bmm_DeletionTimestamp := Some 7\<rparr>)"
    by code_simp
  have g: "gateClosed ((ms_NvidiaBMMCluster exampleScope)
        \<lparr>cluster_Status := (cluster_Status (ms_NvidiaBMMCluster exampleScope))\<lparr>cluster_Ready := False\<rparr>\<rparr>)
        ((ms_Machine exampleScope)\<lparr>machine_DataSecretName := Some ''cp-0-bootstrap''\<rparr>)"
    by (simp add: gateClosed_def)
  have d: "bmm_DeletionTimestamp ((ms_NvidiaBMMMachine exampleScope)\<lparr>bmm_DeletionTimestamp := Some 7\<rparr>) \<noteq> None"
    by simp
  have f: "bmm_Finalizers (ms_NvidiaBMMMachine exampleScope) = [NvidiaBMMMachineFinalizer]"
    by (simp add: exampleScope_def)
  note a = C10_gates_precede_deletion[where r = exampleReconciler,
      OF example_fetched[of False False "Some ''cp-0-bootstrap''" "Some 7"] d g]
  show ?thesis using a p f
    by (simp add: prod_eq_iff open_deletion callsOf_def objectAfter_def)
qed

text \<open>
  A pass of a machine under deletion with a closed gate that does not return the
  10-second requeue: the cluster is paused, and \<^verbatim>\<open>Reconcile\<close> returns the empty result.
\<close>

theorem C10_paused_deletion_counterexample:
  "fetched (exampleKube True True None (Some 7)) exampleRequest
     ((ms_NvidiaBMMMachine exampleScope)\<lparr>bmm_DeletionTimestamp := Some 7\<rparr>)
     ((ms_Machine exampleScope)\<lparr>machine_DataSecretName := None\<rparr>)
     \<lparr>capi_Name = ''c1'', capi_Namespace = ''default'', capi_Paused = True,
      capi_InfrastructureRef_Name = ''c1''\<rparr>
     ((ms_NvidiaBMMCluster exampleScope)
        \<lparr>cluster_Status := (cluster_Status (ms_NvidiaBMMCluster exampleScope))\<lparr>cluster_Ready := True\<rparr>\<rparr>) \<and>
   Reconcile exampleReconciler (exampleKube True True None (Some 7)) exampleRequest =
     ((\<lparr>Requeue = False, RequeueAfter = 0\<rparr>, None), None) \<and>
   RequeueAfter (fst (fst (Reconcile exampleReconciler
      (exampleKube True True None (Some 7)) exampleRequest))) \<noteq> 10 * Second"
proof -
  have "Reconcile exampleReconciler (exampleKube True True None (Some 7)) exampleRequest =
     ((\<lparr>Requeue = False, RequeueAfter = 0\<rparr>, None), None)"
    by code_simp
  then show ?thesis using example_fetched[of True True None "Some 7"]
    by (simp add: Second_def)
qed

end
